theory Spec2Isabelle
  imports Complex_Main "HOL-Library.Sublist" "HOL-Library.Multiset"
begin

section \<open>Free-energy comparison plots: a model of the plotting layer\<close>

text \<open>
  The repository draws calculated against experimental free energies with two charting
  back ends (\<^verbatim>\<open>plotting.py\<close> for matplotlib, \<^verbatim>\<open>plotlying.py\<close> for plotly) and
  annotates every scatter plot with bootstrap statistics.

  Conventions of the model:
  \<^item> Python floats are modelled as exact \<open>real\<close> numbers (no rounding, no NaN).
  \<^item> A Python \<open>str\<close> is a \<open>string\<close>; the few non-ASCII characters of the source
    (the Greek capital delta of the axis labels) are written as their UTF-8 bytes.
  \<^item> A raised exception is the \<open>Inl\<close> branch of a sum.
  \<^item> Calls into the charting libraries are recorded, in program order, as a list of
    events; the libraries themselves are opaque.
  \<^item> The caller's objects and every list or array the code creates live in an explicit
    store, so that writes and aliasing are visible.
\<close>

subsection \<open>Exceptions\<close>

datatype error =
    ShapeMismatch | UnknownMetric | UndefinedStatistic
  | ValueError | TypeError | KeyError | IndexError | ZeroDivisionError

subsection \<open>Python and numpy primitives used by the source\<close>

text \<open>\<^verbatim>\<open>min(x)\<close> and \<^verbatim>\<open>max(x)\<close>: a \<^verbatim>\<open>ValueError\<close> on an empty sequence.\<close>

fun py_min :: "real list \<Rightarrow> error + real" where
  "py_min [] = Inl ValueError"
| "py_min (v # vs) = Inr (fold min vs v)"

fun py_max :: "real list \<Rightarrow> error + real" where
  "py_max [] = Inl ValueError"
| "py_max (v # vs) = Inr (fold max vs v)"

text \<open>
  \<^verbatim>\<open>x - y\<close> on one-dimensional numpy arrays: elementwise on equal shapes, a
  one-element array is broadcast, any other pair of shapes is a \<^verbatim>\<open>ValueError\<close>.
\<close>

definition np_sub :: "real list \<Rightarrow> real list \<Rightarrow> error + real list" where
  "np_sub x y =
     (if length x = length y then Inr (map2 (-) x y)
      else if length y = 1 then Inr (map (\<lambda>a. a - hd y) x)
      else if length x = 1 then Inr (map (\<lambda>b. hd x - b) y)
      else Inl ValueError)"

text \<open>
  The arithmetic mean in exact arithmetic, for the metrics of the estimator and as the
  value that \<^verbatim>\<open>np.mean\<close> approximates.
\<close>

definition mean :: "real list \<Rightarrow> real" where
  "mean vs = sum_list vs / real (length vs)"

text \<open>
  The arithmetic of numpy on arrays of doubles. \<^verbatim>\<open>np.mean\<close> and the subtraction of arrays
  are library code that rounds its results; within the plotting code they are the two
  operations \<open>np_mean\<close> and \<open>np_subtract\<close> of a \<open>numpy\<close>, on doubles embedded in the reals.
\<close>

record numpy =
  np_mean :: "real list \<Rightarrow> real"
  np_subtract :: "real \<Rightarrow> real \<Rightarrow> real"

text \<open>
  IEEE 754 binary64 with rounding to nearest, ties to even. \<open>binade n a\<close> is the exponent
  \<open>e\<close> with \<open>2\<^sup>e \<le> a < 2\<^sup>e\<^sup>+\<^sup>1\<close>, found in at most \<open>n\<close> steps, which is enough for every
  magnitude of the binary64 range when \<open>n\<close> is 1100; \<open>ulp e\<close> is the spacing of the doubles
  with that exponent, \<open>2\<^sup>e\<^sup>-\<^sup>5\<^sup>2\<close>, and below \<open>2\<^sup>-\<^sup>1\<^sup>0\<^sup>2\<^sup>2\<close> the spacing is that of the
  subnormal numbers. \<open>float64 r\<close> is the double nearest to \<open>r\<close>. Infinities and NaN have no
  counterpart in the reals: a result beyond the largest double is outside this model.
\<close>

definition round_half_even :: "real \<Rightarrow> int" where
  "round_half_even r =
     (let f = \<lfloor>r\<rfloor>
      in if r - of_int f < 1 / 2 then f
         else if 1 / 2 < r - of_int f then f + 1
         else if even f then f else f + 1)"

fun binade :: "nat \<Rightarrow> real \<Rightarrow> int" where
  "binade 0 a = 0"
| "binade (Suc n) a =
     (if 2 \<le> a then binade n (a / 2) + 1
      else if a < 1 then binade n (2 * a) - 1
      else 0)"

definition ulp :: "int \<Rightarrow> real" where
  "ulp e = (if 52 \<le> e then 2 ^ nat (e - 52) else 1 / 2 ^ nat (52 - e))"

definition float64 :: "real \<Rightarrow> real" where
  "float64 r =
     (if r = 0 then 0
      else let e = max (binade 1100 \<bar>r\<bar>) (- 1022)
           in of_int (round_half_even (r / ulp e)) * ulp e)"

text \<open>
  numpy on doubles: the subtraction rounds once; \<^verbatim>\<open>np.mean\<close> adds the elements, rounding
  after each addition, and rounds the quotient by the number of elements. The elements are
  added here from the first to the last, which is the order of numpy for an array of fewer
  than eight elements (longer arrays are added in blocks).
\<close>

definition float64_sum :: "real list \<Rightarrow> real" where
  "float64_sum xs = foldl (\<lambda>s v. float64 (s + v)) 0 xs"

definition float64_numpy :: numpy where
  "float64_numpy =
     \<lparr>np_mean = (\<lambda>xs. float64 (float64_sum xs / real (length xs))),
      np_subtract = (\<lambda>a b. float64 (a - b))\<rparr>"

text \<open>Exact arithmetic, in which nothing is rounded.\<close>

definition exact_numpy :: numpy where
  "exact_numpy = \<lparr>np_mean = mean, np_subtract = (\<lambda>a b. a - b)\<rparr>"

text \<open>\<^verbatim>\<open>np.any\<close>: some element is non-zero; \<^verbatim>\<open>np.any(None)\<close> is false.\<close>

definition np_any :: "real list option \<Rightarrow> bool" where
  "np_any c = (case c of None \<Rightarrow> False | Some vs \<Rightarrow> list_ex (\<lambda>v. v \<noteq> 0) vs)"

text \<open>\<^verbatim>\<open>s.find(sub)\<close>: the lowest index at which \<open>sub\<close> occurs in \<open>s\<close>, or \<open>-1\<close>.\<close>

fun find_from :: "string \<Rightarrow> string \<Rightarrow> nat \<Rightarrow> int" where
  "find_from sub [] i = (if sub = [] then int i else - 1)"
| "find_from sub (c # cs) i =
     (if prefix sub (c # cs) then int i else find_from sub cs (Suc i))"

definition py_find :: "string \<Rightarrow> string \<Rightarrow> int" where
  "py_find s sub = find_from sub s 0"

text \<open>\<^verbatim>\<open>sep.join(parts)\<close>.\<close>

fun join :: "string \<Rightarrow> string list \<Rightarrow> string" where
  "join sep [] = []"
| "join sep [p] = p"
| "join sep (p # q # ps) = p @ sep @ join sep (q # ps)"

text \<open>
  Format specifications: \<^verbatim>\<open>{s:5s}\<close> pads a string on the right to width 5,
  \<^verbatim>\<open>{v:5.2f}\<close> pads the two-decimal rendering of a float on the left to width 5;
  neither truncates.
\<close>

definition ljust :: "nat \<Rightarrow> string \<Rightarrow> string" where
  "ljust w s = s @ replicate (w - length s) (CHR '' '')"

definition rjust :: "nat \<Rightarrow> string \<Rightarrow> string" where
  "rjust w s = replicate (w - length s) (CHR '' '') @ s"

text \<open>\<^verbatim>\<open>str(n)\<close> for a non-negative integer (the sample count in the title).\<close>

definition digit_char :: "nat \<Rightarrow> char" where
  "digit_char d = ''0123456789'' ! d"

function str_nat :: "nat \<Rightarrow> string" where
  "str_nat n = (if n < 10 then [digit_char n] else str_nat (n div 10) @ [digit_char (n mod 10)])"
  by pat_completeness auto
termination
  by (relation "measure id") auto

declare str_nat.simps [simp del]

text \<open>
  \<^verbatim>\<open>itertools.combinations(range(n), 2)\<close>: all pairs \<open>(a, b)\<close> with \<open>a < b < n\<close>, in
  lexicographic order.
\<close>

definition combinations2 :: "nat \<Rightarrow> (nat \<times> nat) list" where
  "combinations2 n = concat (map (\<lambda>a. map (Pair a) [Suc a..<n]) [0..<n])"

text \<open>Characters the source writes with escapes.\<close>

definition newline :: string where
  "newline = [CHR 0x0A]"

definition backslash :: string where
  "backslash = [CHR 0x5C]"

definition Delta :: string where
  "Delta = [CHR 0xCE, CHR 0x94]"

subsection \<open>The statistic estimator\<close>

record stat_result =
  mle :: real
  low :: real
  high :: real

text \<open>
  The plotting code calls \<^verbatim>\<open>stats.bootstrap_statistic\<close>. Within one plotting call the
  estimator is a function of the number of calls made before (which stands for the state
  of the random stream) and of its arguments \<open>x\<close>, \<open>y\<close>, \<open>xerr\<close>, \<open>yerr\<close> and
  \<open>statistic\<close>; it either raises or returns the three floats.
\<close>

type_synonym estimator =
  "nat \<Rightarrow> real list \<Rightarrow> real list \<Rightarrow> real list option \<Rightarrow> real list option \<Rightarrow> string
     \<Rightarrow> error + stat_result"

datatype metric = RMSE | MUE | R2 | rho

text \<open>
  Modelled from the spec: the module \<^verbatim>\<open>freeenergyframework/stats.py\<close> that defines
  \<^verbatim>\<open>bootstrap_statistic\<close> is not among the sources. The definitions from
  \<open>parse_metric\<close> to \<open>estimate\<close> follow sections 3, 4.1 and 7 of the specification:
  the metric selector, the four metric definitions, the bootstrap over paired indices with
  optional Gaussian perturbation, the percentile interval and the three errors. The
  random source is injected (\<open>rng\<close>), the number of resamples and the percentile
  function are parameters, since the specification leaves them to the implementer.
\<close>

definition parse_metric :: "string \<Rightarrow> error + metric" where
  "parse_metric name =
     (if name = ''RMSE'' then Inr RMSE
      else if name = ''MUE'' then Inr MUE
      else if name = ''R2'' then Inr R2
      else if name = ''rho'' then Inr rho
      else Inl UnknownMetric)"

text \<open>
  Modelled from the spec: the root mean squared error of section 3.
\<close>

definition rmse :: "real list \<Rightarrow> real list \<Rightarrow> real" where
  "rmse x y = sqrt (mean (map2 (\<lambda>a b. (b - a)\<^sup>2) x y))"

text \<open>
  Modelled from the spec: the mean unsigned error of section 3.
\<close>

definition mue :: "real list \<Rightarrow> real list \<Rightarrow> real" where
  "mue x y = mean (map2 (\<lambda>a b. \<bar>b - a\<bar>) x y)"

text \<open>
  Modelled from the spec: the Pearson correlation, undefined (an error) for fewer than two
  points or a constant sequence.
\<close>

definition pearson :: "real list \<Rightarrow> real list \<Rightarrow> error + real" where
  "pearson x y =
     (let mx = mean x; my = mean y;
          sxy = sum_list (map2 (\<lambda>a b. (a - mx) * (b - my)) x y);
          sxx = sum_list (map (\<lambda>a. (a - mx)\<^sup>2) x);
          syy = sum_list (map (\<lambda>b. (b - my)\<^sup>2) y)
      in if length x < 2 \<or> sxx = 0 \<or> syy = 0 then Inl UndefinedStatistic
         else Inr (sxy / sqrt (sxx * syy)))"

text \<open>
  Modelled from the spec: ranks for the Spearman coefficient; tied values share the average
  of their ranks.
\<close>

definition ranks :: "real list \<Rightarrow> real list" where
  "ranks vs =
     map (\<lambda>v. real (length (filter (\<lambda>u. u < v) vs))
              + (real (length (filter (\<lambda>u. u = v) vs)) + 1) / 2) vs"

text \<open>
  Modelled from the spec: the value of a metric on a paired sample; \<open>R2\<close> is the squared
  Pearson correlation and \<open>rho\<close> the Pearson correlation of the ranks.
\<close>

fun metric_value :: "metric \<Rightarrow> real list \<Rightarrow> real list \<Rightarrow> error + real" where
  "metric_value RMSE x y = (if x = [] then Inl UndefinedStatistic else Inr (rmse x y))"
| "metric_value MUE x y = (if x = [] then Inl UndefinedStatistic else Inr (mue x y))"
| "metric_value R2 x y = (case pearson x y of Inl e \<Rightarrow> Inl e | Inr r \<Rightarrow> Inr (r\<^sup>2))"
| "metric_value rho x y = pearson (ranks x) (ranks y)"

text \<open>
  Modelled from the spec: the random source. For resample \<open>k\<close> and position \<open>i\<close>, a raw natural number that
  selects the index \<open>index_draw k i mod N\<close>, and two standard normal variates that are
  scaled by the drawn point's uncertainties.
\<close>

record rng =
  index_draw :: "nat \<Rightarrow> nat \<Rightarrow> nat"
  normal_x :: "nat \<Rightarrow> nat \<Rightarrow> real"
  normal_y :: "nat \<Rightarrow> nat \<Rightarrow> real"

text \<open>
  Modelled from the spec: the Gaussian perturbation of a drawn point, zero when no
  uncertainties are given.
\<close>

definition perturb :: "real list option \<Rightarrow> nat \<Rightarrow> real \<Rightarrow> real" where
  "perturb err j z = (case err of None \<Rightarrow> 0 | Some e \<Rightarrow> z * (e ! j))"

text \<open>
  Modelled from the spec: one bootstrap resample, \<open>N\<close> paired indices drawn with replacement.
\<close>

definition resample ::
  "rng \<Rightarrow> real list \<Rightarrow> real list \<Rightarrow> real list option \<Rightarrow> real list option \<Rightarrow> nat
     \<Rightarrow> real list \<times> real list" where
  "resample g x y xerr yerr k =
     (let N = length x;
          idx = map (\<lambda>i. index_draw g k i mod N) [0..<N]
      in (map (\<lambda>i. x ! (idx ! i) + perturb xerr (idx ! i) (normal_x g k i)) [0..<N],
          map (\<lambda>i. y ! (idx ! i) + perturb yerr (idx ! i) (normal_y g k i)) [0..<N]))"

text \<open>
  Modelled from the spec: the first error among the resampled metric values propagates.
\<close>

fun collect :: "(error + 'a) list \<Rightarrow> error + 'a list" where
  "collect [] = Inr []"
| "collect (Inl e # rs) = Inl e"
| "collect (Inr v # rs) = (case collect rs of Inl e \<Rightarrow> Inl e | Inr vs \<Rightarrow> Inr (v # vs))"

text \<open>
  Modelled from the spec: the precondition on the lengths of the inputs.
\<close>

definition shape_ok ::
  "real list \<Rightarrow> real list \<Rightarrow> real list option \<Rightarrow> real list option \<Rightarrow> bool" where
  "shape_ok x y xerr yerr \<longleftrightarrow>
     length x = length y
     \<and> (case xerr of None \<Rightarrow> True | Some e \<Rightarrow> length e = length x)
     \<and> (case yerr of None \<Rightarrow> True | Some e \<Rightarrow> length e = length y)"

text \<open>
  Modelled from the spec: the estimator. The lengths are checked first, then the metric name,
  then the metric on the original sample (the \<open>mle\<close>), then the resamples.
\<close>

definition estimate ::
  "rng \<Rightarrow> nat \<Rightarrow> (real \<Rightarrow> real list \<Rightarrow> real) \<Rightarrow>
   real list \<Rightarrow> real list \<Rightarrow> real list option \<Rightarrow> real list option \<Rightarrow> string
     \<Rightarrow> error + stat_result" where
  "estimate g n_resamples percentile x y xerr yerr name =
     (if \<not> shape_ok x y xerr yerr then Inl ShapeMismatch
      else case parse_metric name of
        Inl e \<Rightarrow> Inl e
      | Inr m \<Rightarrow>
         (case metric_value m x y of
            Inl e \<Rightarrow> Inl e
          | Inr v \<Rightarrow>
             (case collect (map (\<lambda>k. case resample g x y xerr yerr k of
                                        (xs, ys) \<Rightarrow> metric_value m xs ys)
                                [0..<n_resamples]) of
                Inl e \<Rightarrow> Inl e
              | Inr values \<Rightarrow>
                  Inr \<lparr>mle = v, low = percentile 2.5 values, high = percentile 97.5 values\<rparr>)))"

subsection \<open>Calls into the charting libraries\<close>

text \<open>A cell of a pandas \<^verbatim>\<open>DataFrame\<close>: a number or a label.\<close>

datatype cell = Num real | Str string

text \<open>
  A plotly trace, with the arguments the source computes:
  \<^item> \<open>Line x y line_color line_dash\<close>: a \<^verbatim>\<open>go.Scatter\<close> in mode \<^verbatim>\<open>lines\<close>;
  \<^item> \<open>Margin x y name\<close>: a filled error band around the diagonal;
  \<^item> \<open>Markers x y name color colorbar error_x error_y text\<close>: the data points
    (\<open>colorbar\<close> tells whether a colour bar is attached);
  \<^item> \<open>Bar x y error_x name\<close>: a horizontal bar series of \<^verbatim>\<open>plot_bar\<close>;
  \<^item> \<open>Exp_markers x y name size line_width\<close>: the experimental ticks of \<^verbatim>\<open>plot_bar\<close>.
\<close>

datatype trace =
    Line "real list" "real list" string string
  | Margin "real list" "real list" string
  | Markers "real list" "real list" string "real list" bool
      "real list option" "real list option" "string list"
  | Bar "real list" "cell list" "real list" string
  | Exp_markers "real list" "cell list" string real nat

text \<open>
  The events of a plotting call. \<open>Bootstrap_statistic k x y xerr yerr statistic\<close> is the
  \<open>k\<close>-th call of the estimator with its arguments; the others are matplotlib
  (\<open>Plt_\<close>, \<open>Rc_param\<close>) and plotly calls. \<open>Plt_scatter x y clr\<close> carries the values
  handed to the colour map; \<open>Update_layout title xaxis_title yaxis_title lo hi\<close> and
  \<open>Update_layout_bar title alim numEdges height\<close> carry the layout the source computes.
\<close>

datatype event =
    Rc_param string nat
  | Plt_figure
  | Plt_subplots_adjust
  | Plt_xlabel string
  | Plt_ylabel string
  | Plt_xlim "real list"
  | Plt_ylim "real list"
  | Plt_plot "real list" "real list" string
  | Plt_fill_between "real list" "real list" "real list"
  | Plt_errorbar "real list" "real list" "real list option" "real list option"
  | Plt_scatter "real list" "real list" "real list"
  | Plt_title string
  | Plt_show
  | Plt_savefig string
  | Bootstrap_statistic nat "real list" "real list" "real list option" "real list option" string
  | Go_figure
  | Add_trace trace
  | Update_layout string string string real real
  | Update_layout_bar string real nat real
  | Update_layout_empty
  | Fig_show
  | Fig_write_html string
  | Fig_write_image string

text \<open>The events that display a figure or write a file.\<close>

fun is_export :: "event \<Rightarrow> bool" where
  "is_export Plt_show = True"
| "is_export (Plt_savefig f) = True"
| "is_export Fig_show = True"
| "is_export (Fig_write_html f) = True"
| "is_export (Fig_write_image f) = True"
| "is_export e = False"

fun is_estimator_call :: "event \<Rightarrow> bool" where
  "is_estimator_call (Bootstrap_statistic k x y xerr yerr statistic) = True"
| "is_estimator_call e = False"

subsection \<open>\<^verbatim>\<open>plotting.py\<close>: the matplotlib back end\<close>

text \<open>
  Lines 56-57 (and 133-134 of \<^verbatim>\<open>plotlying.py\<close>):
  \<^verbatim>\<open>ax_min = min(min(x), min(y)) - 0.5; ax_max = max(max(x), max(y)) + 0.5\<close>.
\<close>

definition axis_range :: "real list \<Rightarrow> real list \<Rightarrow> error + real \<times> real" where
  "axis_range x y =
     (case py_min x of Inl e \<Rightarrow> Inl e | Inr min_x \<Rightarrow>
      case py_min y of Inl e \<Rightarrow> Inl e | Inr min_y \<Rightarrow>
      case py_max x of Inl e \<Rightarrow> Inl e | Inr max_x \<Rightarrow>
      case py_max y of Inl e \<Rightarrow> Inl e | Inr max_y \<Rightarrow>
        Inr (min min_x min_y - 0.5, max max_x max_y + 0.5))"

definition mpl_axis_unit :: string where
  "mpl_axis_unit = ''$['' @ backslash @ ''mathrm{kcal'' @ backslash @ '',mol^{-1}}]$''"

definition mpl_unit :: string where
  "mpl_unit = ''$'' @ backslash @ ''mathrm{kcal'' @ backslash @ '',mol^{-^1}}$''"

text \<open>
  Line 91: one line of the title. \<open>fmt2\<close> is Python's rendering of a float with the
  format \<^verbatim>\<open>.2f\<close>.
\<close>

definition mpl_stat_line :: "(real \<Rightarrow> string) \<Rightarrow> string \<Rightarrow> stat_result \<Rightarrow> string" where
  "mpl_stat_line fmt2 statistic s =
     statistic @ '':   '' @ fmt2 (mle s) @ '' [95%: '' @ fmt2 (low s) @ '', '' @ fmt2 (high s)
       @ ''] '' @ mpl_unit @ newline"

text \<open>
  Lines 88-92: the loop over \<open>statistics\<close>. \<open>k\<close> counts the estimator calls made so far,
  \<open>statistics_string\<close> is the accumulator. The loop stops at the first call that raises.
\<close>

fun mpl_statistics ::
  "estimator \<Rightarrow> (real \<Rightarrow> string) \<Rightarrow> real list \<Rightarrow> real list \<Rightarrow> real list option \<Rightarrow>
   real list option \<Rightarrow> nat \<Rightarrow> string list \<Rightarrow> string \<Rightarrow> event list \<times> (error + string)" where
  "mpl_statistics est fmt2 x y xerr yerr k [] statistics_string = ([], Inr statistics_string)"
| "mpl_statistics est fmt2 x y xerr yerr k (statistic # rest) statistics_string =
     (case est k x y xerr yerr statistic of
        Inl e \<Rightarrow> ([Bootstrap_statistic k x y xerr yerr statistic], Inl e)
      | Inr s \<Rightarrow>
          (case mpl_statistics est fmt2 x y xerr yerr (Suc k) rest
                  (statistics_string @ mpl_stat_line fmt2 statistic s) of
             (calls, r) \<Rightarrow> (Bootstrap_statistic k x y xerr yerr statistic # calls, r)))"

text \<open>Lines 98-101.\<close>

definition mpl_export :: "string option \<Rightarrow> event" where
  "mpl_export filename = (case filename of None \<Rightarrow> Plt_show | Some f \<Rightarrow> Plt_savefig f)"

text \<open>
  \<^verbatim>\<open>_master_plot\<close> of \<^verbatim>\<open>plotting.py\<close>. The result is the list of events up to the
  return or the exception, and the outcome.
\<close>

definition master_plot ::
  "estimator \<Rightarrow> (real \<Rightarrow> string) \<Rightarrow> real list \<Rightarrow> real list \<Rightarrow> string \<Rightarrow>
   real list option \<Rightarrow> real list option \<Rightarrow> string \<Rightarrow> string \<Rightarrow> string \<Rightarrow> bool \<Rightarrow> bool \<Rightarrow>
   string list \<Rightarrow> string option \<Rightarrow> event list \<times> (error + unit)" where
  "master_plot est fmt2 x y title xerr yerr method_name target_name plot_type
       guidelines origins statistics filename =
     (let nsamples = length x;
          setup =
            [Rc_param ''xtick.labelsize'' 12, Rc_param ''ytick.labelsize'' 12,
             Rc_param ''font.size'' 12, Plt_figure, Plt_subplots_adjust,
             Plt_xlabel (''Experimental '' @ plot_type @ '' '' @ mpl_axis_unit),
             Plt_ylabel (''Calculated '' @ plot_type @ '' '' @ method_name @ '' ''
                          @ mpl_axis_unit)]
      in case axis_range x y of
        Inl e \<Rightarrow> (setup, Inl e)
      | Inr (ax_min, ax_max) \<Rightarrow>
         (let scale = [ax_min, ax_max];
              small_dist = 0.5;
              frame =
                [Plt_xlim scale, Plt_ylim scale]
                @ (if origins
                   then [Plt_plot [0, 0] scale ''gray'', Plt_plot scale [0, 0] ''gray'']
                   else [])
                @ [Plt_plot scale scale ''k:'']
                @ (if guidelines
                   then [Plt_fill_between scale
                           [ax_min - small_dist, ax_max - small_dist]
                           [ax_min + small_dist, ax_max + small_dist],
                         Plt_fill_between scale
                           [ax_min - small_dist * 2, ax_max - small_dist * 2]
                           [ax_min + small_dist * 2, ax_max + small_dist * 2]]
                   else [])
          in case np_sub x y of
            Inl e \<Rightarrow> (setup @ frame, Inl e)
          | Inr d \<Rightarrow>
             (let clr = map (\<lambda>v. \<bar>v\<bar> / 2.372) d;
                  points = [Plt_errorbar x y xerr yerr, Plt_scatter x y clr]
              in case mpl_statistics est fmt2 x y xerr yerr 0 statistics [] of
                (calls, Inl e) \<Rightarrow> (setup @ frame @ points @ calls, Inl e)
              | (calls, Inr statistics_string) \<Rightarrow>
                 (let long_title =
                        title @ '' '' @ newline @ '' '' @ target_name @ '' (N = ''
                          @ str_nat nsamples @ '') '' @ newline @ '' '' @ statistics_string
                  in (setup @ frame @ points @ calls
                        @ [Plt_title long_title, mpl_export filename], Inr ())))))"

subsection \<open>\<^verbatim>\<open>plotlying.py\<close>: the plotly back end\<close>

text \<open>
  Lines 119-124 and 281-286: display or export. The test is
  \<^verbatim>\<open>filename.find('.html') > 0\<close>.
\<close>

definition plotly_export :: "string option \<Rightarrow> event" where
  "plotly_export filename =
     (case filename of
        None \<Rightarrow> Fig_show
      | Some f \<Rightarrow> if py_find f ''.html'' > 0 then Fig_write_html f else Fig_write_image f)"

text \<open>Line 241: one line of the title.\<close>

definition plotly_stat_line :: "(real \<Rightarrow> string) \<Rightarrow> string \<Rightarrow> stat_result \<Rightarrow> string" where
  "plotly_stat_line fmt2 statistic s =
     ljust 5 (statistic @ '':'') @ rjust 5 (fmt2 (mle s)) @ '' [95%: ''
       @ rjust 5 (fmt2 (low s)) @ '', '' @ rjust 5 (fmt2 (high s))
       @ ''] kcal mol<sup>-1</sup>''"

text \<open>
  Lines 237-241: the loop over \<open>statistics\<close>; the estimator is called as
  \<^verbatim>\<open>stats.bootstrap_statistic(x, y, statistic=statistic)\<close>, so that its uncertainty
  arguments take their default \<^verbatim>\<open>None\<close>. \<open>string\<close> is the list being appended to.
\<close>

fun plotly_statistics ::
  "estimator \<Rightarrow> (real \<Rightarrow> string) \<Rightarrow> real list \<Rightarrow> real list \<Rightarrow> nat \<Rightarrow> string list \<Rightarrow>
   string list \<Rightarrow> event list \<times> (error + string list)" where
  "plotly_statistics est fmt2 x y k [] string = ([], Inr string)"
| "plotly_statistics est fmt2 x y k (statistic # rest) string =
     (case est k x y None None statistic of
        Inl e \<Rightarrow> ([Bootstrap_statistic k x y None None statistic], Inl e)
      | Inr s \<Rightarrow>
          (case plotly_statistics est fmt2 x y (Suc k) rest
                  (string @ [plotly_stat_line fmt2 statistic s]) of
             (calls, r) \<Rightarrow> (Bootstrap_statistic k x y None None statistic # calls, r)))"

text \<open>Lines 199-206: the hover texts.\<close>

definition hover_text ::
  "string list option \<Rightarrow> string list list option \<Rightarrow> real list \<Rightarrow> string list" where
  "hover_text names smiles clr =
     (case names of
        Some ns \<Rightarrow>
          (case smiles of
             Some sm \<Rightarrow>
               (let smile_strings = map (join ''<br>'') sm
                in map (\<lambda>(name, smile). name @ ''<br>'' @ smile) (zip ns smile_strings))
           | None \<Rightarrow> ns)
      | None \<Rightarrow> map (\<lambda>v. []) clr)"

text \<open>\<^verbatim>\<open>_master_plot\<close> of \<^verbatim>\<open>plotlying.py\<close>.\<close>

definition plotlying_master_plot ::
  "estimator \<Rightarrow> (real \<Rightarrow> string) \<Rightarrow> real list \<Rightarrow> real list \<Rightarrow> real list option \<Rightarrow> string \<Rightarrow>
   real list option \<Rightarrow> real list option \<Rightarrow> string list option \<Rightarrow> string list list option \<Rightarrow>
   string \<Rightarrow> string \<Rightarrow> string \<Rightarrow> string \<Rightarrow> bool \<Rightarrow> bool \<Rightarrow> string list \<Rightarrow> string option
     \<Rightarrow> event list \<times> (error + unit)" where
  "plotlying_master_plot est fmt2 x y c title xerr yerr names smiles
       method_name_x method_name_y target_name plot_type guidelines origins statistics filename =
     (let nsamples = length x
      in case axis_range x y of
        Inl e \<Rightarrow> ([], Inl e)
      | Inr (ax_min, ax_max) \<Rightarrow>
         (let small_dist = 0.5;
              frame =
                [Go_figure]
                @ (if origins
                   then [Add_trace (Line [0, 0] [ax_min, ax_max] ''grey'' []),
                         Add_trace (Line [ax_min, ax_max] [0, 0] ''grey'' [])]
                   else [])
                @ (if guidelines
                   then [Add_trace (Margin [ax_min, ax_max, ax_max, ax_min]
                           [ax_min + 2 * small_dist, ax_max + 2 * small_dist,
                            ax_max - 2 * small_dist, ax_min - 2 * small_dist]
                           ''1 kcal/mol margin''),
                         Add_trace (Margin [ax_min, ax_max, ax_max, ax_min]
                           [ax_min + small_dist, ax_max + small_dist,
                            ax_max - small_dist, ax_min - small_dist]
                           ''.5 kcal/mol margin'')]
                   else [])
                @ [Add_trace (Line [ax_min, ax_max] [ax_min, ax_max] ''black'' ''dash'')];
              clr = (case c of Some cs \<Rightarrow> cs | None \<Rightarrow> map (\<lambda>v. 0) x);
              cbar = (c \<noteq> None);
              n = hover_text names smiles clr;
              points =
                [Add_trace (Markers x y (target_name @ '','' @ method_name_y) clr cbar
                   xerr yerr n)]
          in case plotly_statistics est fmt2 x y 0 statistics [] of
            (calls, Inl e) \<Rightarrow> (frame @ points @ calls, Inl e)
          | (calls, Inr string) \<Rightarrow>
             (let statistics_string = join ''<br>'' string;
                  long_title =
                    title @ ''<br>'' @ target_name @ '' (N = '' @ str_nat nsamples @ '')<br>''
                      @ statistics_string;
                  layout =
                    [Update_layout long_title
                       (method_name_x @ '' '' @ plot_type @ '' [kcal mol<sup>-1</sup>]'')
                       (method_name_y @ '' '' @ plot_type @ ''  [kcal mol<sup>-1</sup>]'')
                       ax_min ax_max]
                    @ (if \<not> np_any c then [Update_layout_empty] else [])
              in (frame @ points @ calls @ layout @ [plotly_export filename], Inr ()))))"

subsection \<open>\<^verbatim>\<open>plot_bar\<close>\<close>

text \<open>
  A \<^verbatim>\<open>DataFrame\<close>: the number of rows and the named columns, each with one cell per
  row. \<open>df_col\<close> is a column access; a missing label (or \<^verbatim>\<open>None\<close>) is a
  \<^verbatim>\<open>KeyError\<close>.
\<close>

record dataframe =
  nrows :: nat
  columns :: "(string \<times> cell list) list"

definition df_col :: "dataframe \<Rightarrow> string option \<Rightarrow> error + cell list" where
  "df_col df label =
     (case label of
        None \<Rightarrow> Inl KeyError
      | Some l \<Rightarrow> (case map_of (columns df) l of None \<Rightarrow> Inl KeyError | Some cs \<Rightarrow> Inr cs))"

fun as_floats :: "cell list \<Rightarrow> error + real list" where
  "as_floats [] = Inr []"
| "as_floats (Num v # cs) =
     (case as_floats cs of Inl e \<Rightarrow> Inl e | Inr vs \<Rightarrow> Inr (v # vs))"
| "as_floats (Str s # cs) = Inl TypeError"

text \<open>
  \<^verbatim>\<open>df.loc[:, cols].values\<close> as a matrix of floats, column by column, as
  \<^verbatim>\<open>np.fabs\<close> needs it.
\<close>

definition loc_values :: "dataframe \<Rightarrow> string option list \<Rightarrow> error + real list list" where
  "loc_values df cols =
     (case collect (map (df_col df) cols) of
        Inl e \<Rightarrow> Inl e
      | Inr cs \<Rightarrow> collect (map as_floats cs))"

text \<open>
  The sum of two matrices with the same number of rows, given by columns: equal widths
  add columnwise, a single column is broadcast, other widths are a \<^verbatim>\<open>ValueError\<close>.
\<close>

definition np_add_columns :: "real list list \<Rightarrow> real list list \<Rightarrow> error + real list list" where
  "np_add_columns A B =
     (if length A = length B then Inr (map2 (map2 (+)) A B)
      else if length B = 1 then Inr (map (\<lambda>a. map2 (+) a (hd B)) A)
      else if length A = 1 then Inr (map (\<lambda>b. map2 (+) (hd A) b) B)
      else Inl ValueError)"

text \<open>
  \<^verbatim>\<open>plot_bar\<close>. The division \<^verbatim>\<open>height / numEdges\<close> raises on a frame without
  rows. The label column is read for the first trace that is added; since the
  experimental column has been read before (line 24), at least the experimental traces
  read it.
\<close>

definition plot_bar ::
  "dataframe \<Rightarrow> string list \<Rightarrow> string list \<Rightarrow> string option \<Rightarrow> string \<Rightarrow> string \<Rightarrow> string \<Rightarrow>
   string option \<Rightarrow> event list \<times> (error + unit)" where
  "plot_bar df ddg_cols error_cols exp_col exp_error_col name_col title filename =
     (let numEdges = nrows df;
          numBarsPerEdge = length ddg_cols;
          height = 20 * (real numBarsPerEdge + 0.3) * real numEdges
      in if numEdges = 0 then ([], Inl ZeroDivisionError)
         else
          (let exp_size = height / real numEdges / 2
           in case loc_values df (map Some ddg_cols @ [exp_col]) of
             Inl e \<Rightarrow> ([], Inl e)
           | Inr vals \<Rightarrow>
           (case loc_values df (map Some error_cols @ [Some exp_error_col]) of
             Inl e \<Rightarrow> ([], Inl e)
           | Inr errs \<Rightarrow>
           (case np_add_columns (map (map abs) vals) (map (map abs) errs) of
             Inl e \<Rightarrow> ([], Inl e)
           | Inr summed \<Rightarrow>
           (case py_max (concat summed) of
             Inl e \<Rightarrow> ([], Inl e)
           | Inr m \<Rightarrow>
           (let alim = m * 1.05
            in case df_col df (Some name_col) of
              Inl e \<Rightarrow> ([Go_figure], Inl e)
            | Inr edges \<Rightarrow>
               (let bars =
                      map (\<lambda>((col, v), (ecol, ev)). Add_trace (Bar v edges ev col))
                        (zip (zip ddg_cols vals) (zip error_cols errs));
                    exp = last vals;
                    dexp = last errs;
                    experiment =
                      (if exp_col \<noteq> None
                       then [Add_trace (Exp_markers exp edges ''experiment'' exp_size 4),
                             Add_trace (Exp_markers (map2 (-) exp dexp) edges ''ExpErrors1''
                               exp_size 2),
                             Add_trace (Exp_markers (map2 (+) exp dexp) edges ''ExpErrors2''
                               exp_size 2)]
                       else [])
                in ([Go_figure] @ bars @ experiment
                      @ [Update_layout_bar title alim numEdges height,
                         plotly_export filename], Inr ()))))))))"

subsection \<open>The caller's data and the store\<close>

text \<open>
  A result of a relative free energy calculation (an element of \<open>results\<close>) and the
  attributes of a graph node.
\<close>

record ddg_result =
  ligandA :: string
  ligandB :: string
  exp_DDG :: real
  dexp_DDG :: real
  calc_DDG :: real
  dcalc_DDG :: real
  other_dDDG :: real

record node_attrs =
  f_i_exp :: real
  df_i_exp :: real
  f_i_calc :: real
  df_i_calc :: real

text \<open>
  The store holds the mutable objects: the caller's list of results or graph (the nodes in
  iteration order), and the Python lists and numpy arrays of floats and the lists of
  strings that the plotting functions create. A reference is an index into the store.
\<close>

datatype pyobj =
    Result_list "ddg_result list"
  | Graph "node_attrs list"
  | Float_list "real list"
  | Ndarray "real list"
  | Str_list "string list"

type_synonym store = "pyobj list"
type_synonym ref = nat

text \<open>A computation on the store that returns a value or raises.\<close>

type_synonym 'a st = "store \<Rightarrow> (error + 'a) \<times> store"

definition st_return :: "'a \<Rightarrow> 'a st" where
  "st_return a h = (Inr a, h)"

definition st_bind :: "'a st \<Rightarrow> ('a \<Rightarrow> 'b st) \<Rightarrow> 'b st" where
  "st_bind m f h = (case m h of (Inl e, h') \<Rightarrow> (Inl e, h') | (Inr a, h') \<Rightarrow> f a h')"

definition alloc :: "pyobj \<Rightarrow> ref st" where
  "alloc v h = (Inr (length h), h @ [v])"

text \<open>\<^verbatim>\<open>[f(x) for x in results]\<close>: reads the caller's list, builds a temporary.\<close>

definition comprehension :: "(ddg_result \<Rightarrow> 'a) \<Rightarrow> ref \<Rightarrow> 'a list st" where
  "comprehension f results h =
     (if results < length h
      then (case h ! results of Result_list rs \<Rightarrow> (Inr (map f rs), h) | _ \<Rightarrow> (Inl TypeError, h))
      else (Inl TypeError, h))"

text \<open>\<^verbatim>\<open>[f(node[1]) for node in graph.nodes(data=True)]\<close>.\<close>

definition node_comprehension :: "(node_attrs \<Rightarrow> 'a) \<Rightarrow> ref \<Rightarrow> 'a list st" where
  "node_comprehension f graph h =
     (if graph < length h
      then (case h ! graph of Graph ns \<Rightarrow> (Inr (map f ns), h) | _ \<Rightarrow> (Inl TypeError, h))
      else (Inl TypeError, h))"

text \<open>The floats of a list or an array (what \<^verbatim>\<open>np.asarray\<close> and the charting calls read).\<close>

definition read_floats :: "ref \<Rightarrow> real list st" where
  "read_floats r h =
     (if r < length h
      then (case h ! r of
              Float_list vs \<Rightarrow> (Inr vs, h)
            | Ndarray vs \<Rightarrow> (Inr vs, h)
            | _ \<Rightarrow> (Inl TypeError, h))
      else (Inl TypeError, h))"

definition read_strings :: "ref \<Rightarrow> string list st" where
  "read_strings r h =
     (if r < length h
      then (case h ! r of Str_list vs \<Rightarrow> (Inr vs, h) | _ \<Rightarrow> (Inl TypeError, h))
      else (Inl TypeError, h))"

text \<open>\<^verbatim>\<open>np.asarray(vs)\<close>: a new array.\<close>

definition np_asarray :: "real list \<Rightarrow> ref st" where
  "np_asarray vs = alloc (Ndarray vs)"

text \<open>\<^verbatim>\<open>a[i]\<close>.\<close>

definition getitem :: "ref \<Rightarrow> nat \<Rightarrow> real st" where
  "getitem r i =
     st_bind (read_floats r) (\<lambda>vs h. if i < length vs then (Inr (vs ! i), h)
                                      else (Inl IndexError, h))"

text \<open>\<^verbatim>\<open>l.append(v)\<close>: updates the list object in place.\<close>

definition list_append :: "ref \<Rightarrow> real \<Rightarrow> unit st" where
  "list_append r v h =
     (if r < length h
      then (case h ! r of
              Float_list vs \<Rightarrow> (Inr (), h[r := Float_list (vs @ [v])])
            | _ \<Rightarrow> (Inl TypeError, h))
      else (Inl TypeError, h))"

subsection \<open>\<^verbatim>\<open>plot_DDGs\<close>\<close>

text \<open>Lines 142-148: the loop that maps every pair to a non-negative experimental value.\<close>

fun map_positive_loop :: "(real \<times> real) list \<Rightarrow> ref \<Rightarrow> ref \<Rightarrow> unit st" where
  "map_positive_loop [] x_data y_data = st_return ()"
| "map_positive_loop ((i, j) # rest) x_data y_data =
     (if i < 0
      then st_bind (list_append x_data (- i)) (\<lambda>_.
           st_bind (list_append y_data (- j)) (\<lambda>_.
           map_positive_loop rest x_data y_data))
      else st_bind (list_append x_data i) (\<lambda>_.
           st_bind (list_append y_data j) (\<lambda>_.
           map_positive_loop rest x_data y_data)))"

text \<open>Lines 132-150: the references of the arrays \<open>x_data\<close> and \<open>y_data\<close>.\<close>

definition plot_DDGs_xy :: "ref \<Rightarrow> bool \<Rightarrow> bool \<Rightarrow> (ref \<times> ref) st" where
  "plot_DDGs_xy results map_positive symmetrise =
     (if \<not> map_positive then
        st_bind (comprehension exp_DDG results) (\<lambda>es.
        st_bind (np_asarray es) (\<lambda>x_data.
        st_bind (comprehension calc_DDG results) (\<lambda>cs.
        st_bind (np_asarray cs) (\<lambda>y_data.
        st_return (x_data, y_data)))))
      else if symmetrise then
        st_bind (comprehension exp_DDG results) (\<lambda>es.
        st_bind (comprehension (\<lambda>r. - exp_DDG r) results) (\<lambda>nes.
        st_bind (np_asarray (es @ nes)) (\<lambda>x_data.
        st_bind (comprehension calc_DDG results) (\<lambda>cs.
        st_bind (comprehension (\<lambda>r. - calc_DDG r) results) (\<lambda>ncs.
        st_bind (np_asarray (cs @ ncs)) (\<lambda>y_data.
        st_return (x_data, y_data)))))))
      else
        st_bind (alloc (Float_list [])) (\<lambda>x_data.
        st_bind (alloc (Float_list [])) (\<lambda>y_data.
        st_bind (comprehension exp_DDG results) (\<lambda>es.
        st_bind (comprehension calc_DDG results) (\<lambda>cs.
        st_bind (map_positive_loop (zip es cs) x_data y_data) (\<lambda>_.
        st_bind (read_floats x_data) (\<lambda>xs.
        st_bind (np_asarray xs) (\<lambda>x_data.
        st_bind (read_floats y_data) (\<lambda>ys.
        st_bind (np_asarray ys) (\<lambda>y_data.
        st_return (x_data, y_data)))))))))))"

text \<open>
  Lines 132-155, and the contents of the arrays as the charting call reads them:
  \<open>x\<close>, \<open>y\<close>, \<open>xerr\<close>, \<open>yerr\<close>, \<open>c\<close> and \<open>names\<close>.
\<close>

definition plot_DDGs_data ::
  "ref \<Rightarrow> bool \<Rightarrow> bool \<Rightarrow>
   (real list \<times> real list \<times> real list \<times> real list \<times> real list \<times> string list) st" where
  "plot_DDGs_data results map_positive symmetrise =
     st_bind (plot_DDGs_xy results map_positive symmetrise) (\<lambda>(x_data, y_data).
     st_bind (comprehension dexp_DDG results) (\<lambda>des.
     st_bind (np_asarray des) (\<lambda>xerr.
     st_bind (comprehension dcalc_DDG results) (\<lambda>dcs.
     st_bind (np_asarray dcs) (\<lambda>yerr.
     st_bind (comprehension other_dDDG results) (\<lambda>os.
     st_bind (np_asarray os) (\<lambda>c.
     st_bind (comprehension (\<lambda>r. ligandA r @ '', '' @ ligandB r) results) (\<lambda>ns.
     st_bind (alloc (Str_list ns)) (\<lambda>names.
     st_bind (read_floats x_data) (\<lambda>x.
     st_bind (read_floats y_data) (\<lambda>y.
     st_bind (read_floats xerr) (\<lambda>xe.
     st_bind (read_floats yerr) (\<lambda>ye.
     st_bind (read_floats c) (\<lambda>cv.
     st_bind (read_strings names) (\<lambda>nv.
     st_return (x, y, xe, ye, cv, nv))))))))))))))))"

definition mpl_default_plot_type :: string where
  "mpl_default_plot_type = ''$'' @ backslash @ ''Delta '' @ backslash @ ''Delta$ G''"

text \<open>
  \<^verbatim>\<open>plot_DDGs\<close>: the store after the call, the events and the outcome. Keyword
  arguments that a call leaves out take the defaults of the callee.
\<close>

definition plot_DDGs ::
  "estimator \<Rightarrow> (real \<Rightarrow> string) \<Rightarrow> ref \<Rightarrow> string list list option \<Rightarrow> string \<Rightarrow> string \<Rightarrow>
   string \<Rightarrow> string \<Rightarrow> bool \<Rightarrow> string option \<Rightarrow> bool \<Rightarrow> bool \<Rightarrow> store
     \<Rightarrow> store \<times> event list \<times> (error + unit)" where
  "plot_DDGs est fmt2 results smiles method_name_x method_name_y target_name title
       map_positive filename symmetrise plotly h =
     (case plot_DDGs_data results map_positive symmetrise h of
        (Inl e, h') \<Rightarrow> (h', [], Inl e)
      | (Inr (x, y, xerr, yerr, c, names), h') \<Rightarrow>
          (case (if plotly
                 then plotlying_master_plot est fmt2 x y (Some c) title (Some xerr) (Some yerr)
                        (Some names) smiles method_name_x method_name_y target_name
                        (Delta @ Delta @ ''G'') True True [''RMSE'', ''MUE''] filename
                 else master_plot est fmt2 x y title (Some xerr) (Some yerr) method_name_y
                        target_name mpl_default_plot_type True True [''RMSE'', ''MUE'']
                        filename) of
             (events, outcome) \<Rightarrow> (h', events, outcome)))"

subsection \<open>\<^verbatim>\<open>plot_DGs\<close>\<close>

text \<open>
  Lines 191-200. \<^verbatim>\<open>x_data - np.mean(x_data)\<close> builds a new array and rebinds the
  name; the mean and the subtraction are those of numpy (\<open>np\<close>). On an empty array
  \<^verbatim>\<open>np.mean\<close> returns NaN with a warning, and the subtraction gives the empty array
  whatever that value is.
\<close>

definition plot_DGs_data ::
  "numpy \<Rightarrow> ref \<Rightarrow> (real list \<times> real list \<times> real list \<times> real list) st" where
  "plot_DGs_data np graph =
     st_bind (node_comprehension f_i_exp graph) (\<lambda>es.
     st_bind (np_asarray es) (\<lambda>x_data.
     st_bind (node_comprehension f_i_calc graph) (\<lambda>cs.
     st_bind (np_asarray cs) (\<lambda>y_data.
     st_bind (node_comprehension df_i_exp graph) (\<lambda>des.
     st_bind (np_asarray des) (\<lambda>xerr.
     st_bind (node_comprehension df_i_calc graph) (\<lambda>dcs.
     st_bind (np_asarray dcs) (\<lambda>yerr.
     st_bind (read_floats x_data) (\<lambda>xs.
     st_bind (np_asarray (map (\<lambda>v. np_subtract np v (np_mean np xs)) xs)) (\<lambda>x_data.
     st_bind (read_floats y_data) (\<lambda>ys.
     st_bind (np_asarray (map (\<lambda>v. np_subtract np v (np_mean np ys)) ys)) (\<lambda>y_data.
     st_bind (read_floats x_data) (\<lambda>x.
     st_bind (read_floats y_data) (\<lambda>y.
     st_bind (read_floats xerr) (\<lambda>xe.
     st_bind (read_floats yerr) (\<lambda>ye.
     st_return (x, y, xe, ye)))))))))))))))))"

definition plot_DGs ::
  "estimator \<Rightarrow> (real \<Rightarrow> string) \<Rightarrow> numpy \<Rightarrow> ref \<Rightarrow> string list list option \<Rightarrow> string \<Rightarrow>
   string \<Rightarrow> string \<Rightarrow> string \<Rightarrow> string option \<Rightarrow> bool \<Rightarrow> store
     \<Rightarrow> store \<times> event list \<times> (error + unit)" where
  "plot_DGs est fmt2 np graph smiles method_name_x method_name_y target_name title filename
       plotly h =
     (case plot_DGs_data np graph h of
        (Inl e, h') \<Rightarrow> (h', [], Inl e)
      | (Inr (x, y, xerr, yerr), h') \<Rightarrow>
          (case (if plotly
                 then plotlying_master_plot est fmt2 x y None title (Some xerr) (Some yerr)
                        None None method_name_x method_name_y target_name
                        (Delta @ ''G'') True False [''RMSE'', ''MUE'', ''R2'', ''rho''] filename
                 else master_plot est fmt2 x y title (Some xerr) (Some yerr) method_name_y
                        target_name (''$'' @ backslash @ ''Delta$ G'') True False
                        [''RMSE'', ''MUE'', ''R2'', ''rho''] filename) of
             (events, outcome) \<Rightarrow> (h', events, outcome)))"

subsection \<open>\<^verbatim>\<open>plot_all_DDGs\<close>\<close>

text \<open>Lines 249-261: the loop over the pairs of nodes, appending to four lists.\<close>

fun all_DDGs_loop ::
  "(nat \<times> nat) list \<Rightarrow> ref \<Rightarrow> ref \<Rightarrow> ref \<Rightarrow> ref \<Rightarrow> ref \<Rightarrow> ref \<Rightarrow> ref \<Rightarrow> ref \<Rightarrow> unit st" where
  "all_DDGs_loop [] x_abs y_abs xabserr yabserr x_data y_data xerr yerr = st_return ()"
| "all_DDGs_loop ((a, b) # rest) x_abs y_abs xabserr yabserr x_data y_data xerr yerr =
     st_bind (getitem x_abs a) (\<lambda>xa.
     st_bind (getitem x_abs b) (\<lambda>xb.
     st_bind (list_append x_data (xa - xb)) (\<lambda>_.
     st_bind (list_append x_data (- (xa - xb))) (\<lambda>_.
     st_bind (getitem xabserr a) (\<lambda>dxa.
     st_bind (getitem xabserr b) (\<lambda>dxb.
     st_bind (list_append xerr (sqrt (dxa\<^sup>2 + dxb\<^sup>2))) (\<lambda>_.
     st_bind (list_append xerr (sqrt (dxa\<^sup>2 + dxb\<^sup>2))) (\<lambda>_.
     st_bind (getitem y_abs a) (\<lambda>ya.
     st_bind (getitem y_abs b) (\<lambda>yb.
     st_bind (list_append y_data (ya - yb)) (\<lambda>_.
     st_bind (list_append y_data (- (ya - yb))) (\<lambda>_.
     st_bind (getitem yabserr a) (\<lambda>dya.
     st_bind (getitem yabserr b) (\<lambda>dyb.
     st_bind (list_append yerr (sqrt (dya\<^sup>2 + dyb\<^sup>2))) (\<lambda>_.
     st_bind (list_append yerr (sqrt (dya\<^sup>2 + dyb\<^sup>2))) (\<lambda>_.
     all_DDGs_loop rest x_abs y_abs xabserr yabserr x_data y_data xerr yerr))))))))))))))))"

text \<open>
  Lines 240-263. \<open>xerr\<close> and \<open>yerr\<close> stay Python lists; \<open>x_data\<close> and \<open>y_data\<close>
  are converted to arrays.
\<close>

definition plot_all_DDGs_data ::
  "ref \<Rightarrow> (real list \<times> real list \<times> real list \<times> real list) st" where
  "plot_all_DDGs_data graph =
     st_bind (node_comprehension f_i_exp graph) (\<lambda>es.
     st_bind (np_asarray es) (\<lambda>x_abs.
     st_bind (node_comprehension f_i_calc graph) (\<lambda>cs.
     st_bind (np_asarray cs) (\<lambda>y_abs.
     st_bind (node_comprehension df_i_exp graph) (\<lambda>des.
     st_bind (np_asarray des) (\<lambda>xabserr.
     st_bind (node_comprehension df_i_calc graph) (\<lambda>dcs.
     st_bind (np_asarray dcs) (\<lambda>yabserr.
     st_bind (alloc (Float_list [])) (\<lambda>x_data.
     st_bind (alloc (Float_list [])) (\<lambda>y_data.
     st_bind (alloc (Float_list [])) (\<lambda>xerr.
     st_bind (alloc (Float_list [])) (\<lambda>yerr.
     st_bind (read_floats x_abs) (\<lambda>xs.
     st_bind (all_DDGs_loop (combinations2 (length xs))
                x_abs y_abs xabserr yabserr x_data y_data xerr yerr) (\<lambda>_.
     st_bind (read_floats x_data) (\<lambda>xl.
     st_bind (np_asarray xl) (\<lambda>x_data.
     st_bind (read_floats y_data) (\<lambda>yl.
     st_bind (np_asarray yl) (\<lambda>y_data.
     st_bind (read_floats x_data) (\<lambda>x.
     st_bind (read_floats y_data) (\<lambda>y.
     st_bind (read_floats xerr) (\<lambda>xe.
     st_bind (read_floats yerr) (\<lambda>ye.
     st_return (x, y, xe, ye)))))))))))))))))))))))"

definition plot_all_DDGs ::
  "estimator \<Rightarrow> (real \<Rightarrow> string) \<Rightarrow> ref \<Rightarrow> string list list option \<Rightarrow> string \<Rightarrow> string \<Rightarrow>
   string \<Rightarrow> string \<Rightarrow> string option \<Rightarrow> bool \<Rightarrow> store
     \<Rightarrow> store \<times> event list \<times> (error + unit)" where
  "plot_all_DDGs est fmt2 graph smiles method_name_x method_name_y target_name title filename
       plotly h =
     (case plot_all_DDGs_data graph h of
        (Inl e, h') \<Rightarrow> (h', [], Inl e)
      | (Inr (x, y, xerr, yerr), h') \<Rightarrow>
          (case (if plotly
                 then plotlying_master_plot est fmt2 x y None title (Some xerr) (Some yerr)
                        None None method_name_x method_name_y target_name
                        (Delta @ Delta @ ''G'') True True [''RMSE'', ''MUE''] filename
                 else master_plot est fmt2 x y title (Some xerr) (Some yerr) method_name_y
                        target_name mpl_default_plot_type True True [''RMSE'', ''MUE'']
                        filename) of
             (events, outcome) \<Rightarrow> (h', events, outcome)))"

subsection \<open>Observations on the events\<close>

text \<open>
  The points an event carries: the arrays \<open>x\<close> and \<open>y\<close> of the calls that draw the
  data (\<^verbatim>\<open>plt.errorbar\<close>, \<^verbatim>\<open>plt.scatter\<close>, the marker trace of plotly) and of the
  calls of the estimator.
\<close>

fun event_xy :: "event \<Rightarrow> (real list \<times> real list) option" where
  "event_xy (Plt_errorbar x y xerr yerr) = Some (x, y)"
| "event_xy (Plt_scatter x y clr) = Some (x, y)"
| "event_xy (Add_trace (Markers x y name clr cbar error_x error_y text)) = Some (x, y)"
| "event_xy (Bootstrap_statistic k x y xerr yerr statistic) = Some (x, y)"
| "event_xy e = None"

text \<open>The error bars an event draws.\<close>

fun event_errors :: "event \<Rightarrow> (real list option \<times> real list option) option" where
  "event_errors (Plt_errorbar x y xerr yerr) = Some (xerr, yerr)"
| "event_errors (Add_trace (Markers x y name clr cbar error_x error_y text)) =
     Some (error_x, error_y)"
| "event_errors e = None"

text \<open>
  The extension of a file name in the usual sense, in which the specification uses the
  word: the part from the last dot on, and nothing if there is no dot.
\<close>

definition file_extension :: "string \<Rightarrow> string" where
  "file_extension f =
     (if CHR ''.'' \<in> set f then CHR ''.'' # rev (takeWhile (\<lambda>c. c \<noteq> CHR ''.'') (rev f))
      else [])"

section \<open>Proofs\<close>

subsection \<open>The estimator of the specification\<close>

text \<open>
  Claim C7. When the lengths of the input sequences disagree (\<open>x\<close> against \<open>y\<close>, or
  a supplied uncertainty sequence against its data), the estimator raises
  \<open>ShapeMismatch\<close> and returns no statistic, whichever of the four metrics is requested.
\<close>

theorem estimate_shape_mismatch:
  assumes "\<not> shape_ok x y xerr yerr"
    and "name \<in> {''RMSE'', ''MUE'', ''R2'', ''rho''}"
  shows "estimate g n_resamples percentile x y xerr yerr name = Inl ShapeMismatch"
  using assms by (simp add: estimate_def)

theorem estimate_shape_mismatch_witness:
  "\<not> shape_ok [1, 2, 3] [1, 2] None None
   \<and> ''R2'' \<in> {''RMSE'', ''MUE'', ''R2'', ''rho''}
   \<and> estimate \<lparr>index_draw = (\<lambda>k i. i + k), normal_x = (\<lambda>k i. 0), normal_y = (\<lambda>k i. 0)\<rparr>
        1000 (\<lambda>p vs. if p < 50 then fold min vs (hd vs) else fold max vs (hd vs))
        [1, 2, 3] [1, 2] None None ''R2'' = Inl ShapeMismatch"
proof -
  have 1: "\<not> shape_ok [1, 2, 3] [1, 2] None None"
    by (simp add: shape_ok_def)
  have 2: "''R2'' \<in> {''RMSE'', ''MUE'', ''R2'', ''rho''}"
    by simp
  show ?thesis
    using 1 2 estimate_shape_mismatch [OF 1 2] by simp
qed

text \<open>
  Claim C3. For a sample of at least two pairs and every supported metric, the \<open>mle\<close>
  field of a result of the estimator is the metric applied to the unperturbed original
  sample; it is the same for every random source, number of resamples and percentile
  function, so it does not depend on the resampling draws.
\<close>

theorem estimate_mle_is_metric_of_original_sample:
  assumes "2 \<le> length x"
    and "estimate g n_resamples percentile x y xerr yerr name = Inr r"
  shows "(\<exists>m. parse_metric name = Inr m \<and> metric_value m x y = Inr (mle r))
       \<and> (\<forall>g' n' percentile' r'.
            estimate g' n' percentile' x y xerr yerr name = Inr r' \<longrightarrow> mle r' = mle r)"
  using assms
  by (auto simp: estimate_def split: if_splits sum.splits)

theorem estimate_mle_is_metric_of_original_sample_witness:
  "2 \<le> length [0, 1 :: real]
   \<and> estimate \<lparr>index_draw = (\<lambda>k i. i + k), normal_x = (\<lambda>k i. 1), normal_y = (\<lambda>k i. 1)\<rparr>
        2 (\<lambda>p vs. if p < 50 then fold min vs (hd vs) else fold max vs (hd vs))
        [0, 1] [1, 3] (Some [1 / 2, 1 / 2]) None ''MUE''
       = Inr \<lparr>mle = 3 / 2, low = 1, high = 1\<rparr>
   \<and> (\<exists>m. parse_metric ''MUE'' = Inr m \<and> metric_value m [0, 1] [1, 3] = Inr (3 / 2))"
proof -
  have 1: "2 \<le> length [0, 1 :: real]" by simp
  have upt: "[0..<2] = [0, Suc 0]"
    by (simp add: numeral_2_eq_2)
  have 2: "estimate \<lparr>index_draw = (\<lambda>k i. i + k), normal_x = (\<lambda>k i. 1), normal_y = (\<lambda>k i. 1)\<rparr>
        2 (\<lambda>p vs. if p < 50 then fold min vs (hd vs) else fold max vs (hd vs))
        [0, 1] [1, 3] (Some [1 / 2, 1 / 2]) None ''MUE''
       = Inr \<lparr>mle = 3 / 2, low = 1, high = 1\<rparr>"
    by (simp add: estimate_def shape_ok_def parse_metric_def resample_def perturb_def
        mue_def mean_def upt Let_def)
  show ?thesis
    using 1 2 estimate_mle_is_metric_of_original_sample [OF 1 2] by simp
qed

subsection \<open>The store: what the data construction computes and what it leaves alone\<close>

lemma st_bind_Inr: "m h = (Inr a, h') \<Longrightarrow> st_bind m f h = f a h'"
  by (simp add: st_bind_def)

lemma st_bind_Inl: "m h = (Inl e, h') \<Longrightarrow> st_bind m f h = (Inl e, h')"
  by (simp add: st_bind_def)

lemma alloc_eq: "alloc v h = (Inr (length h), h @ [v])"
  by (simp add: alloc_def)

lemma np_asarray_eq: "np_asarray vs h = (Inr (length h), h @ [Ndarray vs])"
  by (simp add: np_asarray_def alloc_def)

lemma comprehension_eq:
  "results < length h \<Longrightarrow> h ! results = Result_list rs \<Longrightarrow>
   comprehension f results h = (Inr (map f rs), h)"
  by (simp add: comprehension_def)

lemma node_comprehension_eq:
  "graph < length h \<Longrightarrow> h ! graph = Graph ns \<Longrightarrow>
   node_comprehension f graph h = (Inr (map f ns), h)"
  by (simp add: node_comprehension_def)

lemma read_floats_list: "r < length h \<Longrightarrow> h ! r = Float_list vs \<Longrightarrow> read_floats r h = (Inr vs, h)"
  by (simp add: read_floats_def)

lemma read_floats_array: "r < length h \<Longrightarrow> h ! r = Ndarray vs \<Longrightarrow> read_floats r h = (Inr vs, h)"
  by (simp add: read_floats_def)

lemma read_strings_eq: "r < length h \<Longrightarrow> h ! r = Str_list vs \<Longrightarrow> read_strings r h = (Inr vs, h)"
  by (simp add: read_strings_def)

lemma list_append_eq:
  "r < length h \<Longrightarrow> h ! r = Float_list vs \<Longrightarrow>
   list_append r v h = (Inr (), h[r := Float_list (vs @ [v])])"
  by (simp add: list_append_def)

lemma getitem_eq:
  "r < length h \<Longrightarrow> h ! r = Ndarray vs \<Longrightarrow> i < length vs \<Longrightarrow> getitem r i h = (Inr (vs ! i), h)"
  by (simp add: getitem_def st_bind_def read_floats_def)

lemma map_positive_loop_eq:
  "x_data < length h \<Longrightarrow> y_data < length h \<Longrightarrow> x_data \<noteq> y_data \<Longrightarrow>
   h ! x_data = Float_list xs \<Longrightarrow> h ! y_data = Float_list ys \<Longrightarrow>
   map_positive_loop ps x_data y_data h =
     (Inr (), h[x_data := Float_list (xs @ map (\<lambda>(i, j). if i < 0 then - i else i) ps),
                y_data := Float_list (ys @ map (\<lambda>(i, j). if i < 0 then - j else j) ps)])"
proof (induction ps arbitrary: h xs ys)
  case Nil
  then show ?case by (simp add: st_return_def) (metis list_update_id)
next
  case (Cons p ps)
  obtain i j where p: "p = (i, j)" by (cases p)
  let ?i = "if i < 0 then - i else i" and ?j = "if i < 0 then - j else j"
  let ?h = "h[x_data := Float_list (xs @ [?i]), y_data := Float_list (ys @ [?j])]"
  have step: "map_positive_loop (p # ps) x_data y_data h = map_positive_loop ps x_data y_data ?h"
    using Cons.prems by (simp add: p st_bind_def list_append_def)
  have "map_positive_loop ps x_data y_data ?h =
     (Inr (), ?h[x_data := Float_list ((xs @ [?i]) @ map (\<lambda>(i, j). if i < 0 then - i else i) ps),
                y_data := Float_list ((ys @ [?j]) @ map (\<lambda>(i, j). if i < 0 then - j else j) ps)])"
    using Cons.prems by (intro Cons.IH) simp_all
  then show ?case
    using Cons.prems unfolding step
    by (simp add: p list_eq_iff_nth_eq nth_list_update)
qed


lemma zip_attrs: "zip (map f rs) (map g rs) = map (\<lambda>r. (f r, g r)) rs"
  by (induction rs) simp_all

lemma plot_DDGs_xy_eq:
  assumes "results < length h" "h ! results = Result_list rs"
  shows "\<exists>x_data y_data new.
     plot_DDGs_xy results map_positive symmetrise h = (Inr (x_data, y_data), h @ new)
     \<and> x_data < length (h @ new) \<and> y_data < length (h @ new)
     \<and> (h @ new) ! x_data = Ndarray
          (if \<not> map_positive then map exp_DDG rs
           else if symmetrise then map exp_DDG rs @ map (\<lambda>r. - exp_DDG r) rs
           else map (\<lambda>r. if exp_DDG r < 0 then - exp_DDG r else exp_DDG r) rs)
     \<and> (h @ new) ! y_data = Ndarray
          (if \<not> map_positive then map calc_DDG rs
           else if symmetrise then map calc_DDG rs @ map (\<lambda>r. - calc_DDG r) rs
           else map (\<lambda>r. if exp_DDG r < 0 then - calc_DDG r else calc_DDG r) rs)"
proof -
  consider "\<not> map_positive" | "map_positive" "symmetrise" | "map_positive" "\<not> symmetrise"
    by blast
  then show ?thesis
  proof cases
    case 1
    have "plot_DDGs_xy results map_positive symmetrise h =
        (Inr (length h, Suc (length h)), h @ [Ndarray (map exp_DDG rs), Ndarray (map calc_DDG rs)])"
      using assms 1
      by (simp add: plot_DDGs_xy_def st_bind_def st_return_def comprehension_def
          np_asarray_def alloc_def nth_append)
    then show ?thesis using 1
      by (intro exI [of _ "length h"] exI [of _ "Suc (length h)"]
            exI [of _ "[Ndarray (map exp_DDG rs), Ndarray (map calc_DDG rs)]"])
         (simp add: nth_append)
  next
    case 2
    have "plot_DDGs_xy results map_positive symmetrise h =
        (Inr (length h, Suc (length h)),
         h @ [Ndarray (map exp_DDG rs @ map (\<lambda>r. - exp_DDG r) rs),
              Ndarray (map calc_DDG rs @ map (\<lambda>r. - calc_DDG r) rs)])"
      using assms 2
      by (simp add: plot_DDGs_xy_def st_bind_def st_return_def comprehension_def
          np_asarray_def alloc_def nth_append)
    then show ?thesis using 2
      by (intro exI [of _ "length h"] exI [of _ "Suc (length h)"]
            exI [of _ "[Ndarray (map exp_DDG rs @ map (\<lambda>r. - exp_DDG r) rs),
              Ndarray (map calc_DDG rs @ map (\<lambda>r. - calc_DDG r) rs)]"])
         (simp add: nth_append)
  next
    case 3
    let ?X = "map (\<lambda>r. if exp_DDG r < 0 then - exp_DDG r else exp_DDG r) rs"
    let ?Y = "map (\<lambda>r. if exp_DDG r < 0 then - calc_DDG r else calc_DDG r) rs"
    let ?h2 = "h @ [Float_list [], Float_list []]"
    have loop: "map_positive_loop (zip (map exp_DDG rs) (map calc_DDG rs))
             (length h) (Suc (length h)) ?h2 =
          (Inr (), h @ [Float_list ?X, Float_list ?Y])"
      by (subst map_positive_loop_eq [where xs = "[]" and ys = "[]"])
         (simp_all add: nth_append zip_attrs comp_def list_update_append)
    have "plot_DDGs_xy results map_positive symmetrise h =
        (Inr (length h + 2, length h + 3),
         h @ [Float_list ?X, Float_list ?Y, Ndarray ?X, Ndarray ?Y])"
      using assms 3 loop
      by (simp add: plot_DDGs_xy_def st_bind_def st_return_def comprehension_def
          np_asarray_def alloc_def nth_append read_floats_def)
    then show ?thesis using 3
      by (intro exI [of _ "length h + 2"] exI [of _ "length h + 3"]
            exI [of _ "[Float_list ?X, Float_list ?Y, Ndarray ?X, Ndarray ?Y]"])
         (simp add: nth_append)
  qed
qed


lemma plot_DDGs_data_eq:
  assumes "results < length h" "h ! results = Result_list rs"
  shows "\<exists>new.
     plot_DDGs_data results map_positive symmetrise h =
       (Inr (if \<not> map_positive then map exp_DDG rs
             else if symmetrise then map exp_DDG rs @ map (\<lambda>r. - exp_DDG r) rs
             else map (\<lambda>r. if exp_DDG r < 0 then - exp_DDG r else exp_DDG r) rs,
             if \<not> map_positive then map calc_DDG rs
             else if symmetrise then map calc_DDG rs @ map (\<lambda>r. - calc_DDG r) rs
             else map (\<lambda>r. if exp_DDG r < 0 then - calc_DDG r else calc_DDG r) rs,
             map dexp_DDG rs, map dcalc_DDG rs, map other_dDDG rs,
             map (\<lambda>r. ligandA r @ '', '' @ ligandB r) rs),
        h @ new)"
proof -
  obtain x_data y_data new where
    xy: "plot_DDGs_xy results map_positive symmetrise h = (Inr (x_data, y_data), h @ new)"
    and lt: "x_data < length (h @ new)" "y_data < length (h @ new)"
    and x: "(h @ new) ! x_data = Ndarray
          (if \<not> map_positive then map exp_DDG rs
           else if symmetrise then map exp_DDG rs @ map (\<lambda>r. - exp_DDG r) rs
           else map (\<lambda>r. if exp_DDG r < 0 then - exp_DDG r else exp_DDG r) rs)"
    and y: "(h @ new) ! y_data = Ndarray
          (if \<not> map_positive then map calc_DDG rs
           else if symmetrise then map calc_DDG rs @ map (\<lambda>r. - calc_DDG r) rs
           else map (\<lambda>r. if exp_DDG r < 0 then - calc_DDG r else calc_DDG r) rs)"
    using plot_DDGs_xy_eq [OF assms, of map_positive symmetrise] by blast
  define h1 where "h1 = h @ new"
  have h1: "results < length h1" "h1 ! results = Result_list rs"
    using assms by (simp_all add: h1_def nth_append)
  have "plot_DDGs_data results map_positive symmetrise h =
       (Inr (if \<not> map_positive then map exp_DDG rs
             else if symmetrise then map exp_DDG rs @ map (\<lambda>r. - exp_DDG r) rs
             else map (\<lambda>r. if exp_DDG r < 0 then - exp_DDG r else exp_DDG r) rs,
             if \<not> map_positive then map calc_DDG rs
             else if symmetrise then map calc_DDG rs @ map (\<lambda>r. - calc_DDG r) rs
             else map (\<lambda>r. if exp_DDG r < 0 then - calc_DDG r else calc_DDG r) rs,
             map dexp_DDG rs, map dcalc_DDG rs, map other_dDDG rs,
             map (\<lambda>r. ligandA r @ '', '' @ ligandB r) rs),
        h1 @ [Ndarray (map dexp_DDG rs), Ndarray (map dcalc_DDG rs),
              Ndarray (map other_dDDG rs),
              Str_list (map (\<lambda>r. ligandA r @ '', '' @ ligandB r) rs)])"
    using h1 lt x y unfolding h1_def [symmetric] plot_DDGs_data_def
    by (simp add: xy [folded h1_def] st_bind_def st_return_def comprehension_def
        np_asarray_def alloc_def nth_append read_floats_def read_strings_def)
  then show ?thesis by (simp add: h1_def)
qed

lemma no_result_list_after_alloc:
  assumes "\<not> (results < length h \<and> (\<exists>rs. h ! results = Result_list rs))"
  shows "comprehension f results (h @ [Float_list vs, Float_list ws]) =
           (Inl TypeError, h @ [Float_list vs, Float_list ws])"
proof (cases "results < length h")
  case True
  with assms show ?thesis
    by (cases "h ! results") (simp_all add: comprehension_def nth_append)
next
  case False
  then have "results = length h \<or> results = Suc (length h) \<or> results \<ge> length h + 2"
    by arith
  then show ?thesis
    by (auto simp: comprehension_def nth_append)
qed

lemma comprehension_fail:
  assumes "\<not> (results < length h \<and> (\<exists>rs. h ! results = Result_list rs))"
  shows "comprehension f results h = (Inl TypeError, h)"
proof (cases "results < length h")
  case True
  with assms show ?thesis
    by (cases "h ! results") (simp_all add: comprehension_def)
next
  case False
  then show ?thesis by (simp add: comprehension_def)
qed

lemma plot_DDGs_data_fail:
  assumes "\<not> (results < length h \<and> (\<exists>rs. h ! results = Result_list rs))"
  shows "plot_DDGs_data results map_positive symmetrise h =
           (Inl TypeError,
            h @ (if map_positive \<and> \<not> symmetrise then [Float_list [], Float_list []] else []))"
proof -
  have "plot_DDGs_xy results map_positive symmetrise h =
           (Inl TypeError,
            h @ (if map_positive \<and> \<not> symmetrise then [Float_list [], Float_list []] else []))"
    by (simp add: plot_DDGs_xy_def st_bind_def alloc_def
        comprehension_fail [OF assms] no_result_list_after_alloc [OF assms])
  then show ?thesis
    by (simp add: plot_DDGs_data_def st_bind_def)
qed

lemma plot_DDGs_data_extends: "prefix h (snd (plot_DDGs_data results map_positive symmetrise h))"
proof (cases "results < length h \<and> (\<exists>rs. h ! results = Result_list rs)")
  case True
  then obtain rs where "results < length h" "h ! results = Result_list rs" by blast
  from plot_DDGs_data_eq [OF this, of map_positive symmetrise] show ?thesis by auto
next
  case False
  from plot_DDGs_data_fail [OF this, of map_positive symmetrise] show ?thesis by auto
qed


lemma plot_DGs_data_eq:
  assumes "graph < length h" "h ! graph = Graph ns"
  shows "\<exists>new.
     plot_DGs_data np graph h =
       (Inr (map (\<lambda>v. np_subtract np v (np_mean np (map f_i_exp ns))) (map f_i_exp ns),
             map (\<lambda>v. np_subtract np v (np_mean np (map f_i_calc ns))) (map f_i_calc ns),
             map df_i_exp ns, map df_i_calc ns),
        h @ new)"
  using assms unfolding plot_DGs_data_def
  by (simp add: st_bind_def st_return_def node_comprehension_def
        np_asarray_def alloc_def nth_append read_floats_def)

lemma node_comprehension_fail:
  assumes "\<not> (graph < length h \<and> (\<exists>ns. h ! graph = Graph ns))"
  shows "node_comprehension f graph h = (Inl TypeError, h)"
proof (cases "graph < length h")
  case True
  with assms show ?thesis
    by (cases "h ! graph") (simp_all add: node_comprehension_def)
next
  case False
  then show ?thesis by (simp add: node_comprehension_def)
qed

lemma plot_DGs_data_fail:
  assumes "\<not> (graph < length h \<and> (\<exists>ns. h ! graph = Graph ns))"
  shows "plot_DGs_data np graph h = (Inl TypeError, h)"
  by (simp add: plot_DGs_data_def st_bind_def node_comprehension_fail [OF assms])

lemma plot_all_DDGs_data_fail:
  assumes "\<not> (graph < length h \<and> (\<exists>ns. h ! graph = Graph ns))"
  shows "plot_all_DDGs_data graph h = (Inl TypeError, h)"
  by (simp add: plot_all_DDGs_data_def st_bind_def node_comprehension_fail [OF assms])

lemma all_DDGs_loop_eq:
  assumes "n + 7 < length h"
    and "h ! n = Ndarray xs" "h ! (n + 1) = Ndarray ys"
    and "h ! (n + 2) = Ndarray dxs" "h ! (n + 3) = Ndarray dys"
    and "h ! (n + 4) = Float_list xd" "h ! (n + 5) = Float_list yd"
    and "h ! (n + 6) = Float_list xe" "h ! (n + 7) = Float_list ye"
    and "\<forall>(a, b) \<in> set ps. a < length xs \<and> b < length xs \<and> a < length ys \<and> b < length ys
            \<and> a < length dxs \<and> b < length dxs \<and> a < length dys \<and> b < length dys"
  shows "\<exists>h'. all_DDGs_loop ps n (n + 1) (n + 2) (n + 3) (n + 4) (n + 5) (n + 6) (n + 7) h
                = (Inr (), h')
     \<and> length h' = length h
     \<and> h' ! (n + 4) = Float_list (xd @ concat (map (\<lambda>(a, b). [xs ! a - xs ! b, - (xs ! a - xs ! b)]) ps))
     \<and> h' ! (n + 5) = Float_list (yd @ concat (map (\<lambda>(a, b). [ys ! a - ys ! b, - (ys ! a - ys ! b)]) ps))
     \<and> h' ! (n + 6) = Float_list (xe @ concat (map (\<lambda>(a, b). [sqrt ((dxs ! a)\<^sup>2 + (dxs ! b)\<^sup>2), sqrt ((dxs ! a)\<^sup>2 + (dxs ! b)\<^sup>2)]) ps))
     \<and> h' ! (n + 7) = Float_list (ye @ concat (map (\<lambda>(a, b). [sqrt ((dys ! a)\<^sup>2 + (dys ! b)\<^sup>2), sqrt ((dys ! a)\<^sup>2 + (dys ! b)\<^sup>2)]) ps))
     \<and> (\<forall>r. r < n + 4 \<longrightarrow> h' ! r = h ! r)"
  using assms
proof (induction ps arbitrary: h xd yd xe ye)
  case Nil
  then show ?case
    by (simp add: st_return_def)
next
  case (Cons p ps)
  obtain a b where p: "p = (a, b)" by (cases p)
  let ?x = "xs ! a - xs ! b" and ?y = "ys ! a - ys ! b"
  let ?dx = "sqrt ((dxs ! a)\<^sup>2 + (dxs ! b)\<^sup>2)" and ?dy = "sqrt ((dys ! a)\<^sup>2 + (dys ! b)\<^sup>2)"
  let ?h = "h[n + 4 := Float_list (xd @ [?x, - ?x]), n + 6 := Float_list (xe @ [?dx, ?dx]),
              n + 5 := Float_list (yd @ [?y, - ?y]), n + 7 := Float_list (ye @ [?dy, ?dy])]"
  have step: "all_DDGs_loop (p # ps) n (n + 1) (n + 2) (n + 3) (n + 4) (n + 5) (n + 6) (n + 7) h =
              all_DDGs_loop ps n (n + 1) (n + 2) (n + 3) (n + 4) (n + 5) (n + 6) (n + 7) ?h"
    using Cons.prems
    by (simp add: p st_bind_def getitem_def read_floats_def list_append_def)
  have "\<exists>h'. all_DDGs_loop ps n (n + 1) (n + 2) (n + 3) (n + 4) (n + 5) (n + 6) (n + 7) ?h
                = (Inr (), h')
     \<and> length h' = length ?h
     \<and> h' ! (n + 4) = Float_list ((xd @ [?x, - ?x]) @ concat (map (\<lambda>(a, b). [xs ! a - xs ! b, - (xs ! a - xs ! b)]) ps))
     \<and> h' ! (n + 5) = Float_list ((yd @ [?y, - ?y]) @ concat (map (\<lambda>(a, b). [ys ! a - ys ! b, - (ys ! a - ys ! b)]) ps))
     \<and> h' ! (n + 6) = Float_list ((xe @ [?dx, ?dx]) @ concat (map (\<lambda>(a, b). [sqrt ((dxs ! a)\<^sup>2 + (dxs ! b)\<^sup>2), sqrt ((dxs ! a)\<^sup>2 + (dxs ! b)\<^sup>2)]) ps))
     \<and> h' ! (n + 7) = Float_list ((ye @ [?dy, ?dy]) @ concat (map (\<lambda>(a, b). [sqrt ((dys ! a)\<^sup>2 + (dys ! b)\<^sup>2), sqrt ((dys ! a)\<^sup>2 + (dys ! b)\<^sup>2)]) ps))
     \<and> (\<forall>r. r < n + 4 \<longrightarrow> h' ! r = ?h ! r)"
    using Cons.prems by (intro Cons.IH) simp_all
  then obtain h' where h':
     "all_DDGs_loop ps n (n + 1) (n + 2) (n + 3) (n + 4) (n + 5) (n + 6) (n + 7) ?h = (Inr (), h')"
     "length h' = length ?h"
     "h' ! (n + 4) = Float_list ((xd @ [?x, - ?x]) @ concat (map (\<lambda>(a, b). [xs ! a - xs ! b, - (xs ! a - xs ! b)]) ps))"
     "h' ! (n + 5) = Float_list ((yd @ [?y, - ?y]) @ concat (map (\<lambda>(a, b). [ys ! a - ys ! b, - (ys ! a - ys ! b)]) ps))"
     "h' ! (n + 6) = Float_list ((xe @ [?dx, ?dx]) @ concat (map (\<lambda>(a, b). [sqrt ((dxs ! a)\<^sup>2 + (dxs ! b)\<^sup>2), sqrt ((dxs ! a)\<^sup>2 + (dxs ! b)\<^sup>2)]) ps))"
     "h' ! (n + 7) = Float_list ((ye @ [?dy, ?dy]) @ concat (map (\<lambda>(a, b). [sqrt ((dys ! a)\<^sup>2 + (dys ! b)\<^sup>2), sqrt ((dys ! a)\<^sup>2 + (dys ! b)\<^sup>2)]) ps))"
     "\<forall>r. r < n + 4 \<longrightarrow> h' ! r = ?h ! r"
    by blast
  show ?case
    unfolding step using h'
    by (intro exI [of _ h']) (simp add: p)
qed


lemma set_combinations2: "(a, b) \<in> set (combinations2 n) \<longleftrightarrow> a < b \<and> b < n"
  by (force simp: combinations2_def)

lemma extends_nth:
  assumes "length h \<le> length h'" "\<forall>r < length h. h' ! r = h ! r"
  shows "\<exists>new. h' = h @ new"
proof -
  have "take (length h) h' = h"
    using assms by (intro nth_equalityI) simp_all
  then have "h' = h @ drop (length h) h'"
    by (metis append_take_drop_id)
  then show ?thesis ..
qed

lemma plot_all_DDGs_data_eq:
  assumes "graph < length h" "h ! graph = Graph ns"
  shows "\<exists>new.
     plot_all_DDGs_data graph h =
       (Inr (concat (map (\<lambda>(a, b). [f_i_exp (ns ! a) - f_i_exp (ns ! b),
                                     - (f_i_exp (ns ! a) - f_i_exp (ns ! b))])
                      (combinations2 (length ns))),
             concat (map (\<lambda>(a, b). [f_i_calc (ns ! a) - f_i_calc (ns ! b),
                                     - (f_i_calc (ns ! a) - f_i_calc (ns ! b))])
                      (combinations2 (length ns))),
             concat (map (\<lambda>(a, b). [sqrt ((df_i_exp (ns ! a))\<^sup>2 + (df_i_exp (ns ! b))\<^sup>2),
                                     sqrt ((df_i_exp (ns ! a))\<^sup>2 + (df_i_exp (ns ! b))\<^sup>2)])
                      (combinations2 (length ns))),
             concat (map (\<lambda>(a, b). [sqrt ((df_i_calc (ns ! a))\<^sup>2 + (df_i_calc (ns ! b))\<^sup>2),
                                     sqrt ((df_i_calc (ns ! a))\<^sup>2 + (df_i_calc (ns ! b))\<^sup>2)])
                      (combinations2 (length ns)))),
        h @ new)"
proof -
  let ?ps = "combinations2 (length ns)"
  let ?xs = "map f_i_exp ns" and ?ys = "map f_i_calc ns"
  let ?dxs = "map df_i_exp ns" and ?dys = "map df_i_calc ns"
  let ?X = "concat (map (\<lambda>(a, b). [?xs ! a - ?xs ! b, - (?xs ! a - ?xs ! b)]) ?ps)"
  let ?Y = "concat (map (\<lambda>(a, b). [?ys ! a - ?ys ! b, - (?ys ! a - ?ys ! b)]) ?ps)"
  let ?XE = "concat (map (\<lambda>(a, b). [sqrt ((?dxs ! a)\<^sup>2 + (?dxs ! b)\<^sup>2),
                                      sqrt ((?dxs ! a)\<^sup>2 + (?dxs ! b)\<^sup>2)]) ?ps)"
  let ?YE = "concat (map (\<lambda>(a, b). [sqrt ((?dys ! a)\<^sup>2 + (?dys ! b)\<^sup>2),
                                      sqrt ((?dys ! a)\<^sup>2 + (?dys ! b)\<^sup>2)]) ?ps)"
  let ?n = "length h"
  let ?h8 = "h @ [Ndarray ?xs, Ndarray ?ys, Ndarray ?dxs, Ndarray ?dys,
                  Float_list [], Float_list [], Float_list [], Float_list []]"
  have idx: "\<forall>(a, b) \<in> set ?ps. a < length ?xs \<and> b < length ?xs \<and> a < length ?ys
        \<and> b < length ?ys \<and> a < length ?dxs \<and> b < length ?dxs \<and> a < length ?dys \<and> b < length ?dys"
    by (auto simp: set_combinations2)
  have "\<exists>h'. all_DDGs_loop ?ps ?n (?n + 1) (?n + 2) (?n + 3) (?n + 4) (?n + 5) (?n + 6) (?n + 7) ?h8
                = (Inr (), h')
     \<and> length h' = length ?h8
     \<and> h' ! (?n + 4) = Float_list ([] @ ?X)
     \<and> h' ! (?n + 5) = Float_list ([] @ ?Y)
     \<and> h' ! (?n + 6) = Float_list ([] @ ?XE)
     \<and> h' ! (?n + 7) = Float_list ([] @ ?YE)
     \<and> (\<forall>r. r < ?n + 4 \<longrightarrow> h' ! r = ?h8 ! r)"
    using idx by (intro all_DDGs_loop_eq) (simp_all add: nth_append)
  then obtain h' where loop:
      "all_DDGs_loop ?ps ?n (?n + 1) (?n + 2) (?n + 3) (?n + 4) (?n + 5) (?n + 6) (?n + 7) ?h8
         = (Inr (), h')"
    and len: "length h' = ?n + 8"
    and cells: "h' ! (?n + 4) = Float_list ?X" "h' ! (?n + 5) = Float_list ?Y"
       "h' ! (?n + 6) = Float_list ?XE" "h' ! (?n + 7) = Float_list ?YE"
    and frame: "\<forall>r. r < ?n + 4 \<longrightarrow> h' ! r = ?h8 ! r"
    by auto
  have "\<forall>r < length h. h' ! r = h ! r"
    using frame by (simp add: nth_append)
  then obtain new where new: "h' = h @ new"
    using extends_nth [of h h'] len by auto
  have "plot_all_DDGs_data graph h = (Inr (?X, ?Y, ?XE, ?YE), h' @ [Ndarray ?X, Ndarray ?Y])"
    using assms loop len cells unfolding plot_all_DDGs_data_def
    by (simp add: st_bind_def st_return_def node_comprehension_def
        np_asarray_def alloc_def nth_append read_floats_def eval_nat_numeral)
  then have "plot_all_DDGs_data graph h = (Inr (?X, ?Y, ?XE, ?YE), h @ (new @ [Ndarray ?X, Ndarray ?Y]))"
    by (simp add: new)
  moreover have "?X = concat (map (\<lambda>(a, b). [f_i_exp (ns ! a) - f_i_exp (ns ! b),
                                     - (f_i_exp (ns ! a) - f_i_exp (ns ! b))]) ?ps)"
    by (intro arg_cong [of _ _ concat] map_cong) (auto simp: set_combinations2)
  moreover have "?Y = concat (map (\<lambda>(a, b). [f_i_calc (ns ! a) - f_i_calc (ns ! b),
                                     - (f_i_calc (ns ! a) - f_i_calc (ns ! b))]) ?ps)"
    by (intro arg_cong [of _ _ concat] map_cong) (auto simp: set_combinations2)
  moreover have "?XE = concat (map (\<lambda>(a, b). [sqrt ((df_i_exp (ns ! a))\<^sup>2 + (df_i_exp (ns ! b))\<^sup>2),
                                     sqrt ((df_i_exp (ns ! a))\<^sup>2 + (df_i_exp (ns ! b))\<^sup>2)]) ?ps)"
    by (intro arg_cong [of _ _ concat] map_cong) (auto simp: set_combinations2)
  moreover have "?YE = concat (map (\<lambda>(a, b). [sqrt ((df_i_calc (ns ! a))\<^sup>2 + (df_i_calc (ns ! b))\<^sup>2),
                                     sqrt ((df_i_calc (ns ! a))\<^sup>2 + (df_i_calc (ns ! b))\<^sup>2)]) ?ps)"
    by (intro arg_cong [of _ _ concat] map_cong) (auto simp: set_combinations2)
  ultimately show ?thesis by (intro exI [of _ "new @ [Ndarray ?X, Ndarray ?Y]"]) simp
qed


lemma no_result_list_after_fail:
  assumes "\<not> (results < length h \<and> (\<exists>rs. h ! results = Result_list rs))"
  shows "\<not> (results < length (h @ [Float_list vs, Float_list ws])
            \<and> (\<exists>rs. (h @ [Float_list vs, Float_list ws]) ! results = Result_list rs))"
proof (cases "results < length h")
  case True
  with assms show ?thesis by (simp add: nth_append)
next
  case False
  then have "results = length h \<or> results = Suc (length h) \<or> results \<ge> length h + 2"
    by arith
  then show ?thesis by (auto simp: nth_append)
qed

lemma plot_DDGs_data_again:
  "fst (plot_DDGs_data results map_positive symmetrise
          (snd (plot_DDGs_data results map_positive symmetrise h))) =
   fst (plot_DDGs_data results map_positive symmetrise h)"
proof (cases "results < length h \<and> (\<exists>rs. h ! results = Result_list rs)")
  case True
  then obtain rs where rs: "results < length h" "h ! results = Result_list rs" by blast
  from plot_DDGs_data_eq [OF rs, of map_positive symmetrise] obtain new where
    1: "snd (plot_DDGs_data results map_positive symmetrise h) = h @ new" by auto
  have rs': "results < length (h @ new)" "(h @ new) ! results = Result_list rs"
    using rs by (simp_all add: nth_append)
  show ?thesis
    using plot_DDGs_data_eq [OF rs, of map_positive symmetrise]
      plot_DDGs_data_eq [OF rs', of map_positive symmetrise]
    unfolding 1 by auto
next
  case False
  show ?thesis
  proof (cases "map_positive \<and> \<not> symmetrise")
    case True
    then show ?thesis
      using plot_DDGs_data_fail [OF False, of map_positive symmetrise]
        plot_DDGs_data_fail [OF no_result_list_after_fail [OF False, of "[]" "[]"],
          of map_positive symmetrise]
      by simp
  next
    case no: False
    then show ?thesis
      using plot_DDGs_data_fail [OF False, of map_positive symmetrise] by auto
  qed
qed

lemma plot_DGs_data_extends: "prefix h (snd (plot_DGs_data np graph h))"
proof (cases "graph < length h \<and> (\<exists>ns. h ! graph = Graph ns)")
  case True
  then obtain ns where "graph < length h" "h ! graph = Graph ns" by blast
  from plot_DGs_data_eq [OF this, of np] show ?thesis by auto
next
  case False
  from plot_DGs_data_fail [OF this, of np] show ?thesis by simp
qed

lemma plot_all_DDGs_data_extends: "prefix h (snd (plot_all_DDGs_data graph h))"
proof (cases "graph < length h \<and> (\<exists>ns. h ! graph = Graph ns)")
  case True
  then obtain ns where "graph < length h" "h ! graph = Graph ns" by blast
  from plot_all_DDGs_data_eq [OF this] show ?thesis by auto
next
  case False
  from plot_all_DDGs_data_fail [OF this] show ?thesis by simp
qed

lemma plot_DGs_data_again:
  "fst (plot_DGs_data np graph (snd (plot_DGs_data np graph h))) = fst (plot_DGs_data np graph h)"
proof (cases "graph < length h \<and> (\<exists>ns. h ! graph = Graph ns)")
  case True
  then obtain ns where ns: "graph < length h" "h ! graph = Graph ns" by blast
  from plot_DGs_data_eq [OF ns, of np] obtain new where
    1: "snd (plot_DGs_data np graph h) = h @ new" by auto
  have ns': "graph < length (h @ new)" "(h @ new) ! graph = Graph ns"
    using ns by (simp_all add: nth_append)
  show ?thesis
    using plot_DGs_data_eq [OF ns, of np] plot_DGs_data_eq [OF ns', of np] unfolding 1 by auto
next
  case False
  from plot_DGs_data_fail [OF this, of np] show ?thesis by simp
qed

lemma plot_all_DDGs_data_again:
  "fst (plot_all_DDGs_data graph (snd (plot_all_DDGs_data graph h))) =
   fst (plot_all_DDGs_data graph h)"
proof (cases "graph < length h \<and> (\<exists>ns. h ! graph = Graph ns)")
  case True
  then obtain ns where ns: "graph < length h" "h ! graph = Graph ns" by blast
  from plot_all_DDGs_data_eq [OF ns] obtain new where
    1: "snd (plot_all_DDGs_data graph h) = h @ new" by auto
  have ns': "graph < length (h @ new)" "(h @ new) ! graph = Graph ns"
    using ns by (simp_all add: nth_append)
  show ?thesis
    using plot_all_DDGs_data_eq [OF ns] plot_all_DDGs_data_eq [OF ns'] unfolding 1 by auto
next
  case False
  from plot_all_DDGs_data_fail [OF this] show ?thesis by simp
qed

lemma plot_DDGs_store: "fst (plot_DDGs est fmt2 results smiles method_name_x method_name_y
    target_name title map_positive filename symmetrise plotly h) =
    snd (plot_DDGs_data results map_positive symmetrise h)"
  by (simp add: plot_DDGs_def split: prod.splits sum.splits)

lemma plot_DGs_store: "fst (plot_DGs est fmt2 np graph smiles method_name_x method_name_y
    target_name title filename plotly h) = snd (plot_DGs_data np graph h)"
  by (simp add: plot_DGs_def split: prod.splits sum.splits)

lemma plot_all_DDGs_store: "fst (plot_all_DDGs est fmt2 graph smiles method_name_x method_name_y
    target_name title filename plotly h) = snd (plot_all_DDGs_data graph h)"
  by (simp add: plot_all_DDGs_def split: prod.splits sum.splits)

lemma plot_DDGs_outcome: "snd (plot_DDGs est fmt2 results smiles method_name_x method_name_y
    target_name title map_positive filename symmetrise plotly h) =
    (case fst (plot_DDGs_data results map_positive symmetrise h) of
       Inl e \<Rightarrow> ([], Inl e)
     | Inr (x, y, xerr, yerr, c, names) \<Rightarrow>
         (if plotly
          then plotlying_master_plot est fmt2 x y (Some c) title (Some xerr) (Some yerr)
                 (Some names) smiles method_name_x method_name_y target_name
                 (Delta @ Delta @ ''G'') True True [''RMSE'', ''MUE''] filename
          else master_plot est fmt2 x y title (Some xerr) (Some yerr) method_name_y
                 target_name mpl_default_plot_type True True [''RMSE'', ''MUE''] filename))"
  by (simp add: plot_DDGs_def split: prod.splits sum.splits)

lemma plot_DGs_outcome: "snd (plot_DGs est fmt2 np graph smiles method_name_x method_name_y
    target_name title filename plotly h) =
    (case fst (plot_DGs_data np graph h) of
       Inl e \<Rightarrow> ([], Inl e)
     | Inr (x, y, xerr, yerr) \<Rightarrow>
         (if plotly
          then plotlying_master_plot est fmt2 x y None title (Some xerr) (Some yerr)
                 None None method_name_x method_name_y target_name
                 (Delta @ ''G'') True False [''RMSE'', ''MUE'', ''R2'', ''rho''] filename
          else master_plot est fmt2 x y title (Some xerr) (Some yerr) method_name_y
                 target_name (''$'' @ backslash @ ''Delta$ G'') True False
                 [''RMSE'', ''MUE'', ''R2'', ''rho''] filename))"
  by (simp add: plot_DGs_def split: prod.splits sum.splits)

lemma plot_all_DDGs_outcome: "snd (plot_all_DDGs est fmt2 graph smiles method_name_x
    method_name_y target_name title filename plotly h) =
    (case fst (plot_all_DDGs_data graph h) of
       Inl e \<Rightarrow> ([], Inl e)
     | Inr (x, y, xerr, yerr) \<Rightarrow>
         (if plotly
          then plotlying_master_plot est fmt2 x y None title (Some xerr) (Some yerr)
                 None None method_name_x method_name_y target_name
                 (Delta @ Delta @ ''G'') True True [''RMSE'', ''MUE''] filename
          else master_plot est fmt2 x y title (Some xerr) (Some yerr) method_name_y
                 target_name mpl_default_plot_type True True [''RMSE'', ''MUE''] filename))"
  by (simp add: plot_all_DDGs_def split: prod.splits sum.splits)

text \<open>
  Claim C6. A call of \<^verbatim>\<open>plot_DDGs\<close>, \<^verbatim>\<open>plot_DGs\<close> or \<^verbatim>\<open>plot_all_DDGs\<close> leaves the
  caller's data unchanged: the store after the call is the store before it followed by the
  objects the call has created, so that every object that existed before (the list of
  results, the graph) is what it was, whatever the outcome; and a second call with the same
  arguments on the store the first one left produces the same events and the same outcome,
  that is, it has read the same data.
\<close>

theorem plots_leave_the_callers_data_unchanged:
  "(let DDGs = plot_DDGs est fmt2 results smiles method_name_x method_name_y target_name
                 title map_positive filename symmetrise plotly
    in prefix h (fst (DDGs h)) \<and> snd (DDGs (fst (DDGs h))) = snd (DDGs h))
   \<and> (let DGs = plot_DGs est fmt2 np graph smiles method_name_x method_name_y target_name
                 title filename plotly
    in prefix h (fst (DGs h)) \<and> snd (DGs (fst (DGs h))) = snd (DGs h))
   \<and> (let all_DDGs = plot_all_DDGs est fmt2 graph smiles method_name_x method_name_y
                 target_name title filename plotly
    in prefix h (fst (all_DDGs h)) \<and> snd (all_DDGs (fst (all_DDGs h))) = snd (all_DDGs h))"
  unfolding Let_def plot_DDGs_outcome plot_DGs_outcome plot_all_DDGs_outcome
    plot_DDGs_store plot_DGs_store plot_all_DDGs_store
    plot_DDGs_data_again plot_DGs_data_again plot_all_DDGs_data_again
  using plot_DDGs_data_extends plot_DGs_data_extends plot_all_DDGs_data_extends
  by simp

subsection \<open>The events of the two back ends\<close>

lemma find_from_range: "find_from sub s i = - 1 \<or> int i \<le> find_from sub s i"
proof (induction s arbitrary: i)
  case Nil
  then show ?case by simp
next
  case (Cons c cs)
  from Cons [of "Suc i"] show ?case by auto
qed

lemma find_from_found: "int i \<le> find_from sub s i \<longleftrightarrow> sublist sub s"
proof (induction s arbitrary: i)
  case Nil
  then show ?case by simp
next
  case (Cons c cs)
  have "int i \<le> find_from sub cs (Suc i) \<longleftrightarrow> int (Suc i) \<le> find_from sub cs (Suc i)"
    using find_from_range [of sub cs "Suc i"] by auto
  then show ?case
    using Cons.IH [of "Suc i"] by (auto simp: sublist_Cons_right)
qed

lemma find_from_first: "find_from sub s i = int i \<longleftrightarrow> prefix sub s"
proof (cases s)
  case Nil
  then show ?thesis by auto
next
  case (Cons c cs)
  have "find_from sub cs (Suc i) \<noteq> int i"
    using find_from_range [of sub cs "Suc i"] by auto
  then show ?thesis by (simp add: Cons)
qed

lemma py_find_positive: "0 < py_find s sub \<longleftrightarrow> sublist sub s \<and> \<not> prefix sub s"
  using find_from_found [of 0 sub s] find_from_first [of sub s 0]
  by (auto simp: py_find_def)


lemma mpl_statistics_calls:
  "mpl_statistics est fmt2 x y xerr yerr k statistics acc = (calls, r) \<Longrightarrow> ev \<in> set calls \<Longrightarrow>
   \<exists>i s. ev = Bootstrap_statistic i x y xerr yerr s"
proof (induction statistics arbitrary: k acc calls r)
  case Nil
  then show ?case by simp
next
  case (Cons statistic rest)
  show ?case
  proof (cases "est k x y xerr yerr statistic")
    case (Inl e)
    with Cons.prems show ?thesis by auto
  next
    case (Inr s)
    obtain calls' r' where rec: "mpl_statistics est fmt2 x y xerr yerr (Suc k) rest
        (acc @ mpl_stat_line fmt2 statistic s) = (calls', r')"
      by (cases "mpl_statistics est fmt2 x y xerr yerr (Suc k) rest
        (acc @ mpl_stat_line fmt2 statistic s)")
    from Cons.prems(1) have "calls = Bootstrap_statistic k x y xerr yerr statistic # calls'"
      by (simp add: Inr rec)
    with Cons.prems(2) Cons.IH [OF rec] show ?thesis by auto
  qed
qed

lemma plotly_statistics_calls:
  "plotly_statistics est fmt2 x y k statistics acc = (calls, r) \<Longrightarrow> ev \<in> set calls \<Longrightarrow>
   \<exists>i s. ev = Bootstrap_statistic i x y None None s"
proof (induction statistics arbitrary: k acc calls r)
  case Nil
  then show ?case by simp
next
  case (Cons statistic rest)
  show ?case
  proof (cases "est k x y None None statistic")
    case (Inl e)
    with Cons.prems show ?thesis by auto
  next
    case (Inr s)
    obtain calls' r' where rec: "plotly_statistics est fmt2 x y (Suc k) rest
        (acc @ [plotly_stat_line fmt2 statistic s]) = (calls', r')"
      by (cases "plotly_statistics est fmt2 x y (Suc k) rest
        (acc @ [plotly_stat_line fmt2 statistic s])")
    from Cons.prems(1) have "calls = Bootstrap_statistic k x y None None statistic # calls'"
      by (simp add: Inr rec)
    with Cons.prems(2) Cons.IH [OF rec] show ?thesis by auto
  qed
qed

lemma axis_range_cases:
  obtains (fail) "axis_range x y = Inl ValueError" | (ok) lo hi where "axis_range x y = Inr (lo, hi)"
  by (cases x; cases y) (auto simp: axis_range_def)

lemma plotlying_master_plot_fail:
  "axis_range x y = Inl e \<Longrightarrow>
   plotlying_master_plot est fmt2 x y c title xerr yerr names smiles method_name_x
       method_name_y target_name plot_type guidelines origins statistics filename = ([], Inl e)"
  by (simp add: plotlying_master_plot_def)

lemma plotlying_master_plot_events:
  assumes "axis_range x y = Inr (lo, hi)"
    and "plotly_statistics est fmt2 x y 0 statistics [] = (calls, r)"
  shows "\<exists>frame clr n.
     (\<forall>ev \<in> set frame. \<not> is_export ev \<and> event_xy ev = None \<and> \<not> is_estimator_call ev)
     \<and> plotlying_master_plot est fmt2 x y c title xerr yerr names smiles method_name_x
         method_name_y target_name plot_type guidelines origins statistics filename =
       (case r of
          Inl e \<Rightarrow>
            (frame @ [Add_trace (Markers x y (target_name @ '','' @ method_name_y) clr
                         (c \<noteq> None) xerr yerr n)] @ calls, Inl e)
        | Inr string \<Rightarrow>
            (frame @ [Add_trace (Markers x y (target_name @ '','' @ method_name_y) clr
                         (c \<noteq> None) xerr yerr n)] @ calls
               @ [Update_layout
                    (title @ ''<br>'' @ target_name @ '' (N = '' @ str_nat (length x)
                       @ '')<br>'' @ join ''<br>'' string)
                    (method_name_x @ '' '' @ plot_type @ '' [kcal mol<sup>-1</sup>]'')
                    (method_name_y @ '' '' @ plot_type @ ''  [kcal mol<sup>-1</sup>]'')
                    lo hi]
               @ (if \<not> np_any c then [Update_layout_empty] else [])
               @ [plotly_export filename], Inr ()))"
proof -
  let ?frame = "[Go_figure]
                @ (if origins
                   then [Add_trace (Line [0, 0] [lo, hi] ''grey'' []),
                         Add_trace (Line [lo, hi] [0, 0] ''grey'' [])]
                   else [])
                @ (if guidelines
                   then [Add_trace (Margin [lo, hi, hi, lo]
                           [lo + 2 * 0.5, hi + 2 * 0.5, hi - 2 * 0.5, lo - 2 * 0.5]
                           ''1 kcal/mol margin''),
                         Add_trace (Margin [lo, hi, hi, lo]
                           [lo + 0.5, hi + 0.5, hi - 0.5, lo - 0.5]
                           ''.5 kcal/mol margin'')]
                   else [])
                @ [Add_trace (Line [lo, hi] [lo, hi] ''black'' ''dash'')]"
  have frame: "\<forall>ev \<in> set ?frame. \<not> is_export ev \<and> event_xy ev = None \<and> \<not> is_estimator_call ev"
    by auto
  show ?thesis
    apply (rule exI [of _ ?frame])
    apply (rule exI [of _ "case c of Some cs \<Rightarrow> cs | None \<Rightarrow> map (\<lambda>v. 0) x"])
    apply (rule exI [of _ "hover_text names smiles
               (case c of Some cs \<Rightarrow> cs | None \<Rightarrow> map (\<lambda>v. 0) x)"])
    apply (rule conjI [OF frame])
    apply (cases r)
     apply (simp_all add: plotlying_master_plot_def assms Let_def del: is_export.simps event_xy.simps)
    done
qed


lemma master_plot_fail:
  assumes "axis_range x y = Inl e \<or> (axis_range x y \<noteq> Inl ValueError \<and> np_sub x y = Inl e)"
  shows "\<exists>frame.
     (\<forall>ev \<in> set frame. \<not> is_export ev \<and> event_xy ev = None \<and> \<not> is_estimator_call ev)
     \<and> master_plot est fmt2 x y title xerr yerr method_name target_name plot_type
         guidelines origins statistics filename = (frame, Inl e)"
proof (cases rule: axis_range_cases [of x y])
  case fail
  with assms have "axis_range x y = Inl e" by auto
  then show ?thesis by (simp add: master_plot_def)
next
  case (ok lo hi)
  with assms have "np_sub x y = Inl e" by auto
  then show ?thesis using ok by (auto simp: master_plot_def Let_def)
qed

lemma master_plot_events:
  assumes "axis_range x y = Inr (lo, hi)"
    and "np_sub x y = Inr d"
    and "mpl_statistics est fmt2 x y xerr yerr 0 statistics [] = (calls, r)"
  shows "\<exists>frame.
     (\<forall>ev \<in> set frame. \<not> is_export ev \<and> event_xy ev = None \<and> \<not> is_estimator_call ev)
     \<and> master_plot est fmt2 x y title xerr yerr method_name target_name plot_type
         guidelines origins statistics filename =
       (case r of
          Inl e \<Rightarrow>
            (frame @ [Plt_errorbar x y xerr yerr,
                      Plt_scatter x y (map (\<lambda>v. \<bar>v\<bar> / 2.372) d)] @ calls, Inl e)
        | Inr statistics_string \<Rightarrow>
            (frame @ [Plt_errorbar x y xerr yerr,
                      Plt_scatter x y (map (\<lambda>v. \<bar>v\<bar> / 2.372) d)] @ calls
               @ [Plt_title (title @ '' '' @ newline @ '' '' @ target_name @ '' (N = ''
                          @ str_nat (length x) @ '') '' @ newline @ '' '' @ statistics_string),
                  mpl_export filename], Inr ()))"
proof -
  let ?frame = "[Rc_param ''xtick.labelsize'' 12, Rc_param ''ytick.labelsize'' 12,
             Rc_param ''font.size'' 12, Plt_figure, Plt_subplots_adjust,
             Plt_xlabel (''Experimental '' @ plot_type @ '' '' @ mpl_axis_unit),
             Plt_ylabel (''Calculated '' @ plot_type @ '' '' @ method_name @ '' ''
                          @ mpl_axis_unit)]
            @ [Plt_xlim [lo, hi], Plt_ylim [lo, hi]]
                @ (if origins
                   then [Plt_plot [0, 0] [lo, hi] ''gray'', Plt_plot [lo, hi] [0, 0] ''gray'']
                   else [])
                @ [Plt_plot [lo, hi] [lo, hi] ''k:'']
                @ (if guidelines
                   then [Plt_fill_between [lo, hi]
                           [lo - 0.5, hi - 0.5]
                           [lo + 0.5, hi + 0.5],
                         Plt_fill_between [lo, hi]
                           [lo - 0.5 * 2, hi - 0.5 * 2]
                           [lo + 0.5 * 2, hi + 0.5 * 2]]
                   else [])"
  have frame: "\<forall>ev \<in> set ?frame. \<not> is_export ev \<and> event_xy ev = None \<and> \<not> is_estimator_call ev"
    by auto
  show ?thesis
    apply (rule exI [of _ ?frame])
    apply (rule conjI [OF frame])
    apply (cases r)
     apply (simp_all add: master_plot_def assms Let_def del: is_export.simps event_xy.simps)
    done
qed

lemma plot_bar_ok:
  assumes "plot_bar df ddg_cols error_cols exp_col exp_error_col name_col title filename
        = (events, Inr ())"
  shows "\<exists>pre. (\<forall>ev \<in> set pre. \<not> is_export ev) \<and> events = pre @ [plotly_export filename]"
proof -
  from assms have rows: "nrows df \<noteq> 0"
    by (auto simp: plot_bar_def Let_def split: if_splits)
  from assms rows obtain vals where vals:
      "loc_values df (map Some ddg_cols @ [exp_col]) = Inr vals"
    by (cases "loc_values df (map Some ddg_cols @ [exp_col])") (simp_all add: plot_bar_def Let_def)
  from assms rows vals obtain errs where errs:
      "loc_values df (map Some error_cols @ [Some exp_error_col]) = Inr errs"
    by (cases "loc_values df (map Some error_cols @ [Some exp_error_col])")
       (simp_all add: plot_bar_def Let_def)
  from assms rows vals errs obtain summed where summed:
      "np_add_columns (map (map abs) vals) (map (map abs) errs) = Inr summed"
    by (cases "np_add_columns (map (map abs) vals) (map (map abs) errs)")
       (simp_all add: plot_bar_def Let_def)
  from assms rows vals errs summed obtain m where m: "py_max (concat summed) = Inr m"
    by (cases "py_max (concat summed)") (simp_all add: plot_bar_def Let_def)
  from assms rows vals errs summed m obtain edges where edges:
      "df_col df (Some name_col) = Inr edges"
    by (cases "df_col df (Some name_col)") (simp_all add: plot_bar_def Let_def)
  let ?bars = "map (\<lambda>((col, v), (ecol, ev)). Add_trace (Bar v edges ev col))
                        (zip (zip ddg_cols vals) (zip error_cols errs))"
  have bars: "\<forall>ev \<in> set ?bars. \<not> is_export ev"
    by auto
  let ?height = "20 * (real (length ddg_cols) + 0.3) * real (nrows df)"
  let ?exp_size = "?height / real (nrows df) / 2"
  let ?exp_traces = "if exp_col \<noteq> None
                       then [Add_trace (Exp_markers (last vals) edges ''experiment'' ?exp_size 4),
                             Add_trace (Exp_markers (map2 (-) (last vals) (last errs)) edges
                               ''ExpErrors1'' ?exp_size 2),
                             Add_trace (Exp_markers (map2 (+) (last vals) (last errs)) edges
                               ''ExpErrors2'' ?exp_size 2)]
                       else []"
  let ?pre = "[Go_figure] @ ?bars @ ?exp_traces
                @ [Update_layout_bar title (m * 1.05) (nrows df) ?height]"
  from assms rows vals errs summed m edges
  have "events = ?pre @ [plotly_export filename]"
    by (auto simp: plot_bar_def Let_def)
  moreover have "\<forall>ev \<in> set ?pre. \<not> is_export ev"
    using bars by auto
  ultimately show ?thesis by blast
qed

subsection \<open>Display and export of the plotly back end\<close>

lemma plotly_statistics_no_export:
  "plotly_statistics est fmt2 x y k statistics acc = (calls, r) \<Longrightarrow> filter is_export calls = []"
  by (auto simp: filter_empty_conv dest: plotly_statistics_calls)

lemma mpl_statistics_no_export:
  "mpl_statistics est fmt2 x y xerr yerr k statistics acc = (calls, r) \<Longrightarrow>
   filter is_export calls = []"
  by (auto simp: filter_empty_conv dest: mpl_statistics_calls)

lemma is_export_plotly_export: "is_export (plotly_export filename)"
  by (simp add: plotly_export_def split: option.splits)

lemma plotly_export_eq:
  "plotly_export filename =
     (case filename of
        None \<Rightarrow> Fig_show
      | Some f \<Rightarrow> if sublist ''.html'' f \<and> \<not> prefix ''.html'' f
                  then Fig_write_html f else Fig_write_image f)"
  by (simp add: plotly_export_def py_find_positive split: option.splits)

lemma plotlying_master_plot_exports:
  assumes "plotlying_master_plot est fmt2 x y c title xerr yerr names smiles method_name_x
       method_name_y target_name plot_type guidelines origins statistics filename = (events, Inr ())"
  shows "filter is_export events = [plotly_export filename]"
proof (cases rule: axis_range_cases [of x y])
  case fail
  from plotlying_master_plot_fail [OF this] assms show ?thesis by simp
next
  case (ok lo hi)
  obtain calls r where st: "plotly_statistics est fmt2 x y 0 statistics [] = (calls, r)"
    by (cases "plotly_statistics est fmt2 x y 0 statistics []")
  from plotlying_master_plot_events [OF ok st, of c title xerr yerr names smiles method_name_x
       method_name_y target_name plot_type guidelines origins filename]
  obtain frame clr n where frame: "\<forall>ev \<in> set frame. \<not> is_export ev"
    and eq: "plotlying_master_plot est fmt2 x y c title xerr yerr names smiles method_name_x
         method_name_y target_name plot_type guidelines origins statistics filename =
       (case r of
          Inl e \<Rightarrow>
            (frame @ [Add_trace (Markers x y (target_name @ '','' @ method_name_y) clr
                         (c \<noteq> None) xerr yerr n)] @ calls, Inl e)
        | Inr string \<Rightarrow>
            (frame @ [Add_trace (Markers x y (target_name @ '','' @ method_name_y) clr
                         (c \<noteq> None) xerr yerr n)] @ calls
               @ [Update_layout
                    (title @ ''<br>'' @ target_name @ '' (N = '' @ str_nat (length x)
                       @ '')<br>'' @ join ''<br>'' string)
                    (method_name_x @ '' '' @ plot_type @ '' [kcal mol<sup>-1</sup>]'')
                    (method_name_y @ '' '' @ plot_type @ ''  [kcal mol<sup>-1</sup>]'')
                    lo hi]
               @ (if \<not> np_any c then [Update_layout_empty] else [])
               @ [plotly_export filename], Inr ()))"
    by blast
  have f: "filter is_export frame = []"
    using frame by (simp add: filter_empty_conv)
  show ?thesis
  proof (cases r)
    case (Inl e)
    with eq assms show ?thesis by simp
  next
    case (Inr string)
    with eq assms show ?thesis
      using f plotly_statistics_no_export [OF st] is_export_plotly_export [of filename]
      by auto
  qed
qed

text \<open>
  Claim C2, as amended. For every call of the plotly back end that reaches the export
  step (\<^verbatim>\<open>_master_plot\<close> of \<^verbatim>\<open>plotlying.py\<close> and \<^verbatim>\<open>plot_bar\<close>), exactly one event
  displays or writes the figure: with no file name the figure is shown; with a file name it
  is written as an interactive HTML document when \<^verbatim>\<open>.html\<close> occurs in the name and the
  name does not start with it (\<^verbatim>\<open>filename.find('.html') > 0\<close>), and as a static image in
  every other case. The test looks for the substring, not at the extension.
\<close>

theorem plotly_export_by_first_occurrence:
  "(plotlying_master_plot est fmt2 x y c title xerr yerr names smiles method_name_x
       method_name_y target_name plot_type guidelines origins statistics filename = (events, Inr ())
     \<longrightarrow> filter is_export events =
           [case filename of
              None \<Rightarrow> Fig_show
            | Some f \<Rightarrow> if sublist ''.html'' f \<and> \<not> prefix ''.html'' f
                        then Fig_write_html f else Fig_write_image f])
   \<and> (plot_bar df ddg_cols error_cols exp_col exp_error_col name_col bar_title filename
        = (bar_events, Inr ())
     \<longrightarrow> filter is_export bar_events =
           [case filename of
              None \<Rightarrow> Fig_show
            | Some f \<Rightarrow> if sublist ''.html'' f \<and> \<not> prefix ''.html'' f
                        then Fig_write_html f else Fig_write_image f])"
proof (intro conjI impI)
  assume "plotlying_master_plot est fmt2 x y c title xerr yerr names smiles method_name_x
       method_name_y target_name plot_type guidelines origins statistics filename = (events, Inr ())"
  from plotlying_master_plot_exports [OF this]
  show "filter is_export events =
           [case filename of
              None \<Rightarrow> Fig_show
            | Some f \<Rightarrow> if sublist ''.html'' f \<and> \<not> prefix ''.html'' f
                        then Fig_write_html f else Fig_write_image f]"
    by (simp only: plotly_export_eq)
next
  assume "plot_bar df ddg_cols error_cols exp_col exp_error_col name_col bar_title filename
        = (bar_events, Inr ())"
  from plot_bar_ok [OF this] obtain pre where
    "\<forall>ev \<in> set pre. \<not> is_export ev" "bar_events = pre @ [plotly_export filename]"
    by blast
  then have "filter is_export bar_events = [plotly_export filename]"
    using is_export_plotly_export [of filename] by (simp add: filter_empty_conv)
  then show "filter is_export bar_events =
           [case filename of
              None \<Rightarrow> Fig_show
            | Some f \<Rightarrow> if sublist ''.html'' f \<and> \<not> prefix ''.html'' f
                        then Fig_write_html f else Fig_write_image f]"
    by (simp only: plotly_export_eq)
qed


lemma py_find_examples:
  "py_find ''plot.html'' ''.html'' = 4"
  "py_find ''plot.html.png'' ''.html'' = 4"
  "py_find ''.html.html'' ''.html'' = 0"
  "py_find ''plot.png'' ''.html'' = - 1"
  by (simp_all add: py_find_def)

theorem plotly_export_by_first_occurrence_witness:
  "(let P = plotlying_master_plot (\<lambda>k x y xerr yerr s. Inr \<lparr>mle = 1, low = 1, high = 1\<rparr>)
              (\<lambda>v. ''1.00'') [0, 1] [1, 2] None ''title'' None None None None
              ''Experimental'' ''calc'' ''target'' ''DDG'' True True [''RMSE''] (Some ''plot.html'');
        B = plot_bar \<lparr>nrows = 1,
                columns = [(''edge'', [Str ''a, b'']), (''calc'', [Num 1]), (''dcalc'', [Num (1 / 2)]),
                           (''exp'', [Num 2]), (''dexp'', [Num (1 / 4)])]\<rparr>
              [''calc''] [''dcalc''] (Some ''exp'') ''dexp'' ''edge'' ''title'' (Some ''plot.html'')
    in snd P = Inr () \<and> filter is_export (fst P) = [Fig_write_html ''plot.html'']
     \<and> snd B = Inr () \<and> filter is_export (fst B) = [Fig_write_html ''plot.html''])"
proof -
  let ?P = "plotlying_master_plot (\<lambda>k x y xerr yerr s. Inr \<lparr>mle = 1, low = 1, high = 1\<rparr>)
              (\<lambda>v. ''1.00'') [0, 1] [1, 2] None ''title'' None None None None
              ''Experimental'' ''calc'' ''target'' ''DDG'' True True [''RMSE''] (Some ''plot.html'')"
  let ?B = "plot_bar \<lparr>nrows = 1,
                columns = [(''edge'', [Str ''a, b'']), (''calc'', [Num 1]), (''dcalc'', [Num (1 / 2)]),
                           (''exp'', [Num 2]), (''dexp'', [Num (1 / 4)])]\<rparr>
              [''calc''] [''dcalc''] (Some ''exp'') ''dexp'' ''edge'' ''title'' (Some ''plot.html'')"
  have p: "snd ?P = Inr ()"
    by (simp add: plotlying_master_plot_def axis_range_def Let_def)
  have b: "snd ?B = Inr ()"
    by (simp add: plot_bar_def loc_values_def df_col_def np_add_columns_def Let_def)
  have sub: "sublist ''.html'' ''plot.html''"
    using py_find_positive [of "''plot.html''" "''.html''"] by (simp add: py_find_examples)
  have "?P = (fst ?P, Inr ())" "?B = (fst ?B, Inr ())"
    using p b by (simp_all add: prod_eq_iff)
  with plotly_export_by_first_occurrence
         [of "\<lambda>k x y xerr yerr s. Inr \<lparr>mle = 1, low = 1, high = 1\<rparr>" "\<lambda>v. ''1.00''" "[0, 1]" "[1, 2]"
             None "''title''" None None None None "''Experimental''" "''calc''" "''target''"
             "''DDG''" True True "[''RMSE'']" "Some ''plot.html''" "fst ?P"
             "\<lparr>nrows = 1,
                columns = [(''edge'', [Str ''a, b'']), (''calc'', [Num 1]), (''dcalc'', [Num (1 / 2)]),
                           (''exp'', [Num 2]), (''dexp'', [Num (1 / 4)])]\<rparr>"
             "[''calc'']" "[''dcalc'']" "Some ''exp''" "''dexp''" "''edge''" "''title''" "fst ?B"]
  have "filter is_export (fst ?P) = [Fig_write_html ''plot.html'']"
       "filter is_export (fst ?B) = [Fig_write_html ''plot.html'']"
    by (simp_all add: sub)
  with p b show ?thesis by (simp add: Let_def)
qed

text \<open>
  Claim C2 as stated fails: the file name \<^verbatim>\<open>plot.html.png\<close> has the extension
  \<^verbatim>\<open>.png\<close>, and the call that completes with it writes an HTML document, not a static
  image.
\<close>

theorem export_by_extension_counterexample:
  "(let P = plotlying_master_plot (\<lambda>k x y xerr yerr s. Inr \<lparr>mle = 1, low = 1, high = 1\<rparr>)
              (\<lambda>v. ''1.00'') [0, 1] [1, 2] None ''title'' None None None None
              ''Experimental'' ''calc'' ''target'' ''DDG'' True True [''RMSE''] (Some ''plot.html.png'')
    in file_extension ''plot.html.png'' = ''.png''
     \<and> snd P = Inr () \<and> filter is_export (fst P) = [Fig_write_html ''plot.html.png''])"
proof -
  let ?P = "plotlying_master_plot (\<lambda>k x y xerr yerr s. Inr \<lparr>mle = 1, low = 1, high = 1\<rparr>)
              (\<lambda>v. ''1.00'') [0, 1] [1, 2] None ''title'' None None None None
              ''Experimental'' ''calc'' ''target'' ''DDG'' True True [''RMSE''] (Some ''plot.html.png'')"
  have p: "snd ?P = Inr ()"
    by (simp add: plotlying_master_plot_def axis_range_def Let_def)
  then have "?P = (fst ?P, Inr ())"
    by (simp add: prod_eq_iff)
  from plotlying_master_plot_exports [OF this]
  have "filter is_export (fst ?P) = [Fig_write_html ''plot.html.png'']"
    by (simp add: plotly_export_def py_find_examples)
  moreover have "file_extension ''plot.html.png'' = ''.png''"
    by (simp add: file_extension_def)
  ultimately show ?thesis using p by (simp add: Let_def)
qed

subsection \<open>Errors of the estimator\<close>

lemma mpl_statistics_error:
  "mpl_statistics est fmt2 x y xerr yerr k statistics acc = (calls, r) \<Longrightarrow>
   Bootstrap_statistic i x' y' xe ye s \<in> set calls \<Longrightarrow> est i x' y' xe ye s = Inl e \<Longrightarrow>
   r = Inl e"
proof (induction statistics arbitrary: k acc calls r)
  case Nil
  then show ?case by simp
next
  case (Cons statistic rest)
  show ?case
  proof (cases "est k x y xerr yerr statistic")
    case (Inl e')
    with Cons.prems show ?thesis by auto
  next
    case (Inr res)
    obtain calls' r' where rec: "mpl_statistics est fmt2 x y xerr yerr (Suc k) rest
        (acc @ mpl_stat_line fmt2 statistic res) = (calls', r')"
      by (cases "mpl_statistics est fmt2 x y xerr yerr (Suc k) rest
        (acc @ mpl_stat_line fmt2 statistic res)")
    from Cons.prems(1) have eq: "calls = Bootstrap_statistic k x y xerr yerr statistic # calls'"
      "r = r'"
      by (simp_all add: Inr rec)
    from Cons.prems(2,3) Inr eq have "Bootstrap_statistic i x' y' xe ye s \<in> set calls'"
      by auto
    from Cons.IH [OF rec this Cons.prems(3)] eq show ?thesis by simp
  qed
qed

lemma plotly_statistics_error:
  "plotly_statistics est fmt2 x y k statistics acc = (calls, r) \<Longrightarrow>
   Bootstrap_statistic i x' y' xe ye s \<in> set calls \<Longrightarrow> est i x' y' xe ye s = Inl e \<Longrightarrow>
   r = Inl e"
proof (induction statistics arbitrary: k acc calls r)
  case Nil
  then show ?case by simp
next
  case (Cons statistic rest)
  show ?case
  proof (cases "est k x y None None statistic")
    case (Inl e')
    with Cons.prems show ?thesis by auto
  next
    case (Inr res)
    obtain calls' r' where rec: "plotly_statistics est fmt2 x y (Suc k) rest
        (acc @ [plotly_stat_line fmt2 statistic res]) = (calls', r')"
      by (cases "plotly_statistics est fmt2 x y (Suc k) rest
        (acc @ [plotly_stat_line fmt2 statistic res])")
    from Cons.prems(1) have eq: "calls = Bootstrap_statistic k x y None None statistic # calls'"
      "r = r'"
      by (simp_all add: Inr rec)
    from Cons.prems(2,3) Inr eq have "Bootstrap_statistic i x' y' xe ye s \<in> set calls'"
      by auto
    from Cons.IH [OF rec this Cons.prems(3)] eq show ?thesis by simp
  qed
qed

lemma np_sub_cases:
  obtains (fail) "np_sub x y = Inl ValueError" | (ok) d where "np_sub x y = Inr d"
proof (cases "np_sub x y")
  case (Inl e)
  then have "e = ValueError"
    by (auto simp: np_sub_def split: if_splits)
  with Inl fail show ?thesis by simp
next
  case (Inr d)
  with ok show ?thesis by simp
qed

lemma master_plot_error:
  assumes "Bootstrap_statistic i x' y' xe ye s
             \<in> set (fst (master_plot est fmt2 x y title xerr yerr method_name target_name
                           plot_type guidelines origins statistics filename))"
    and "est i x' y' xe ye s = Inl e"
  shows "snd (master_plot est fmt2 x y title xerr yerr method_name target_name
                plot_type guidelines origins statistics filename) = Inl e
       \<and> filter is_export (fst (master_plot est fmt2 x y title xerr yerr method_name target_name
                plot_type guidelines origins statistics filename)) = []"
proof -
  let ?M = "master_plot est fmt2 x y title xerr yerr method_name target_name
                plot_type guidelines origins statistics filename"
  have no_call: "\<And>frame e'. \<forall>ev \<in> set frame. \<not> is_export ev \<and> event_xy ev = None
            \<and> \<not> is_estimator_call ev \<Longrightarrow> ?M = (frame, Inl e') \<Longrightarrow> False"
    using assms(1) by force
  show ?thesis
  proof (cases rule: axis_range_cases [of x y])
    case fail
    with master_plot_fail [of x y ValueError est fmt2 title xerr yerr method_name target_name
                plot_type guidelines origins statistics filename] no_call
    show ?thesis by blast
  next
    case (ok lo hi)
    show ?thesis
    proof (cases rule: np_sub_cases [of x y])
      case fail
      with ok master_plot_fail [of x y ValueError est fmt2 title xerr yerr method_name target_name
                plot_type guidelines origins statistics filename] no_call
      show ?thesis by auto
    next
      case (ok d)
      obtain calls r where st: "mpl_statistics est fmt2 x y xerr yerr 0 statistics [] = (calls, r)"
        by (cases "mpl_statistics est fmt2 x y xerr yerr 0 statistics []")
      from master_plot_events [OF \<open>axis_range x y = Inr (lo, hi)\<close> ok st, of title method_name
          target_name plot_type guidelines origins filename]
      obtain frame where frame: "\<forall>ev \<in> set frame. \<not> is_export ev \<and> event_xy ev = None
            \<and> \<not> is_estimator_call ev"
        and eq: "?M =
       (case r of
          Inl e \<Rightarrow>
            (frame @ [Plt_errorbar x y xerr yerr,
                      Plt_scatter x y (map (\<lambda>v. \<bar>v\<bar> / 2.372) d)] @ calls, Inl e)
        | Inr statistics_string \<Rightarrow>
            (frame @ [Plt_errorbar x y xerr yerr,
                      Plt_scatter x y (map (\<lambda>v. \<bar>v\<bar> / 2.372) d)] @ calls
               @ [Plt_title (title @ '' '' @ newline @ '' '' @ target_name @ '' (N = ''
                          @ str_nat (length x) @ '') '' @ newline @ '' '' @ statistics_string),
                  mpl_export filename], Inr ()))"
        by blast
      have "Bootstrap_statistic i x' y' xe ye s \<notin> set frame"
        using frame by force
      with assms(1) eq have "Bootstrap_statistic i x' y' xe ye s \<in> set calls"
        by (cases r) (auto simp: mpl_export_def split: option.splits)
      from mpl_statistics_error [OF st this assms(2)] have r: "r = Inl e" .
      have "filter is_export frame = []" "filter is_export calls = []"
        using frame mpl_statistics_no_export [OF st] by (simp_all add: filter_empty_conv)
      with eq r show ?thesis by simp
    qed
  qed
qed

lemma plotlying_master_plot_error:
  assumes "Bootstrap_statistic i x' y' xe ye s
             \<in> set (fst (plotlying_master_plot est fmt2 x y c title xerr yerr names smiles
                 method_name_x method_name_y target_name plot_type guidelines origins
                 statistics filename))"
    and "est i x' y' xe ye s = Inl e"
  shows "snd (plotlying_master_plot est fmt2 x y c title xerr yerr names smiles
                 method_name_x method_name_y target_name plot_type guidelines origins
                 statistics filename) = Inl e
       \<and> filter is_export (fst (plotlying_master_plot est fmt2 x y c title xerr yerr names smiles
                 method_name_x method_name_y target_name plot_type guidelines origins
                 statistics filename)) = []"
proof -
  let ?M = "plotlying_master_plot est fmt2 x y c title xerr yerr names smiles
                 method_name_x method_name_y target_name plot_type guidelines origins
                 statistics filename"
  show ?thesis
  proof (cases rule: axis_range_cases [of x y])
    case fail
    from plotlying_master_plot_fail [OF this] assms(1) show ?thesis by simp
  next
    case (ok lo hi)
    obtain calls r where st: "plotly_statistics est fmt2 x y 0 statistics [] = (calls, r)"
      by (cases "plotly_statistics est fmt2 x y 0 statistics []")
    from plotlying_master_plot_events [OF ok st, of c title xerr yerr names smiles method_name_x
       method_name_y target_name plot_type guidelines origins filename]
    obtain frame clr n where frame: "\<forall>ev \<in> set frame. \<not> is_export ev \<and> event_xy ev = None
            \<and> \<not> is_estimator_call ev"
      and eq: "?M =
       (case r of
          Inl e \<Rightarrow>
            (frame @ [Add_trace (Markers x y (target_name @ '','' @ method_name_y) clr
                         (c \<noteq> None) xerr yerr n)] @ calls, Inl e)
        | Inr string \<Rightarrow>
            (frame @ [Add_trace (Markers x y (target_name @ '','' @ method_name_y) clr
                         (c \<noteq> None) xerr yerr n)] @ calls
               @ [Update_layout
                    (title @ ''<br>'' @ target_name @ '' (N = '' @ str_nat (length x)
                       @ '')<br>'' @ join ''<br>'' string)
                    (method_name_x @ '' '' @ plot_type @ '' [kcal mol<sup>-1</sup>]'')
                    (method_name_y @ '' '' @ plot_type @ ''  [kcal mol<sup>-1</sup>]'')
                    lo hi]
               @ (if \<not> np_any c then [Update_layout_empty] else [])
               @ [plotly_export filename], Inr ()))"
      by blast
    have "Bootstrap_statistic i x' y' xe ye s \<notin> set frame"
      using frame by force
    with assms(1) eq have "Bootstrap_statistic i x' y' xe ye s \<in> set calls"
      by (cases r) (auto simp: plotly_export_def split: option.splits if_splits)
    from plotly_statistics_error [OF st this assms(2)] have r: "r = Inl e" .
    have "filter is_export frame = []" "filter is_export calls = []"
      using frame plotly_statistics_no_export [OF st] by (simp_all add: filter_empty_conv)
    with eq r show ?thesis by simp
  qed
qed

text \<open>
  Claim C4. If a call of the estimator made by a plotting routine raises, the routine
  ends with that same error (nothing catches it), and no event of the call displays a
  figure or writes a file: the export step comes after the loop over the statistics.
  Both back ends.
\<close>

theorem estimator_error_propagates_before_export:
  "(let M = master_plot est fmt2 x y title xerr yerr method_name target_name plot_type
              guidelines origins statistics filename
    in Bootstrap_statistic i x' y' xe ye s \<in> set (fst M) \<and> est i x' y' xe ye s = Inl e
       \<longrightarrow> snd M = Inl e \<and> filter is_export (fst M) = [])
   \<and> (let P = plotlying_master_plot est fmt2 x y c title xerr yerr names smiles method_name_x
              method_name_y target_name plot_type guidelines origins statistics filename
    in Bootstrap_statistic i x' y' xe ye s \<in> set (fst P) \<and> est i x' y' xe ye s = Inl e
       \<longrightarrow> snd P = Inl e \<and> filter is_export (fst P) = [])"
  unfolding Let_def
  using master_plot_error [of i x' y' xe ye s est fmt2 x y title xerr yerr method_name target_name
       plot_type guidelines origins statistics filename e]
    plotlying_master_plot_error [of i x' y' xe ye s est fmt2 x y c title xerr yerr names smiles
       method_name_x method_name_y target_name plot_type guidelines origins statistics filename e]
  by blast


lemma estimate_examples:
  "estimate \<lparr>index_draw = (\<lambda>k i. i + k), normal_x = (\<lambda>k i. 1), normal_y = (\<lambda>k i. 1)\<rparr>
        2 (\<lambda>p vs. if p < 50 then fold min vs (hd vs) else fold max vs (hd vs))
        [1] [2] None None ''RMSE'' = Inr \<lparr>mle = 1, low = 1, high = 1\<rparr>"
  "estimate \<lparr>index_draw = (\<lambda>k i. i + k), normal_x = (\<lambda>k i. 1), normal_y = (\<lambda>k i. 1)\<rparr>
        2 (\<lambda>p vs. if p < 50 then fold min vs (hd vs) else fold max vs (hd vs))
        [1] [2] None None ''R2'' = Inl UndefinedStatistic"
proof -
  have upt: "[0..<2] = [0, Suc 0]"
    by (simp add: numeral_2_eq_2)
  show "estimate \<lparr>index_draw = (\<lambda>k i. i + k), normal_x = (\<lambda>k i. 1), normal_y = (\<lambda>k i. 1)\<rparr>
        2 (\<lambda>p vs. if p < 50 then fold min vs (hd vs) else fold max vs (hd vs))
        [1] [2] None None ''RMSE'' = Inr \<lparr>mle = 1, low = 1, high = 1\<rparr>"
    by (simp add: estimate_def shape_ok_def parse_metric_def resample_def perturb_def
        rmse_def mean_def upt Let_def)
  show "estimate \<lparr>index_draw = (\<lambda>k i. i + k), normal_x = (\<lambda>k i. 1), normal_y = (\<lambda>k i. 1)\<rparr>
        2 (\<lambda>p vs. if p < 50 then fold min vs (hd vs) else fold max vs (hd vs))
        [1] [2] None None ''R2'' = Inl UndefinedStatistic"
    by (simp add: estimate_def shape_ok_def parse_metric_def pearson_def Let_def)
qed

theorem estimator_error_propagates_before_export_witness:
  "(let est = (\<lambda>k. estimate
                 \<lparr>index_draw = (\<lambda>k i. i + k), normal_x = (\<lambda>k i. 1), normal_y = (\<lambda>k i. 1)\<rparr>
                 2 (\<lambda>p vs. if p < 50 then fold min vs (hd vs) else fold max vs (hd vs)));
        M = master_plot est (\<lambda>v. ''1.00'') [1] [2] ''title'' None None ''calc'' ''target''
              ''DG'' True True [''RMSE'', ''R2''] (Some ''plot.png'');
        P = plotlying_master_plot est (\<lambda>v. ''1.00'') [1] [2] None ''title'' None None None None
              ''Experimental'' ''calc'' ''target'' ''DG'' True True [''RMSE'', ''R2'']
              (Some ''plot.png'')
    in Bootstrap_statistic 1 [1] [2] None None ''R2'' \<in> set (fst M)
     \<and> Bootstrap_statistic 1 [1] [2] None None ''R2'' \<in> set (fst P)
     \<and> est 1 [1] [2] None None ''R2'' = Inl UndefinedStatistic
     \<and> snd M = Inl UndefinedStatistic \<and> filter is_export (fst M) = []
     \<and> snd P = Inl UndefinedStatistic \<and> filter is_export (fst P) = [])"
proof -
  let ?est = "\<lambda>k::nat. estimate
                 \<lparr>index_draw = (\<lambda>k i. i + k), normal_x = (\<lambda>k i. 1), normal_y = (\<lambda>k i. 1)\<rparr>
                 2 (\<lambda>p vs. if p < 50 then fold min vs (hd vs) else fold max vs (hd vs))"
  let ?M = "master_plot ?est (\<lambda>v. ''1.00'') [1] [2] ''title'' None None ''calc'' ''target''
              ''DG'' True True [''RMSE'', ''R2''] (Some ''plot.png'')"
  let ?P = "plotlying_master_plot ?est (\<lambda>v. ''1.00'') [1] [2] None ''title'' None None None None
              ''Experimental'' ''calc'' ''target'' ''DG'' True True [''RMSE'', ''R2'']
              (Some ''plot.png'')"
  have m: "Bootstrap_statistic 1 [1] [2] None None ''R2'' \<in> set (fst ?M)"
    by (simp add: master_plot_def axis_range_def np_sub_def Let_def estimate_examples)
  have p: "Bootstrap_statistic 1 [1] [2] None None ''R2'' \<in> set (fst ?P)"
    by (simp add: plotlying_master_plot_def axis_range_def Let_def estimate_examples)
  have e: "?est 1 [1] [2] None None ''R2'' = Inl UndefinedStatistic"
    by (simp add: estimate_examples)
  from estimator_error_propagates_before_export
         [of ?est "\<lambda>v. ''1.00''" "[1]" "[2]" "''title''" None None "''calc''" "''target''"
             "''DG''" True True "[''RMSE'', ''R2'']" "Some ''plot.png''"
             1 "[1]" "[2]" None None "''R2''" UndefinedStatistic
             None None None "''Experimental''" "''calc''"] m p e
  show ?thesis
    unfolding Let_def by blast
qed

subsection \<open>The title and the calls of the estimator\<close>







text \<open>
  Claim C1 (that every call of the estimator passes the caller's uncertainties) fails on
  the plotly back end: called with \<open>xerr = [0.1, 0.1]\<close> and \<open>yerr = [0.2, 0.2]\<close>,
  \<^verbatim>\<open>_master_plot\<close> of \<^verbatim>\<open>plotlying.py\<close> calls the estimator without them, while
  \<^verbatim>\<open>_master_plot\<close> of \<^verbatim>\<open>plotting.py\<close> passes them on the same input.
\<close>

theorem plotly_estimator_calls_drop_the_uncertainties:
  "filter is_estimator_call
     (fst (plotlying_master_plot est fmt2 [0, 1] [1, 2] None title (Some [0.1, 0.1])
             (Some [0.2, 0.2]) None None method_name_x method_name_y target_name plot_type
             True True [''RMSE''] None))
     = [Bootstrap_statistic 0 [0, 1] [1, 2] None None ''RMSE'']
   \<and> filter is_estimator_call
     (fst (master_plot est fmt2 [0, 1] [1, 2] title (Some [0.1, 0.1]) (Some [0.2, 0.2])
             method_name_y target_name plot_type True True [''RMSE''] None))
     = [Bootstrap_statistic 0 [0, 1] [1, 2] (Some [0.1, 0.1]) (Some [0.2, 0.2]) ''RMSE'']"
proof
  show "filter is_estimator_call
     (fst (plotlying_master_plot est fmt2 [0, 1] [1, 2] None title (Some [0.1, 0.1])
             (Some [0.2, 0.2]) None None method_name_x method_name_y target_name plot_type
             True True [''RMSE''] None))
     = [Bootstrap_statistic 0 [0, 1] [1, 2] None None ''RMSE'']"
    by (cases "est 0 [0, 1] [1, 2] None None ''RMSE''")
       (simp_all add: plotlying_master_plot_def axis_range_def plotly_export_def Let_def)
  show "filter is_estimator_call
     (fst (master_plot est fmt2 [0, 1] [1, 2] title (Some [0.1, 0.1]) (Some [0.2, 0.2])
             method_name_y target_name plot_type True True [''RMSE''] None))
     = [Bootstrap_statistic 0 [0, 1] [1, 2] (Some [0.1, 0.1]) (Some [0.2, 0.2]) ''RMSE'']"
    by (cases "est 0 [0, 1] [1, 2] (Some [0.1, 0.1]) (Some [0.2, 0.2]) ''RMSE''")
       (simp_all add: master_plot_def axis_range_def np_sub_def mpl_export_def Let_def)
qed

subsection \<open>The data the events carry\<close>

lemma event_errors_xy: "event_errors ev = Some q \<Longrightarrow> event_xy ev \<noteq> None"
  by (induction ev rule: event_errors.induct) simp_all

lemma axis_range_ok: "x \<noteq> [] \<Longrightarrow> y \<noteq> [] \<Longrightarrow> \<exists>lo hi. axis_range x y = Inr (lo, hi)"
  by (cases x; cases y) (simp_all add: axis_range_def)

lemma axis_range_empty: "x = [] \<or> y = [] \<Longrightarrow> axis_range x y = Inl ValueError"
  by (cases x; cases y) (auto simp: axis_range_def)

lemma np_sub_same_length: "length x = length y \<Longrightarrow> np_sub x y = Inr (map2 (-) x y)"
  by (simp add: np_sub_def)

lemma master_plot_carries:
  assumes "ev \<in> set (fst (master_plot est fmt2 x y title xerr yerr method_name target_name
                            plot_type guidelines origins statistics filename))"
  shows "(\<forall>p. event_xy ev = Some p \<longrightarrow> p = (x, y))
       \<and> (\<forall>q. event_errors ev = Some q \<longrightarrow> q = (xerr, yerr))"
proof -
  let ?M = "master_plot est fmt2 x y title xerr yerr method_name target_name
                            plot_type guidelines origins statistics filename"
  have frame_case: "\<And>frame e. \<forall>ev \<in> set frame. \<not> is_export ev \<and> event_xy ev = None
            \<and> \<not> is_estimator_call ev \<Longrightarrow> ?M = (frame, Inl e) \<Longrightarrow> ?thesis"
    using assms event_errors_xy [of ev] by fastforce
  show ?thesis
  proof (cases rule: axis_range_cases [of x y])
    case fail
    with master_plot_fail [of x y ValueError est fmt2 title xerr yerr method_name target_name
                plot_type guidelines origins statistics filename] frame_case
    show ?thesis by blast
  next
    case (ok lo hi)
    show ?thesis
    proof (cases rule: np_sub_cases [of x y])
      case fail
      with ok master_plot_fail [of x y ValueError est fmt2 title xerr yerr method_name target_name
                plot_type guidelines origins statistics filename] frame_case
      show ?thesis by auto
    next
      case (ok d)
      obtain calls r where st: "mpl_statistics est fmt2 x y xerr yerr 0 statistics [] = (calls, r)"
        by (cases "mpl_statistics est fmt2 x y xerr yerr 0 statistics []")
      from master_plot_events [OF \<open>axis_range x y = Inr (lo, hi)\<close> ok st, of title method_name
          target_name plot_type guidelines origins filename]
      obtain frame where frame: "\<forall>ev \<in> set frame. \<not> is_export ev \<and> event_xy ev = None
            \<and> \<not> is_estimator_call ev"
        and eq: "?M =
       (case r of
          Inl e \<Rightarrow>
            (frame @ [Plt_errorbar x y xerr yerr,
                      Plt_scatter x y (map (\<lambda>v. \<bar>v\<bar> / 2.372) d)] @ calls, Inl e)
        | Inr statistics_string \<Rightarrow>
            (frame @ [Plt_errorbar x y xerr yerr,
                      Plt_scatter x y (map (\<lambda>v. \<bar>v\<bar> / 2.372) d)] @ calls
               @ [Plt_title (title @ '' '' @ newline @ '' '' @ target_name @ '' (N = ''
                          @ str_nat (length x) @ '') '' @ newline @ '' '' @ statistics_string),
                  mpl_export filename], Inr ()))"
        by blast
      from assms eq have "ev \<in> set frame \<or> ev = Plt_errorbar x y xerr yerr
          \<or> ev = Plt_scatter x y (map (\<lambda>v. \<bar>v\<bar> / 2.372) d) \<or> ev \<in> set calls
          \<or> (\<exists>t. ev = Plt_title t) \<or> ev = mpl_export filename"
        by (cases r) auto
      then consider "ev \<in> set frame" | "ev = Plt_errorbar x y xerr yerr"
          | "ev = Plt_scatter x y (map (\<lambda>v. \<bar>v\<bar> / 2.372) d)" | "ev \<in> set calls"
          | t where "ev = Plt_title t" | "ev = mpl_export filename"
        by blast
      then show ?thesis
      proof cases
        case 1
        with frame event_errors_xy [of ev] show ?thesis by fastforce
      next
        case 4
        from mpl_statistics_calls [OF st this] show ?thesis by auto
      qed (auto simp: mpl_export_def split: option.splits)
    qed
  qed
qed

lemma master_plot_draws:
  assumes "x \<noteq> []" "length x = length y"
  shows "Plt_errorbar x y xerr yerr
           \<in> set (fst (master_plot est fmt2 x y title xerr yerr method_name target_name
                            plot_type guidelines origins statistics filename))"
proof -
  from assms have "y \<noteq> []" by auto
  with assms obtain lo hi where ok: "axis_range x y = Inr (lo, hi)"
    using axis_range_ok [of x y] by auto
  obtain calls r where st: "mpl_statistics est fmt2 x y xerr yerr 0 statistics [] = (calls, r)"
    by (cases "mpl_statistics est fmt2 x y xerr yerr 0 statistics []")
  from master_plot_events [OF ok np_sub_same_length [OF assms(2)] st, of title method_name
          target_name plot_type guidelines origins filename]
  show ?thesis by (cases r) auto
qed

lemma plotlying_master_plot_carries:
  assumes "ev \<in> set (fst (plotlying_master_plot est fmt2 x y c title xerr yerr names smiles
              method_name_x method_name_y target_name plot_type guidelines origins
              statistics filename))"
  shows "(\<forall>p. event_xy ev = Some p \<longrightarrow> p = (x, y))
       \<and> (\<forall>q. event_errors ev = Some q \<longrightarrow> q = (xerr, yerr))"
proof (cases rule: axis_range_cases [of x y])
  case fail
  from plotlying_master_plot_fail [OF this] assms show ?thesis by simp
next
  case (ok lo hi)
  let ?P = "plotlying_master_plot est fmt2 x y c title xerr yerr names smiles
              method_name_x method_name_y target_name plot_type guidelines origins
              statistics filename"
  obtain calls r where st: "plotly_statistics est fmt2 x y 0 statistics [] = (calls, r)"
    by (cases "plotly_statistics est fmt2 x y 0 statistics []")
  from plotlying_master_plot_events [OF ok st, of c title xerr yerr names smiles method_name_x
       method_name_y target_name plot_type guidelines origins filename]
  obtain frame clr n where frame: "\<forall>ev \<in> set frame. \<not> is_export ev \<and> event_xy ev = None
            \<and> \<not> is_estimator_call ev"
    and eq: "?P =
       (case r of
          Inl e \<Rightarrow>
            (frame @ [Add_trace (Markers x y (target_name @ '','' @ method_name_y) clr
                         (c \<noteq> None) xerr yerr n)] @ calls, Inl e)
        | Inr string \<Rightarrow>
            (frame @ [Add_trace (Markers x y (target_name @ '','' @ method_name_y) clr
                         (c \<noteq> None) xerr yerr n)] @ calls
               @ [Update_layout
                    (title @ ''<br>'' @ target_name @ '' (N = '' @ str_nat (length x)
                       @ '')<br>'' @ join ''<br>'' string)
                    (method_name_x @ '' '' @ plot_type @ '' [kcal mol<sup>-1</sup>]'')
                    (method_name_y @ '' '' @ plot_type @ ''  [kcal mol<sup>-1</sup>]'')
                    lo hi]
               @ (if \<not> np_any c then [Update_layout_empty] else [])
               @ [plotly_export filename], Inr ()))"
    by blast
  from assms eq have "ev \<in> set frame
      \<or> ev = Add_trace (Markers x y (target_name @ '','' @ method_name_y) clr
                         (c \<noteq> None) xerr yerr n)
      \<or> ev \<in> set calls \<or> (\<exists>t a b lo hi. ev = Update_layout t a b lo hi)
      \<or> ev = Update_layout_empty \<or> ev = plotly_export filename"
    by (cases r) (auto split: if_splits)
  then consider "ev \<in> set frame"
      | "ev = Add_trace (Markers x y (target_name @ '','' @ method_name_y) clr
                         (c \<noteq> None) xerr yerr n)"
      | "ev \<in> set calls" | t a b lo hi where "ev = Update_layout t a b lo hi"
      | "ev = Update_layout_empty" | "ev = plotly_export filename"
    by blast
  then show ?thesis
  proof cases
    case 1
    with frame event_errors_xy [of ev] show ?thesis by fastforce
  next
    case 3
    from plotly_statistics_calls [OF st this] show ?thesis by auto
  qed (auto simp: plotly_export_def split: option.splits)
qed

lemma plotlying_master_plot_draws:
  assumes "x \<noteq> []" "y \<noteq> []"
  shows "\<exists>name clr cbar n. Add_trace (Markers x y name clr cbar xerr yerr n)
           \<in> set (fst (plotlying_master_plot est fmt2 x y c title xerr yerr names smiles
              method_name_x method_name_y target_name plot_type guidelines origins
              statistics filename))"
proof -
  from assms obtain lo hi where ok: "axis_range x y = Inr (lo, hi)"
    using axis_range_ok [of x y] by auto
  obtain calls r where st: "plotly_statistics est fmt2 x y 0 statistics [] = (calls, r)"
    by (cases "plotly_statistics est fmt2 x y 0 statistics []")
  from plotlying_master_plot_events [OF ok st, of c title xerr yerr names smiles method_name_x
       method_name_y target_name plot_type guidelines origins filename]
  obtain frame clr n where eq: "plotlying_master_plot est fmt2 x y c title xerr yerr names smiles
              method_name_x method_name_y target_name plot_type guidelines origins
              statistics filename =
       (case r of
          Inl e \<Rightarrow>
            (frame @ [Add_trace (Markers x y (target_name @ '','' @ method_name_y) clr
                         (c \<noteq> None) xerr yerr n)] @ calls, Inl e)
        | Inr string \<Rightarrow>
            (frame @ [Add_trace (Markers x y (target_name @ '','' @ method_name_y) clr
                         (c \<noteq> None) xerr yerr n)] @ calls
               @ [Update_layout
                    (title @ ''<br>'' @ target_name @ '' (N = '' @ str_nat (length x)
                       @ '')<br>'' @ join ''<br>'' string)
                    (method_name_x @ '' '' @ plot_type @ '' [kcal mol<sup>-1</sup>]'')
                    (method_name_y @ '' '' @ plot_type @ ''  [kcal mol<sup>-1</sup>]'')
                    lo hi]
               @ (if \<not> np_any c then [Update_layout_empty] else [])
               @ [plotly_export filename], Inr ()))"
    by blast
  have "Add_trace (Markers x y (target_name @ '','' @ method_name_y) clr (c \<noteq> None) xerr yerr n)
          \<in> set (fst (plotlying_master_plot est fmt2 x y c title xerr yerr names smiles
              method_name_x method_name_y target_name plot_type guidelines origins
              statistics filename))"
    unfolding eq by (cases r) simp_all
  then show ?thesis by blast
qed

subsection \<open>Absolute free energies are centred\<close>

lemma sum_list_centred:
  assumes "xs \<noteq> []"
  shows "sum_list (map (\<lambda>v. v - mean xs) xs) = 0"
proof -
  have "sum_list (map (\<lambda>v. v - m) xs) = sum_list xs - real (length xs) * m" for m :: real
    by (induction xs) (simp_all add: algebra_simps)
  then show ?thesis
    using assms by (simp add: mean_def)
qed

lemma plot_DGs_events:
  assumes "graph < length h" "h ! graph = Graph ns"
  shows "fst (snd (plot_DGs est fmt2 np graph smiles method_name_x method_name_y target_name
                     title filename plotly h)) =
     fst (if plotly
          then plotlying_master_plot est fmt2
                 (map (\<lambda>v. np_subtract np v (np_mean np (map f_i_exp ns))) (map f_i_exp ns))
                 (map (\<lambda>v. np_subtract np v (np_mean np (map f_i_calc ns))) (map f_i_calc ns))
                 None title (Some (map df_i_exp ns)) (Some (map df_i_calc ns))
                 None None method_name_x method_name_y target_name
                 (Delta @ ''G'') True False [''RMSE'', ''MUE'', ''R2'', ''rho''] filename
          else master_plot est fmt2
                 (map (\<lambda>v. np_subtract np v (np_mean np (map f_i_exp ns))) (map f_i_exp ns))
                 (map (\<lambda>v. np_subtract np v (np_mean np (map f_i_calc ns))) (map f_i_calc ns))
                 title (Some (map df_i_exp ns)) (Some (map df_i_calc ns)) method_name_y
                 target_name (''$'' @ backslash @ ''Delta$ G'') True False
                 [''RMSE'', ''MUE'', ''R2'', ''rho''] filename)"
proof -
  from plot_DGs_data_eq [OF assms, of np] obtain new where
    "plot_DGs_data np graph h =
       (Inr (map (\<lambda>v. np_subtract np v (np_mean np (map f_i_exp ns))) (map f_i_exp ns),
             map (\<lambda>v. np_subtract np v (np_mean np (map f_i_calc ns))) (map f_i_calc ns),
             map df_i_exp ns, map df_i_calc ns),
        h @ new)"
    by blast
  then show ?thesis
    by (simp add: plot_DGs_outcome)
qed

lemma first_call_mpl:
  "Bootstrap_statistic 0 x y xerr yerr statistic
     \<in> set (fst (mpl_statistics est fmt2 x y xerr yerr 0 (statistic # rest) acc))"
  by (cases "est 0 x y xerr yerr statistic") (simp_all split: prod.splits)

lemma first_call_plotly:
  "Bootstrap_statistic 0 x y None None statistic
     \<in> set (fst (plotly_statistics est fmt2 x y 0 (statistic # rest) acc))"
  by (cases "est 0 x y None None statistic") (simp_all split: prod.splits)

lemma master_plot_scores:
  assumes "x \<noteq> []" "length x = length y"
  shows "Bootstrap_statistic 0 x y xerr yerr statistic
           \<in> set (fst (master_plot est fmt2 x y title xerr yerr method_name target_name
                            plot_type guidelines origins (statistic # rest) filename))"
proof -
  from assms have "y \<noteq> []" by auto
  with assms obtain lo hi where ok: "axis_range x y = Inr (lo, hi)"
    using axis_range_ok [of x y] by auto
  obtain calls r where st:
      "mpl_statistics est fmt2 x y xerr yerr 0 (statistic # rest) [] = (calls, r)"
    by (cases "mpl_statistics est fmt2 x y xerr yerr 0 (statistic # rest) []")
  from first_call_mpl [of x y xerr yerr statistic est fmt2 rest "[]"]
  have "Bootstrap_statistic 0 x y xerr yerr statistic \<in> set calls"
    unfolding st by simp
  with master_plot_events [OF ok np_sub_same_length [OF assms(2)] st, of title method_name
          target_name plot_type guidelines origins filename]
  show ?thesis by (cases r) auto
qed

lemma plotlying_master_plot_scores:
  assumes "x \<noteq> []" "y \<noteq> []"
  shows "Bootstrap_statistic 0 x y None None statistic
           \<in> set (fst (plotlying_master_plot est fmt2 x y c title xerr yerr names smiles
              method_name_x method_name_y target_name plot_type guidelines origins
              (statistic # rest) filename))"
proof -
  from assms obtain lo hi where ok: "axis_range x y = Inr (lo, hi)"
    using axis_range_ok [of x y] by auto
  obtain calls r where st:
      "plotly_statistics est fmt2 x y 0 (statistic # rest) [] = (calls, r)"
    by (cases "plotly_statistics est fmt2 x y 0 (statistic # rest) []")
  from first_call_plotly [of x y statistic est fmt2 rest "[]"]
  have "Bootstrap_statistic 0 x y None None statistic \<in> set calls"
    unfolding st by simp
  with plotlying_master_plot_events [OF ok st, of c title xerr yerr names smiles method_name_x
       method_name_y target_name plot_type guidelines origins filename]
  show ?thesis by (cases r) auto
qed

lemma plot_DGs_carries:
  assumes "graph < length h" "h ! graph = Graph ns"
  shows "\<forall>ev \<in> set (fst (snd (plot_DGs est fmt2 np graph smiles method_name_x method_name_y
                                   target_name title filename plotly h))).
           \<forall>p. event_xy ev = Some p \<longrightarrow>
             p = (map (\<lambda>v. np_subtract np v (np_mean np (map f_i_exp ns))) (map f_i_exp ns),
                  map (\<lambda>v. np_subtract np v (np_mean np (map f_i_calc ns))) (map f_i_calc ns))"
proof (cases plotly)
  case True
  show ?thesis
    unfolding plot_DGs_events [OF assms] if_P [OF True]
    using plotlying_master_plot_carries by blast
next
  case False
  show ?thesis
    unfolding plot_DGs_events [OF assms] if_not_P [OF False]
    using master_plot_carries by blast
qed

lemma plot_DGs_draws:
  assumes "graph < length h" "h ! graph = Graph ns" "ns \<noteq> []"
  shows "\<exists>ev \<in> set (fst (snd (plot_DGs est fmt2 np graph smiles method_name_x method_name_y
                                   target_name title filename plotly h))).
           event_xy ev =
             Some (map (\<lambda>v. np_subtract np v (np_mean np (map f_i_exp ns))) (map f_i_exp ns),
                   map (\<lambda>v. np_subtract np v (np_mean np (map f_i_calc ns))) (map f_i_calc ns))
           \<and> \<not> is_estimator_call ev"
proof (cases plotly)
  let ?x = "map (\<lambda>v. np_subtract np v (np_mean np (map f_i_exp ns))) (map f_i_exp ns)"
  let ?y = "map (\<lambda>v. np_subtract np v (np_mean np (map f_i_calc ns))) (map f_i_calc ns)"
  let ?events = "fst (snd (plot_DGs est fmt2 np graph smiles method_name_x method_name_y
                                   target_name title filename plotly h))"
  have ne: "?x \<noteq> []" "?y \<noteq> []" "length ?x = length ?y"
    using assms(3) by simp_all
  {
    case True
    have "\<exists>name clr cbar n.
        Add_trace (Markers ?x ?y name clr cbar (Some (map df_i_exp ns)) (Some (map df_i_calc ns)) n)
         \<in> set ?events"
      unfolding plot_DGs_events [OF assms(1,2)] if_P [OF True]
      by (rule plotlying_master_plot_draws [OF ne(1,2)])
    then obtain name clr cbar n where
      "Add_trace (Markers ?x ?y name clr cbar (Some (map df_i_exp ns)) (Some (map df_i_calc ns)) n)
         \<in> set ?events"
      by blast
    then show ?thesis
      by (rule rev_bexI) simp
  next
    case False
    from master_plot_draws [OF ne(1,3)] have
      "Plt_errorbar ?x ?y (Some (map df_i_exp ns)) (Some (map df_i_calc ns)) \<in> set ?events"
      unfolding plot_DGs_events [OF assms(1,2)] if_not_P [OF False] .
    then show ?thesis
      by (rule rev_bexI) simp
  }
qed

lemma plot_DGs_scores:
  assumes "graph < length h" "h ! graph = Graph ns" "ns \<noteq> []"
  shows "\<exists>ev \<in> set (fst (snd (plot_DGs est fmt2 np graph smiles method_name_x method_name_y
                                   target_name title filename plotly h))).
           event_xy ev =
             Some (map (\<lambda>v. np_subtract np v (np_mean np (map f_i_exp ns))) (map f_i_exp ns),
                   map (\<lambda>v. np_subtract np v (np_mean np (map f_i_calc ns))) (map f_i_calc ns))
           \<and> is_estimator_call ev"
proof (cases plotly)
  let ?x = "map (\<lambda>v. np_subtract np v (np_mean np (map f_i_exp ns))) (map f_i_exp ns)"
  let ?y = "map (\<lambda>v. np_subtract np v (np_mean np (map f_i_calc ns))) (map f_i_calc ns)"
  let ?events = "fst (snd (plot_DGs est fmt2 np graph smiles method_name_x method_name_y
                                   target_name title filename plotly h))"
  have ne: "?x \<noteq> []" "?y \<noteq> []" "length ?x = length ?y"
    using assms(3) by simp_all
  {
    case True
    from plotlying_master_plot_scores [OF ne(1,2)] have
      "Bootstrap_statistic 0 ?x ?y None None ''RMSE'' \<in> set ?events"
      unfolding plot_DGs_events [OF assms(1,2)] if_P [OF True] .
    then show ?thesis
      by (rule rev_bexI) simp
  next
    case False
    from master_plot_scores [OF ne(1,3)] have
      "Bootstrap_statistic 0 ?x ?y (Some (map df_i_exp ns)) (Some (map df_i_calc ns)) ''RMSE''
         \<in> set ?events"
      unfolding plot_DGs_events [OF assms(1,2)] if_not_P [OF False] .
    then show ?thesis
      by (rule rev_bexI) simp
  }
qed

text \<open>In exact arithmetic the centred values sum to zero.\<close>

lemma exact_centred_values_sum_to_zero:
  assumes "xs \<noteq> []"
  shows "sum_list (map (\<lambda>v. np_subtract exact_numpy v (np_mean exact_numpy xs)) xs) = 0"
  using sum_list_centred [OF assms] by (simp add: exact_numpy_def)

text \<open>The doubles of the examples.\<close>

lemma binade_numeral:
  "binade (numeral k) a =
     (if 2 \<le> a then binade (pred_numeral k) (a / 2) + 1
      else if a < 1 then binade (pred_numeral k) (2 * a) - 1
      else 0)"
  by (simp add: numeral_eq_Suc)

lemma float64_examples:
  "float64 (1 / 10) = 3602879701896397 / 36028797018963968"
  "float64 (2 / 10) = 3602879701896397 / 18014398509481984"
  "float64 (4 / 10) = 3602879701896397 / 9007199254740992"
  by (simp_all add: float64_def binade_numeral ulp_def round_half_even_def Let_def)

text \<open>Rounding is to the nearest double, and to the even one of two that are equally near.\<close>

lemma float64_rounding_examples:
  "float64 (1 / 3) = 6004799503160661 / 2 ^ 54"
  "float64 (- 1 / 3) = - 6004799503160661 / 2 ^ 54"
  "float64 (1 + 1 / 2 ^ 53) = 1"
  "float64 (1 + 3 / 2 ^ 53) = 1 + 1 / 2 ^ 51"
  by (simp_all add: float64_def binade_numeral ulp_def round_half_even_def Let_def)

lemma float64_numpy_simps:
  "np_mean float64_numpy xs = float64 (float64_sum xs / real (length xs))"
  "np_subtract float64_numpy a b = float64 (a - b)"
  by (simp_all add: float64_numpy_def)

lemma float64_centred_small:
  "map (\<lambda>v. np_subtract float64_numpy v (np_mean float64_numpy [1, 3])) [1, 3] = [- 1, 1]"
  "map (\<lambda>v. np_subtract float64_numpy v (np_mean float64_numpy [2, 6])) [2, 6] = [- 2, 2]"
  "map (\<lambda>v. np_subtract float64_numpy v (np_mean float64_numpy [1, 2, 3])) [1, 2, 3]
     = [- 1, 0, 1]"
  unfolding float64_numpy_simps
  by (simp_all add: float64_sum_def float64_def binade_numeral ulp_def
        round_half_even_def Let_def)

lemma float64_sum_tenths:
  "float64_sum
     [3602879701896397 / 36028797018963968, 3602879701896397 / 18014398509481984,
      3602879701896397 / 9007199254740992]
   = 6305039478318695 / 9007199254740992"
  by (simp add: float64_sum_def float64_def binade_numeral ulp_def
        round_half_even_def Let_def)

lemma float64_mean_tenths:
  "np_mean float64_numpy
     [3602879701896397 / 36028797018963968, 3602879701896397 / 18014398509481984,
      3602879701896397 / 9007199254740992]
   = 8406719304424927 / 36028797018963968"
  unfolding float64_numpy_simps float64_sum_tenths
  by (simp add: float64_def binade_numeral ulp_def round_half_even_def Let_def)

lemma float64_differences_tenths:
  "float64 (3602879701896397 / 36028797018963968 - 8406719304424927 / 36028797018963968)
     = - 2401919801264265 / 18014398509481984"
  "float64 (3602879701896397 / 18014398509481984 - 8406719304424927 / 36028797018963968)
     = - 1200959900632133 / 36028797018963968"
  "float64 (3602879701896397 / 9007199254740992 - 8406719304424927 / 36028797018963968)
     = 6004799503160661 / 36028797018963968"
  by (simp_all add: float64_def binade_numeral ulp_def round_half_even_def Let_def)

lemma float64_sum_centred_tenths:
  "float64_sum [- 2401919801264265 / 18014398509481984, - 1200959900632133 / 36028797018963968,
      6004799503160661 / 36028797018963968] = - 1 / 18014398509481984"
  by (simp add: float64_sum_def float64_def binade_numeral ulp_def
        round_half_even_def Let_def)

text \<open>
  Claim C8, as amended. For a graph with at least one node, \<^verbatim>\<open>plot_DGs\<close> neither draws nor
  scores the stored free energies: every event that carries points (the drawing calls and the
  calls of the estimator) carries, for \<open>x\<close> and for \<open>y\<close>, each stored value minus the mean of
  its sequence, the mean and the difference being those that numpy computes; and there is a
  drawing call and a call of the estimator with these sequences. In exact arithmetic the
  two sequences sum to zero; in the arithmetic of doubles they need not.
\<close>

theorem plot_DGs_plots_and_scores_centred_values:
  assumes "graph < length h" "h ! graph = Graph ns" "ns \<noteq> []"
  shows "(let x = map (\<lambda>n. np_subtract np (f_i_exp n) (np_mean np (map f_i_exp ns))) ns;
              y = map (\<lambda>n. np_subtract np (f_i_calc n) (np_mean np (map f_i_calc ns))) ns;
              events = fst (snd (plot_DGs est fmt2 np graph smiles method_name_x method_name_y
                                   target_name title filename plotly h))
          in (\<forall>ev \<in> set events. \<forall>p. event_xy ev = Some p \<longrightarrow> p = (x, y))
           \<and> (\<exists>ev \<in> set events. event_xy ev = Some (x, y) \<and> \<not> is_estimator_call ev)
           \<and> (\<exists>ev \<in> set events. event_xy ev = Some (x, y) \<and> is_estimator_call ev))"
proof -
  let ?x = "map (\<lambda>v. np_subtract np v (np_mean np (map f_i_exp ns))) (map f_i_exp ns)"
  let ?y = "map (\<lambda>v. np_subtract np v (np_mean np (map f_i_calc ns))) (map f_i_calc ns)"
  let ?events = "fst (snd (plot_DGs est fmt2 np graph smiles method_name_x method_name_y
                                   target_name title filename plotly h))"
  have xy: "?x = map (\<lambda>n. np_subtract np (f_i_exp n) (np_mean np (map f_i_exp ns))) ns"
      "?y = map (\<lambda>n. np_subtract np (f_i_calc n) (np_mean np (map f_i_calc ns))) ns"
    by (simp_all add: comp_def)
  have carries: "\<forall>ev \<in> set ?events. \<forall>p. event_xy ev = Some p \<longrightarrow> p = (?x, ?y)"
    by (rule plot_DGs_carries [OF assms(1,2)])
  have draws: "\<exists>ev \<in> set ?events. event_xy ev = Some (?x, ?y) \<and> \<not> is_estimator_call ev"
    by (rule plot_DGs_draws [OF assms])
  have scores: "\<exists>ev \<in> set ?events. event_xy ev = Some (?x, ?y) \<and> is_estimator_call ev"
    by (rule plot_DGs_scores [OF assms])
  from carries draws scores show ?thesis
    unfolding Let_def xy by blast
qed

theorem plot_DGs_plots_and_scores_centred_values_witness:
  "(let ns = [\<lparr>f_i_exp = 1, df_i_exp = 3, f_i_calc = 2, df_i_calc = 5\<rparr>,
              \<lparr>f_i_exp = 3, df_i_exp = 4, f_i_calc = 6, df_i_calc = 12\<rparr>];
        h = [Graph ns];
        events = fst (snd (plot_DGs (\<lambda>k x y xerr yerr s. Inr \<lparr>mle = 1, low = 1, high = 1\<rparr>)
                             (\<lambda>v. ''1.00'') float64_numpy 0 None ''Experimental'' ''calc''
                             ''target'' ''title'' None False h))
    in 0 < length h \<and> h ! 0 = Graph ns \<and> ns \<noteq> []
     \<and> (\<exists>ev \<in> set events. event_xy ev = Some ([- 1, 1], [- 2, 2]) \<and> \<not> is_estimator_call ev)
     \<and> (\<exists>ev \<in> set events. event_xy ev = Some ([- 1, 1], [- 2, 2]) \<and> is_estimator_call ev))"
proof -
  let ?ns = "[\<lparr>f_i_exp = 1, df_i_exp = 3, f_i_calc = 2, df_i_calc = 5\<rparr>,
              \<lparr>f_i_exp = 3, df_i_exp = 4, f_i_calc = 6, df_i_calc = 12\<rparr>]"
  let ?h = "[Graph ?ns]"
  have 1: "0 < length ?h" by simp
  have 2: "?h ! 0 = Graph ?ns" by simp
  have 3: "?ns \<noteq> []" by simp
  have x: "map (\<lambda>n. np_subtract float64_numpy (f_i_exp n)
                     (np_mean float64_numpy (map f_i_exp ?ns))) ?ns = [- 1, 1]"
    using float64_centred_small(1) by simp
  have y: "map (\<lambda>n. np_subtract float64_numpy (f_i_calc n)
                     (np_mean float64_numpy (map f_i_calc ?ns))) ?ns = [- 2, 2]"
    using float64_centred_small(2) by simp
  from plot_DGs_plots_and_scores_centred_values [OF 1 2 3,
      where est = "\<lambda>k x y xerr yerr s. Inr \<lparr>mle = 1, low = 1, high = 1\<rparr>"
        and ?fmt2.0 = "\<lambda>v. ''1.00''" and np = float64_numpy and smiles = None
        and method_name_x = "''Experimental''" and method_name_y = "''calc''"
        and target_name = "''target''" and title = "''title''" and filename = None
        and plotly = False]
  show ?thesis
    unfolding Let_def x y using 1 2 3 by blast
qed

text \<open>
  Claim C8 as stated fails: it has the centred values sum to zero. For the nodes with the
  experimental values \<^verbatim>\<open>0.1\<close>, \<^verbatim>\<open>0.2\<close> and \<^verbatim>\<open>0.4\<close> (the doubles nearest to them), the mean
  that numpy computes is \<^verbatim>\<open>0.23333333333333336\<close>, the sequence that \<^verbatim>\<open>plot_DGs\<close> draws and
  scores is \<^verbatim>\<open>[-0.13333333333333336, -0.033333333333333354, 0.16666666666666666]\<close>, and its
  sum is \<open>- 2\<^sup>-\<^sup>5\<^sup>4\<close>, whether it is taken exactly or in doubles.
\<close>

theorem centred_values_do_not_sum_to_zero_counterexample:
  "(let ns = [\<lparr>f_i_exp = float64 (1 / 10), df_i_exp = 1, f_i_calc = 1, df_i_calc = 1\<rparr>,
              \<lparr>f_i_exp = float64 (2 / 10), df_i_exp = 1, f_i_calc = 2, df_i_calc = 1\<rparr>,
              \<lparr>f_i_exp = float64 (4 / 10), df_i_exp = 1, f_i_calc = 3, df_i_calc = 1\<rparr>];
        h = [Graph ns];
        events = fst (snd (plot_DGs (\<lambda>k x y xerr yerr s. Inr \<lparr>mle = 1, low = 1, high = 1\<rparr>)
                             (\<lambda>v. ''1.00'') float64_numpy 0 None ''Experimental'' ''calc''
                             ''target'' ''title'' None False h));
        x = [- 2401919801264265 / 18014398509481984, - 1200959900632133 / 36028797018963968,
             6004799503160661 / 36028797018963968];
        y = [- 1, 0, 1]
    in (\<exists>ev \<in> set events. event_xy ev = Some (x, y) \<and> \<not> is_estimator_call ev)
     \<and> (\<exists>ev \<in> set events. event_xy ev = Some (x, y) \<and> is_estimator_call ev)
     \<and> sum_list x = - 1 / 18014398509481984
     \<and> float64_sum x = - 1 / 18014398509481984
     \<and> sum_list x \<noteq> 0)"
proof -
  let ?ns = "[\<lparr>f_i_exp = float64 (1 / 10), df_i_exp = 1, f_i_calc = 1, df_i_calc = 1\<rparr>,
              \<lparr>f_i_exp = float64 (2 / 10), df_i_exp = 1, f_i_calc = 2, df_i_calc = 1\<rparr>,
              \<lparr>f_i_exp = float64 (4 / 10), df_i_exp = 1, f_i_calc = 3, df_i_calc = 1 :: real\<rparr>]"
  let ?h = "[Graph ?ns]"
  let ?est = "(\<lambda>k x y xerr yerr s. Inr \<lparr>mle = 1, low = 1, high = 1\<rparr>) :: estimator"
  let ?events = "fst (snd (plot_DGs ?est (\<lambda>v. ''1.00'') float64_numpy 0 None ''Experimental''
                             ''calc'' ''target'' ''title'' None False ?h))"
  let ?x = "[- 2401919801264265 / 18014398509481984, - 1200959900632133 / 36028797018963968,
             6004799503160661 / 36028797018963968 :: real]"
  let ?y = "[- 1, 0, 1 :: real]"
  have 1: "0 < length ?h" by simp
  have 2: "?h ! 0 = Graph ?ns" by simp
  have 3: "?ns \<noteq> []" by simp
  have x: "map (\<lambda>v. np_subtract float64_numpy v (np_mean float64_numpy (map f_i_exp ?ns)))
             (map f_i_exp ?ns) = ?x"
    by (simp only: list.map node_attrs.select_convs float64_examples float64_mean_tenths
          float64_numpy_simps(2) float64_differences_tenths)
  have y: "map (\<lambda>v. np_subtract float64_numpy v (np_mean float64_numpy (map f_i_calc ?ns)))
             (map f_i_calc ?ns) = ?y"
    using float64_centred_small(3) by simp
  have draws: "\<exists>ev \<in> set ?events. event_xy ev = Some (?x, ?y) \<and> \<not> is_estimator_call ev"
    using plot_DGs_draws [OF 1 2 3, of ?est "\<lambda>v. ''1.00''" float64_numpy None
        "''Experimental''" "''calc''" "''target''" "''title''" None False]
    unfolding x y .
  have scores: "\<exists>ev \<in> set ?events. event_xy ev = Some (?x, ?y) \<and> is_estimator_call ev"
    using plot_DGs_scores [OF 1 2 3, of ?est "\<lambda>v. ''1.00''" float64_numpy None
        "''Experimental''" "''calc''" "''target''" "''title''" None False]
    unfolding x y .
  have s: "sum_list ?x = - 1 / 18014398509481984" by simp
  have ne: "sum_list ?x \<noteq> 0" by simp
  from draws scores s float64_sum_centred_tenths ne show ?thesis
    unfolding Let_def by (intro conjI) assumption+
qed

subsection \<open>Relative free energies: the flags of plot_DDGs\<close>

lemma plot_DDGs_events:
  assumes "results < length h" "h ! results = Result_list rs"
  shows "fst (snd (plot_DDGs est fmt2 results smiles method_name_x method_name_y target_name
                     title map_positive filename symmetrise plotly h)) =
     fst (if plotly
          then plotlying_master_plot est fmt2
                 (if \<not> map_positive then map exp_DDG rs
                  else if symmetrise then map exp_DDG rs @ map (\<lambda>r. - exp_DDG r) rs
                  else map (\<lambda>r. if exp_DDG r < 0 then - exp_DDG r else exp_DDG r) rs)
                 (if \<not> map_positive then map calc_DDG rs
                  else if symmetrise then map calc_DDG rs @ map (\<lambda>r. - calc_DDG r) rs
                  else map (\<lambda>r. if exp_DDG r < 0 then - calc_DDG r else calc_DDG r) rs)
                 (Some (map other_dDDG rs)) title (Some (map dexp_DDG rs))
                 (Some (map dcalc_DDG rs))
                 (Some (map (\<lambda>r. ligandA r @ '', '' @ ligandB r) rs)) smiles method_name_x
                 method_name_y target_name (Delta @ Delta @ ''G'') True True
                 [''RMSE'', ''MUE''] filename
          else master_plot est fmt2
                 (if \<not> map_positive then map exp_DDG rs
                  else if symmetrise then map exp_DDG rs @ map (\<lambda>r. - exp_DDG r) rs
                  else map (\<lambda>r. if exp_DDG r < 0 then - exp_DDG r else exp_DDG r) rs)
                 (if \<not> map_positive then map calc_DDG rs
                  else if symmetrise then map calc_DDG rs @ map (\<lambda>r. - calc_DDG r) rs
                  else map (\<lambda>r. if exp_DDG r < 0 then - calc_DDG r else calc_DDG r) rs)
                 title (Some (map dexp_DDG rs)) (Some (map dcalc_DDG rs)) method_name_y
                 target_name mpl_default_plot_type True True [''RMSE'', ''MUE''] filename)"
proof -
  from plot_DDGs_data_eq [OF assms, of map_positive symmetrise] obtain new where
    "plot_DDGs_data results map_positive symmetrise h =
       (Inr (if \<not> map_positive then map exp_DDG rs
             else if symmetrise then map exp_DDG rs @ map (\<lambda>r. - exp_DDG r) rs
             else map (\<lambda>r. if exp_DDG r < 0 then - exp_DDG r else exp_DDG r) rs,
             if \<not> map_positive then map calc_DDG rs
             else if symmetrise then map calc_DDG rs @ map (\<lambda>r. - calc_DDG r) rs
             else map (\<lambda>r. if exp_DDG r < 0 then - calc_DDG r else calc_DDG r) rs,
             map dexp_DDG rs, map dcalc_DDG rs, map other_dDDG rs,
             map (\<lambda>r. ligandA r @ '', '' @ ligandB r) rs),
        h @ new)"
    by blast
  then show ?thesis
    unfolding plot_DDGs_outcome by (simp only: fst_conv sum.case prod.case)
qed

lemma plot_DDGs_ignores_symmetrise:
  "plot_DDGs est fmt2 results smiles method_name_x method_name_y target_name
     title False filename symmetrise plotly h =
   plot_DDGs est fmt2 results smiles method_name_x method_name_y target_name
     title False filename symmetrise' plotly h"
  by (simp add: plot_DDGs_def plot_DDGs_data_def plot_DDGs_xy_def)

lemma events_carry:
  assumes "events = fst (if plotly
          then plotlying_master_plot est fmt2 x y c title xerr yerr names smiles method_name_x
                 method_name_y target_name plot_type guidelines origins statistics filename
          else master_plot est fmt2 x y title xerr yerr method_name target_name plot_type'
                 guidelines origins statistics filename)"
  shows "\<forall>ev \<in> set events. (\<forall>p. event_xy ev = Some p \<longrightarrow> p = (x, y))
           \<and> (\<forall>q. event_errors ev = Some q \<longrightarrow> q = (xerr, yerr))"
proof (cases plotly)
  case True
  show ?thesis
    unfolding assms if_P [OF True]
    by (intro ballI) (erule plotlying_master_plot_carries)
next
  case False
  show ?thesis
    unfolding assms if_not_P [OF False]
    by (intro ballI) (erule master_plot_carries)
qed

lemma events_draw:
  assumes "events = fst (if plotly
          then plotlying_master_plot est fmt2 x y c title xerr yerr names smiles method_name_x
                 method_name_y target_name plot_type guidelines origins statistics filename
          else master_plot est fmt2 x y title xerr yerr method_name target_name plot_type'
                 guidelines origins statistics filename)"
    and "x \<noteq> []" "length x = length y"
  shows "\<exists>ev \<in> set events. event_xy ev = Some (x, y) \<and> event_errors ev = Some (xerr, yerr)"
proof (cases plotly)
  case True
  from assms(2,3) have y: "y \<noteq> []" by auto
  have "\<exists>name clr cbar n. Add_trace (Markers x y name clr cbar xerr yerr n) \<in> set events"
    unfolding assms(1) if_P [OF True]
    by (rule plotlying_master_plot_draws [OF assms(2) y])
  then obtain name clr cbar n where
    "Add_trace (Markers x y name clr cbar xerr yerr n) \<in> set events"
    by blast
  then show ?thesis by (rule rev_bexI) simp
next
  case False
  have "Plt_errorbar x y xerr yerr \<in> set events"
    unfolding assms(1) if_not_P [OF False]
    by (rule master_plot_draws [OF assms(2,3)])
  then show ?thesis by (rule rev_bexI) simp
qed


text \<open>
  Claim C10. For every list of results: with \<^verbatim>\<open>map_positive=False\<close> the call of
  \<^verbatim>\<open>plot_DDGs\<close> is the same whatever \<^verbatim>\<open>symmetrise\<close> is, and every event that carries
  points carries exactly the raw pairs (\<open>exp_DDG\<close>, \<open>calc_DDG\<close>) in input order; with
  \<^verbatim>\<open>map_positive=True\<close> and \<^verbatim>\<open>symmetrise=True\<close> the points are the pairs followed by
  their negations; with \<^verbatim>\<open>map_positive=True\<close> and \<^verbatim>\<open>symmetrise=False\<close> every pair with
  a negative experimental value is negated, so that every x value is non-negative. With a
  non-empty list there is an event that draws the points.
\<close>

theorem plot_DDGs_data_by_flags:
  assumes "results < length h" "h ! results = Result_list rs"
  shows "(let plot = (\<lambda>map_positive symmetrise.
                        plot_DDGs est fmt2 results smiles method_name_x method_name_y
                          target_name title map_positive filename symmetrise plotly h);
              events = (\<lambda>map_positive symmetrise. fst (snd (plot map_positive symmetrise)))
          in plot False True = plot False False
           \<and> (\<forall>ev \<in> set (events False symmetrise). \<forall>p. event_xy ev = Some p \<longrightarrow>
                 p = (map exp_DDG rs, map calc_DDG rs))
           \<and> (\<forall>ev \<in> set (events True True). \<forall>p. event_xy ev = Some p \<longrightarrow>
                 p = (map exp_DDG rs @ map (\<lambda>r. - exp_DDG r) rs,
                      map calc_DDG rs @ map (\<lambda>r. - calc_DDG r) rs))
           \<and> (\<forall>ev \<in> set (events True False). \<forall>p. event_xy ev = Some p \<longrightarrow>
                 p = (map (\<lambda>r. if exp_DDG r < 0 then - exp_DDG r else exp_DDG r) rs,
                      map (\<lambda>r. if exp_DDG r < 0 then - calc_DDG r else calc_DDG r) rs)
                 \<and> (\<forall>v \<in> set (fst p). 0 \<le> v))
           \<and> (rs \<noteq> [] \<longrightarrow>
                (\<exists>ev \<in> set (events map_positive symmetrise).
                    event_xy ev \<noteq> None \<and> event_errors ev \<noteq> None)))"
proof -
  let ?events = "\<lambda>map_positive symmetrise.
      fst (snd (plot_DDGs est fmt2 results smiles method_name_x method_name_y
                  target_name title map_positive filename symmetrise plotly h))"
  note carry = events_carry [OF plot_DDGs_events [OF assms],
      unfolded not_False_eq_True not_True_eq_False if_True if_False]
  have c0: "plot_DDGs est fmt2 results smiles method_name_x method_name_y
                          target_name title False filename True plotly h =
            plot_DDGs est fmt2 results smiles method_name_x method_name_y
                          target_name title False filename False plotly h"
    by (rule plot_DDGs_ignores_symmetrise)
  have c1: "\<forall>ev \<in> set (?events False symmetrise). \<forall>p. event_xy ev = Some p \<longrightarrow>
                 p = (map exp_DDG rs, map calc_DDG rs)"
  proof (intro ballI allI impI)
    fix ev p
    assume "ev \<in> set (?events False symmetrise)" "event_xy ev = Some p"
    with carry [of est fmt2 smiles method_name_x method_name_y target_name title False
        filename symmetrise plotly]
    show "p = (map exp_DDG rs, map calc_DDG rs)"
      unfolding not_False_eq_True not_True_eq_False if_True if_False by blast
  qed
  have c2: "\<forall>ev \<in> set (?events True True). \<forall>p. event_xy ev = Some p \<longrightarrow>
                 p = (map exp_DDG rs @ map (\<lambda>r. - exp_DDG r) rs,
                      map calc_DDG rs @ map (\<lambda>r. - calc_DDG r) rs)"
  proof (intro ballI allI impI)
    fix ev p
    assume "ev \<in> set (?events True True)" "event_xy ev = Some p"
    with carry [of est fmt2 smiles method_name_x method_name_y target_name title True
        filename True plotly]
    show "p = (map exp_DDG rs @ map (\<lambda>r. - exp_DDG r) rs,
                      map calc_DDG rs @ map (\<lambda>r. - calc_DDG r) rs)"
      unfolding not_False_eq_True not_True_eq_False if_True if_False by blast
  qed
  have nonneg: "\<forall>v \<in> set (map (\<lambda>r. if exp_DDG r < 0 then - exp_DDG r else exp_DDG r) rs). 0 \<le> v"
    by auto
  have c3: "\<forall>ev \<in> set (?events True False). \<forall>p. event_xy ev = Some p \<longrightarrow>
                 p = (map (\<lambda>r. if exp_DDG r < 0 then - exp_DDG r else exp_DDG r) rs,
                      map (\<lambda>r. if exp_DDG r < 0 then - calc_DDG r else calc_DDG r) rs)
                 \<and> (\<forall>v \<in> set (fst p). 0 \<le> v)"
  proof (intro ballI allI impI)
    fix ev p
    assume "ev \<in> set (?events True False)" "event_xy ev = Some p"
    with carry [of est fmt2 smiles method_name_x method_name_y target_name title True
        filename False plotly]
    have "p = (map (\<lambda>r. if exp_DDG r < 0 then - exp_DDG r else exp_DDG r) rs,
                      map (\<lambda>r. if exp_DDG r < 0 then - calc_DDG r else calc_DDG r) rs)"
      unfolding not_False_eq_True not_True_eq_False if_True if_False by blast
    with nonneg show "p = (map (\<lambda>r. if exp_DDG r < 0 then - exp_DDG r else exp_DDG r) rs,
                      map (\<lambda>r. if exp_DDG r < 0 then - calc_DDG r else calc_DDG r) rs)
                 \<and> (\<forall>v \<in> set (fst p). 0 \<le> v)"
      by (simp only: fst_conv simp_thms)
  qed
  have c4: "rs \<noteq> [] \<longrightarrow> (\<exists>ev \<in> set (?events map_positive symmetrise).
                    event_xy ev \<noteq> None \<and> event_errors ev \<noteq> None)"
  proof
    assume rs: "rs \<noteq> []"
    let ?x = "if \<not> map_positive then map exp_DDG rs
                  else if symmetrise then map exp_DDG rs @ map (\<lambda>r. - exp_DDG r) rs
                  else map (\<lambda>r. if exp_DDG r < 0 then - exp_DDG r else exp_DDG r) rs"
    let ?y = "if \<not> map_positive then map calc_DDG rs
                  else if symmetrise then map calc_DDG rs @ map (\<lambda>r. - calc_DDG r) rs
                  else map (\<lambda>r. if exp_DDG r < 0 then - calc_DDG r else calc_DDG r) rs"
    have "?x \<noteq> []" "length ?x = length ?y"
      using rs by simp_all
    from events_draw [OF plot_DDGs_events [OF assms, of est fmt2 smiles method_name_x
        method_name_y target_name title map_positive filename symmetrise plotly] this]
    obtain ev where "ev \<in> set (?events map_positive symmetrise)"
      "event_xy ev = Some (?x, ?y)"
      "event_errors ev = Some (Some (map dexp_DDG rs), Some (map dcalc_DDG rs))"
      by blast
    then show "\<exists>ev \<in> set (?events map_positive symmetrise).
                    event_xy ev \<noteq> None \<and> event_errors ev \<noteq> None"
      by (intro bexI [of _ ev]) simp_all
  qed
  show ?thesis
    unfolding Let_def using c0 c1 c2 c3 c4 by (intro conjI) assumption+
qed

theorem plot_DDGs_data_by_flags_witness:
  "(let rs = [\<lparr>ligandA = ''a'', ligandB = ''b'', exp_DDG = - 1, dexp_DDG = 1 / 10,
               calc_DDG = - 2, dcalc_DDG = 1 / 5, other_dDDG = 0\<rparr>,
              \<lparr>ligandA = ''b'', ligandB = ''c'', exp_DDG = 3, dexp_DDG = 1 / 10,
               calc_DDG = 1, dcalc_DDG = 1 / 5, other_dDDG = 0\<rparr>];
        h = [Result_list rs];
        plot = (\<lambda>map_positive symmetrise.
                  plot_DDGs (\<lambda>k x y xerr yerr s. Inr \<lparr>mle = 1, low = 1, high = 1\<rparr>)
                    (\<lambda>v. ''1.00'') 0 None ''Experimental'' ''calc'' ''target'' ''title''
                    map_positive None symmetrise False h);
        events = (\<lambda>map_positive symmetrise. fst (snd (plot map_positive symmetrise)))
    in 0 < length h \<and> h ! 0 = Result_list rs
     \<and> plot False True = plot False False
     \<and> (\<exists>ev \<in> set (events False True). event_xy ev = Some ([- 1, 3], [- 2, 1]))
     \<and> (\<exists>ev \<in> set (events True True). event_xy ev = Some ([- 1, 3, 1, - 3], [- 2, 1, 2, - 1]))
     \<and> (\<exists>ev \<in> set (events True False). event_xy ev = Some ([1, 3], [2, 1])))"
proof -
  let ?rs = "[\<lparr>ligandA = ''a'', ligandB = ''b'', exp_DDG = - 1, dexp_DDG = 1 / 10,
               calc_DDG = - 2, dcalc_DDG = 1 / 5, other_dDDG = 0\<rparr>,
              \<lparr>ligandA = ''b'', ligandB = ''c'', exp_DDG = 3, dexp_DDG = 1 / 10,
               calc_DDG = 1, dcalc_DDG = 1 / 5, other_dDDG = 0 :: real\<rparr>]"
  let ?h = "[Result_list ?rs]"
  let ?est = "(\<lambda>k x y xerr yerr s. Inr \<lparr>mle = 1, low = 1, high = 1\<rparr>) :: estimator"
  let ?plot = "\<lambda>map_positive symmetrise.
                  plot_DDGs ?est (\<lambda>v. ''1.00'') 0 None ''Experimental'' ''calc'' ''target''
                    ''title'' map_positive None symmetrise False ?h"
  let ?events = "\<lambda>map_positive symmetrise. fst (snd (?plot map_positive symmetrise))"
  have 1: "0 < length ?h" by simp
  have 2: "?h ! 0 = Result_list ?rs" by simp
  have 3: "?rs \<noteq> []" by simp
  note inst = plot_DDGs_data_by_flags [OF 1 2,
      where est = "?est" and ?fmt2.0 = "\<lambda>v. ''1.00''" and smiles = None
        and method_name_x = "''Experimental''" and method_name_y = "''calc''"
        and target_name = "''target''" and title = "''title''" and filename = None
        and plotly = False, unfolded Let_def]
  have raw: "\<exists>ev \<in> set (?events False True). event_xy ev = Some ([- 1, 3], [- 2, 1])"
  proof -
    from inst [where map_positive = False and symmetrise = True] 3 obtain ev where
      ev: "ev \<in> set (?events False True)" "event_xy ev \<noteq> None" by blast
    then obtain p where p: "event_xy ev = Some p" by auto
    with inst [where map_positive = False and symmetrise = True] ev(1) have "p = (map exp_DDG ?rs, map calc_DDG ?rs)"
      by blast
    with p have "event_xy ev = Some ([- 1, 3], [- 2, 1])" by simp
    with ev(1) show ?thesis by blast
  qed
  have both: "\<exists>ev \<in> set (?events True True).
      event_xy ev = Some ([- 1, 3, 1, - 3], [- 2, 1, 2, - 1])"
  proof -
    from inst [where map_positive = True and symmetrise = True] 3 obtain ev where
      ev: "ev \<in> set (?events True True)" "event_xy ev \<noteq> None" by blast
    then obtain p where p: "event_xy ev = Some p" by auto
    with inst [where map_positive = True and symmetrise = True] ev(1) have
      "p = (map exp_DDG ?rs @ map (\<lambda>r. - exp_DDG r) ?rs,
            map calc_DDG ?rs @ map (\<lambda>r. - calc_DDG r) ?rs)"
      by blast
    with p have "event_xy ev = Some ([- 1, 3, 1, - 3], [- 2, 1, 2, - 1])" by simp
    with ev(1) show ?thesis by blast
  qed
  have pos: "\<exists>ev \<in> set (?events True False). event_xy ev = Some ([1, 3], [2, 1])"
  proof -
    from inst [where map_positive = True and symmetrise = False] 3 obtain ev where
      ev: "ev \<in> set (?events True False)" "event_xy ev \<noteq> None" by blast
    then obtain p where p: "event_xy ev = Some p" by auto
    with inst [where map_positive = True and symmetrise = False] ev(1) have
      "p = (map (\<lambda>r. if exp_DDG r < 0 then - exp_DDG r else exp_DDG r) ?rs,
            map (\<lambda>r. if exp_DDG r < 0 then - calc_DDG r else calc_DDG r) ?rs)"
      by blast
    with p have "event_xy ev = Some ([1, 3], [2, 1])" by simp
    with ev(1) show ?thesis by blast
  qed
  from inst [where map_positive = True and symmetrise = True] have same: "?plot False True = ?plot False False"
    by (rule conjunct1)
  from 1 2 same raw both pos show ?thesis
    unfolding Let_def by (intro conjI) assumption+
qed

subsection \<open>All pairwise differences\<close>

lemma sum_upto_pairs:
  "m \<le> n \<Longrightarrow> 2 * sum_list (map (\<lambda>a. n - Suc a) [0..<m]) + m * m + m = 2 * m * n"
proof (induction m)
  case 0
  then show ?case by simp
next
  case (Suc m)
  then have "2 * sum_list (map (\<lambda>a. n - Suc a) [0..<m]) + m * m + m = 2 * m * n" "Suc m \<le> n"
    by simp_all
  then show ?case
    by (simp add: algebra_simps)
qed

lemma length_combinations2: "2 * length (combinations2 n) = n * (n - 1)"
proof -
  have "length (combinations2 n) = sum_list (map (\<lambda>a. n - Suc a) [0..<n])"
    by (simp add: combinations2_def length_concat comp_def)
  moreover have "2 * sum_list (map (\<lambda>a. n - Suc a) [0..<n]) + n * n + n = 2 * n * n"
    by (rule sum_upto_pairs) simp
  moreover have "n * (n - 1) + n * n + n = 2 * n * n"
    by (cases n) (simp_all add: algebra_simps)
  ultimately show ?thesis by linarith
qed

lemma length_concat_pairs: "length (concat (map (\<lambda>p. [f p, g p]) ps)) = 2 * length ps"
  by (induction ps) simp_all

lemma nth_concat_pairs:
  "k < length ps \<Longrightarrow>
   concat (map (\<lambda>p. [f p, g p]) ps) ! (2 * k) = f (ps ! k)
   \<and> concat (map (\<lambda>p. [f p, g p]) ps) ! (2 * k + 1) = g (ps ! k)"
proof (induction ps arbitrary: k)
  case Nil
  then show ?case by simp
next
  case (Cons p ps)
  then show ?case by (cases k) simp_all
qed

lemma mset_negated_pairs:
  "mset (zip (concat (map (\<lambda>p. [fx p, - fx p]) ps))
          (zip (concat (map (\<lambda>p. [fy p, - fy p]) ps))
            (zip (concat (map (\<lambda>p. [ex p, ex p]) ps))
                 (concat (map (\<lambda>p. [ey p, ey p]) ps))))) =
   mset (zip (map uminus (concat (map (\<lambda>p. [fx p, - fx p]) ps)))
          (zip (map uminus (concat (map (\<lambda>p. [fy p, - fy p]) ps)))
            (zip (concat (map (\<lambda>p. [ex p, ex p]) ps))
                 (concat (map (\<lambda>p. [ey p, ey p]) ps)))))"
  for fx fy ex ey :: "'a \<Rightarrow> real"
  by (induction ps) simp_all


lemma plot_all_DDGs_events:
  assumes "graph < length h" "h ! graph = Graph ns"
  shows "fst (plot_all_DDGs_data graph h) = Inr (concat (map (\<lambda>(a, b). [f_i_exp (ns ! a) - f_i_exp (ns ! b), - (f_i_exp (ns ! a) - f_i_exp (ns ! b))]) (combinations2 (length ns))), concat (map (\<lambda>(a, b). [f_i_calc (ns ! a) - f_i_calc (ns ! b), - (f_i_calc (ns ! a) - f_i_calc (ns ! b))]) (combinations2 (length ns))), concat (map (\<lambda>(a, b). [sqrt ((df_i_exp (ns ! a))\<^sup>2 + (df_i_exp (ns ! b))\<^sup>2), sqrt ((df_i_exp (ns ! a))\<^sup>2 + (df_i_exp (ns ! b))\<^sup>2)]) (combinations2 (length ns))), concat (map (\<lambda>(a, b). [sqrt ((df_i_calc (ns ! a))\<^sup>2 + (df_i_calc (ns ! b))\<^sup>2), sqrt ((df_i_calc (ns ! a))\<^sup>2 + (df_i_calc (ns ! b))\<^sup>2)]) (combinations2 (length ns))))
     \<and> fst (snd (plot_all_DDGs est fmt2 graph smiles method_name_x method_name_y target_name
                     title filename plotly h)) =
     fst (if plotly
          then plotlying_master_plot est fmt2 (concat (map (\<lambda>(a, b). [f_i_exp (ns ! a) - f_i_exp (ns ! b), - (f_i_exp (ns ! a) - f_i_exp (ns ! b))]) (combinations2 (length ns)))) (concat (map (\<lambda>(a, b). [f_i_calc (ns ! a) - f_i_calc (ns ! b), - (f_i_calc (ns ! a) - f_i_calc (ns ! b))]) (combinations2 (length ns))))
                 None title (Some (concat (map (\<lambda>(a, b). [sqrt ((df_i_exp (ns ! a))\<^sup>2 + (df_i_exp (ns ! b))\<^sup>2), sqrt ((df_i_exp (ns ! a))\<^sup>2 + (df_i_exp (ns ! b))\<^sup>2)]) (combinations2 (length ns))))) (Some (concat (map (\<lambda>(a, b). [sqrt ((df_i_calc (ns ! a))\<^sup>2 + (df_i_calc (ns ! b))\<^sup>2), sqrt ((df_i_calc (ns ! a))\<^sup>2 + (df_i_calc (ns ! b))\<^sup>2)]) (combinations2 (length ns)))))
                 None None method_name_x method_name_y target_name
                 (Delta @ Delta @ ''G'') True True [''RMSE'', ''MUE''] filename
          else master_plot est fmt2 (concat (map (\<lambda>(a, b). [f_i_exp (ns ! a) - f_i_exp (ns ! b), - (f_i_exp (ns ! a) - f_i_exp (ns ! b))]) (combinations2 (length ns)))) (concat (map (\<lambda>(a, b). [f_i_calc (ns ! a) - f_i_calc (ns ! b), - (f_i_calc (ns ! a) - f_i_calc (ns ! b))]) (combinations2 (length ns))))
                 title (Some (concat (map (\<lambda>(a, b). [sqrt ((df_i_exp (ns ! a))\<^sup>2 + (df_i_exp (ns ! b))\<^sup>2), sqrt ((df_i_exp (ns ! a))\<^sup>2 + (df_i_exp (ns ! b))\<^sup>2)]) (combinations2 (length ns))))) (Some (concat (map (\<lambda>(a, b). [sqrt ((df_i_calc (ns ! a))\<^sup>2 + (df_i_calc (ns ! b))\<^sup>2), sqrt ((df_i_calc (ns ! a))\<^sup>2 + (df_i_calc (ns ! b))\<^sup>2)]) (combinations2 (length ns))))) method_name_y
                 target_name mpl_default_plot_type True True [''RMSE'', ''MUE''] filename)"
proof -
  from plot_all_DDGs_data_eq [OF assms] obtain new where
    "plot_all_DDGs_data graph h = (Inr (concat (map (\<lambda>(a, b). [f_i_exp (ns ! a) - f_i_exp (ns ! b), - (f_i_exp (ns ! a) - f_i_exp (ns ! b))]) (combinations2 (length ns))), concat (map (\<lambda>(a, b). [f_i_calc (ns ! a) - f_i_calc (ns ! b), - (f_i_calc (ns ! a) - f_i_calc (ns ! b))]) (combinations2 (length ns))), concat (map (\<lambda>(a, b). [sqrt ((df_i_exp (ns ! a))\<^sup>2 + (df_i_exp (ns ! b))\<^sup>2), sqrt ((df_i_exp (ns ! a))\<^sup>2 + (df_i_exp (ns ! b))\<^sup>2)]) (combinations2 (length ns))), concat (map (\<lambda>(a, b). [sqrt ((df_i_calc (ns ! a))\<^sup>2 + (df_i_calc (ns ! b))\<^sup>2), sqrt ((df_i_calc (ns ! a))\<^sup>2 + (df_i_calc (ns ! b))\<^sup>2)]) (combinations2 (length ns)))), h @ new)"
    by blast
  then show ?thesis
    unfolding plot_all_DDGs_outcome by (simp only: fst_conv sum.case prod.case simp_thms)
qed

text \<open>
  Claim C9. For a graph with \<open>n\<close> nodes, \<^verbatim>\<open>plot_all_DDGs\<close> hands exactly
  \<open>n (n - 1)\<close> points to the charting call: every pair of nodes \<open>a < b\<close> has its own
  position \<open>k\<close> among the combinations, where the data hold the difference
  \<open>(x\<^sub>a - x\<^sub>b, y\<^sub>a - y\<^sub>b)\<close> at \<open>2 k\<close> and its negation at \<open>2 k + 1\<close>, both with
  the error bars \<open>sqrt (dx\<^sub>a\<^sup>2 + dx\<^sub>b\<^sup>2)\<close> and \<open>sqrt (dy\<^sub>a\<^sup>2 + dy\<^sub>b\<^sup>2)\<close>. The
  points with their error bars are, as a multiset, unchanged by negation. Every event that
  carries points or error bars carries these, and with two nodes or more there is an event
  that draws them.
\<close>

theorem plot_all_DDGs_plots_every_pair_twice:
  assumes "graph < length h" "h ! graph = Graph ns"
  shows "\<exists>x y xerr yerr.
     fst (plot_all_DDGs_data graph h) = Inr (x, y, xerr, yerr)
     \<and> length x = length ns * (length ns - 1) \<and> length y = length ns * (length ns - 1)
     \<and> length xerr = length ns * (length ns - 1) \<and> length yerr = length ns * (length ns - 1)
     \<and> (\<forall>a b. a < b \<and> b < length ns \<longrightarrow>
           (\<exists>k. combinations2 (length ns) ! k = (a, b) \<and> 2 * k + 1 < length ns * (length ns - 1)
              \<and> x ! (2 * k) = f_i_exp (ns ! a) - f_i_exp (ns ! b)
              \<and> x ! (2 * k + 1) = - (f_i_exp (ns ! a) - f_i_exp (ns ! b))
              \<and> y ! (2 * k) = f_i_calc (ns ! a) - f_i_calc (ns ! b)
              \<and> y ! (2 * k + 1) = - (f_i_calc (ns ! a) - f_i_calc (ns ! b))
              \<and> xerr ! (2 * k) = sqrt ((df_i_exp (ns ! a))\<^sup>2 + (df_i_exp (ns ! b))\<^sup>2)
              \<and> xerr ! (2 * k + 1) = sqrt ((df_i_exp (ns ! a))\<^sup>2 + (df_i_exp (ns ! b))\<^sup>2)
              \<and> yerr ! (2 * k) = sqrt ((df_i_calc (ns ! a))\<^sup>2 + (df_i_calc (ns ! b))\<^sup>2)
              \<and> yerr ! (2 * k + 1) = sqrt ((df_i_calc (ns ! a))\<^sup>2 + (df_i_calc (ns ! b))\<^sup>2)))
     \<and> mset (zip x (zip y (zip xerr yerr)))
         = mset (zip (map uminus x) (zip (map uminus y) (zip xerr yerr)))
     \<and> (\<forall>ev \<in> set (fst (snd (plot_all_DDGs est fmt2 graph smiles method_name_x method_name_y
                                  target_name title filename plotly h))).
           (\<forall>p. event_xy ev = Some p \<longrightarrow> p = (x, y))
           \<and> (\<forall>q. event_errors ev = Some q \<longrightarrow> q = (Some xerr, Some yerr)))
     \<and> (2 \<le> length ns \<longrightarrow>
          (\<exists>ev \<in> set (fst (snd (plot_all_DDGs est fmt2 graph smiles method_name_x method_name_y
                                  target_name title filename plotly h))).
             event_xy ev = Some (x, y) \<and> event_errors ev = Some (Some xerr, Some yerr)))"
proof -
  let ?n = "length ns"
  let ?ps = "combinations2 ?n"
  let ?fx = "\<lambda>(a, b). f_i_exp (ns ! a) - f_i_exp (ns ! b)"
  let ?fy = "\<lambda>(a, b). f_i_calc (ns ! a) - f_i_calc (ns ! b)"
  let ?ex = "\<lambda>(a, b). sqrt ((df_i_exp (ns ! a))\<^sup>2 + (df_i_exp (ns ! b))\<^sup>2)"
  let ?ey = "\<lambda>(a, b). sqrt ((df_i_calc (ns ! a))\<^sup>2 + (df_i_calc (ns ! b))\<^sup>2)"
  let ?x = "concat (map (\<lambda>p. [?fx p, - ?fx p]) ?ps)"
  let ?y = "concat (map (\<lambda>p. [?fy p, - ?fy p]) ?ps)"
  let ?xerr = "concat (map (\<lambda>p. [?ex p, ?ex p]) ?ps)"
  let ?yerr = "concat (map (\<lambda>p. [?ey p, ?ey p]) ?ps)"
  let ?events = "fst (snd (plot_all_DDGs est fmt2 graph smiles method_name_x method_name_y
                                  target_name title filename plotly h))"
  have forms: "concat (map (\<lambda>(a, b). [f_i_exp (ns ! a) - f_i_exp (ns ! b), - (f_i_exp (ns ! a) - f_i_exp (ns ! b))]) (combinations2 (length ns))) = ?x" "concat (map (\<lambda>(a, b). [f_i_calc (ns ! a) - f_i_calc (ns ! b), - (f_i_calc (ns ! a) - f_i_calc (ns ! b))]) (combinations2 (length ns))) = ?y" "concat (map (\<lambda>(a, b). [sqrt ((df_i_exp (ns ! a))\<^sup>2 + (df_i_exp (ns ! b))\<^sup>2), sqrt ((df_i_exp (ns ! a))\<^sup>2 + (df_i_exp (ns ! b))\<^sup>2)]) (combinations2 (length ns))) = ?xerr" "concat (map (\<lambda>(a, b). [sqrt ((df_i_calc (ns ! a))\<^sup>2 + (df_i_calc (ns ! b))\<^sup>2), sqrt ((df_i_calc (ns ! a))\<^sup>2 + (df_i_calc (ns ! b))\<^sup>2)]) (combinations2 (length ns))) = ?yerr"
    by (simp_all add: case_prod_unfold)
  note ev = plot_all_DDGs_events [OF assms, of est fmt2 smiles method_name_x method_name_y
      target_name title filename plotly, unfolded forms]
  have data: "fst (plot_all_DDGs_data graph h) = Inr (?x, ?y, ?xerr, ?yerr)"
    using ev by (rule conjunct1)
  have events: "?events = fst (if plotly
          then plotlying_master_plot est fmt2 ?x ?y
                 None title (Some ?xerr) (Some ?yerr)
                 None None method_name_x method_name_y target_name
                 (Delta @ Delta @ ''G'') True True [''RMSE'', ''MUE''] filename
          else master_plot est fmt2 ?x ?y
                 title (Some ?xerr) (Some ?yerr) method_name_y
                 target_name mpl_default_plot_type True True [''RMSE'', ''MUE''] filename)"
    using ev by (rule conjunct2)
  have len: "length ?x = ?n * (?n - 1)" "length ?y = ?n * (?n - 1)"
      "length ?xerr = ?n * (?n - 1)" "length ?yerr = ?n * (?n - 1)"
    by (simp_all only: length_concat_pairs length_combinations2)
  have pairs: "\<forall>a b. a < b \<and> b < ?n \<longrightarrow>
           (\<exists>k. ?ps ! k = (a, b) \<and> 2 * k + 1 < ?n * (?n - 1)
              \<and> ?x ! (2 * k) = f_i_exp (ns ! a) - f_i_exp (ns ! b)
              \<and> ?x ! (2 * k + 1) = - (f_i_exp (ns ! a) - f_i_exp (ns ! b))
              \<and> ?y ! (2 * k) = f_i_calc (ns ! a) - f_i_calc (ns ! b)
              \<and> ?y ! (2 * k + 1) = - (f_i_calc (ns ! a) - f_i_calc (ns ! b))
              \<and> ?xerr ! (2 * k) = sqrt ((df_i_exp (ns ! a))\<^sup>2 + (df_i_exp (ns ! b))\<^sup>2)
              \<and> ?xerr ! (2 * k + 1) = sqrt ((df_i_exp (ns ! a))\<^sup>2 + (df_i_exp (ns ! b))\<^sup>2)
              \<and> ?yerr ! (2 * k) = sqrt ((df_i_calc (ns ! a))\<^sup>2 + (df_i_calc (ns ! b))\<^sup>2)
              \<and> ?yerr ! (2 * k + 1) = sqrt ((df_i_calc (ns ! a))\<^sup>2 + (df_i_calc (ns ! b))\<^sup>2))"
  proof (intro allI impI)
    fix a b assume "a < b \<and> b < ?n"
    then have "(a, b) \<in> set ?ps"
      by (simp add: set_combinations2)
    then obtain k where k: "k < length ?ps" "?ps ! k = (a, b)"
      by (auto simp: in_set_conv_nth)
    from k(1) have bound: "2 * k + 1 < ?n * (?n - 1)"
      using length_combinations2 [of ?n] by linarith
    from nth_concat_pairs [OF k(1), of ?fx "\<lambda>p. - ?fx p"]
         nth_concat_pairs [OF k(1), of ?fy "\<lambda>p. - ?fy p"]
         nth_concat_pairs [OF k(1), of ?ex ?ex]
         nth_concat_pairs [OF k(1), of ?ey ?ey] k(2) bound
    show "\<exists>k. ?ps ! k = (a, b) \<and> 2 * k + 1 < ?n * (?n - 1)
              \<and> ?x ! (2 * k) = f_i_exp (ns ! a) - f_i_exp (ns ! b)
              \<and> ?x ! (2 * k + 1) = - (f_i_exp (ns ! a) - f_i_exp (ns ! b))
              \<and> ?y ! (2 * k) = f_i_calc (ns ! a) - f_i_calc (ns ! b)
              \<and> ?y ! (2 * k + 1) = - (f_i_calc (ns ! a) - f_i_calc (ns ! b))
              \<and> ?xerr ! (2 * k) = sqrt ((df_i_exp (ns ! a))\<^sup>2 + (df_i_exp (ns ! b))\<^sup>2)
              \<and> ?xerr ! (2 * k + 1) = sqrt ((df_i_exp (ns ! a))\<^sup>2 + (df_i_exp (ns ! b))\<^sup>2)
              \<and> ?yerr ! (2 * k) = sqrt ((df_i_calc (ns ! a))\<^sup>2 + (df_i_calc (ns ! b))\<^sup>2)
              \<and> ?yerr ! (2 * k + 1) = sqrt ((df_i_calc (ns ! a))\<^sup>2 + (df_i_calc (ns ! b))\<^sup>2)"
      by (intro exI [of _ k]) (simp only: prod.case simp_thms)
  qed
  have sym: "mset (zip ?x (zip ?y (zip ?xerr ?yerr)))
         = mset (zip (map uminus ?x) (zip (map uminus ?y) (zip ?xerr ?yerr)))"
    by (rule mset_negated_pairs)
  have carry: "\<forall>ev \<in> set ?events.
           (\<forall>p. event_xy ev = Some p \<longrightarrow> p = (?x, ?y))
           \<and> (\<forall>q. event_errors ev = Some q \<longrightarrow> q = (Some ?xerr, Some ?yerr))"
    by (rule events_carry [OF events])
  have draw: "2 \<le> ?n \<longrightarrow> (\<exists>ev \<in> set ?events.
             event_xy ev = Some (?x, ?y) \<and> event_errors ev = Some (Some ?xerr, Some ?yerr))"
  proof
    assume "2 \<le> ?n"
    then have "0 < ?n" "0 < ?n - 1" by linarith+
    then have "0 < ?n * (?n - 1)" by (rule mult_pos_pos)
    with len have "?x \<noteq> []" "length ?x = length ?y"
      by (auto simp only: length_greater_0_conv [symmetric])
    from events_draw [OF events this]
    show "\<exists>ev \<in> set ?events.
             event_xy ev = Some (?x, ?y) \<and> event_errors ev = Some (Some ?xerr, Some ?yerr)" .
  qed
  from data len pairs sym carry draw show ?thesis
    by (intro exI [of _ ?x] exI [of _ ?y] exI [of _ ?xerr] exI [of _ ?yerr] conjI) assumption+
qed

theorem plot_all_DDGs_plots_every_pair_twice_witness:
  "(let ns = [\<lparr>f_i_exp = 1, df_i_exp = 3, f_i_calc = 2, df_i_calc = 5\<rparr>,
              \<lparr>f_i_exp = 3, df_i_exp = 4, f_i_calc = 6, df_i_calc = 12\<rparr>];
        h = [Graph ns];
        events = fst (snd (plot_all_DDGs
                             (\<lambda>k x y xerr yerr s. Inr \<lparr>mle = 1, low = 1, high = 1\<rparr>)
                             (\<lambda>v. ''1.00'') 0 None ''Experimental'' ''calc'' ''target''
                             ''title'' None False h))
    in 0 < length h \<and> h ! 0 = Graph ns
     \<and> (\<exists>x y xerr yerr.
           fst (plot_all_DDGs_data 0 h) = Inr (x, y, xerr, yerr)
         \<and> length x = 2 \<and> length y = 2 \<and> length xerr = 2 \<and> length yerr = 2
         \<and> x ! 0 = - 2 \<and> x ! 1 = 2 \<and> y ! 0 = - 4 \<and> y ! 1 = 4
         \<and> xerr ! 0 = 5 \<and> xerr ! 1 = 5 \<and> yerr ! 0 = 13 \<and> yerr ! 1 = 13
         \<and> (\<exists>ev \<in> set events.
               event_xy ev = Some (x, y) \<and> event_errors ev = Some (Some xerr, Some yerr))))"
proof -
  let ?ns = "[\<lparr>f_i_exp = 1, df_i_exp = 3, f_i_calc = 2, df_i_calc = 5\<rparr>,
              \<lparr>f_i_exp = 3, df_i_exp = 4, f_i_calc = 6, df_i_calc = 12 :: real\<rparr>]"
  let ?h = "[Graph ?ns]"
  let ?est = "(\<lambda>k x y xerr yerr s. Inr \<lparr>mle = 1, low = 1, high = 1\<rparr>) :: estimator"
  let ?events = "fst (snd (plot_all_DDGs ?est (\<lambda>v. ''1.00'') 0 None ''Experimental'' ''calc''
                             ''target'' ''title'' None False ?h))"
  have 1: "0 < length ?h" by simp
  have 2: "?h ! 0 = Graph ?ns" by simp
  have s5: "sqrt 25 = 5" using real_sqrt_abs [of 5] by simp
  have s13: "sqrt 169 = 13" using real_sqrt_abs [of 13] by simp
  from plot_all_DDGs_plots_every_pair_twice [OF 1 2,
      where est = "?est" and ?fmt2.0 = "\<lambda>v. ''1.00''" and smiles = None
        and method_name_x = "''Experimental''" and method_name_y = "''calc''"
        and target_name = "''target''" and title = "''title''" and filename = None
        and plotly = False]
  obtain x y xerr yerr where
    d: "fst (plot_all_DDGs_data 0 ?h) = Inr (x, y, xerr, yerr)"
    and l: "length x = length ?ns * (length ?ns - 1)" "length y = length ?ns * (length ?ns - 1)"
      "length xerr = length ?ns * (length ?ns - 1)" "length yerr = length ?ns * (length ?ns - 1)"
    and p: "\<forall>a b. a < b \<and> b < length ?ns \<longrightarrow>
           (\<exists>k. combinations2 (length ?ns) ! k = (a, b) \<and> 2 * k + 1 < length ?ns * (length ?ns - 1)
              \<and> x ! (2 * k) = f_i_exp (?ns ! a) - f_i_exp (?ns ! b)
              \<and> x ! (2 * k + 1) = - (f_i_exp (?ns ! a) - f_i_exp (?ns ! b))
              \<and> y ! (2 * k) = f_i_calc (?ns ! a) - f_i_calc (?ns ! b)
              \<and> y ! (2 * k + 1) = - (f_i_calc (?ns ! a) - f_i_calc (?ns ! b))
              \<and> xerr ! (2 * k) = sqrt ((df_i_exp (?ns ! a))\<^sup>2 + (df_i_exp (?ns ! b))\<^sup>2)
              \<and> xerr ! (2 * k + 1) = sqrt ((df_i_exp (?ns ! a))\<^sup>2 + (df_i_exp (?ns ! b))\<^sup>2)
              \<and> yerr ! (2 * k) = sqrt ((df_i_calc (?ns ! a))\<^sup>2 + (df_i_calc (?ns ! b))\<^sup>2)
              \<and> yerr ! (2 * k + 1) = sqrt ((df_i_calc (?ns ! a))\<^sup>2 + (df_i_calc (?ns ! b))\<^sup>2))"
    and e: "2 \<le> length ?ns \<longrightarrow>
          (\<exists>ev \<in> set ?events.
             event_xy ev = Some (x, y) \<and> event_errors ev = Some (Some xerr, Some yerr))"
    by blast
  have len: "length x = 2" "length y = 2" "length xerr = 2" "length yerr = 2"
    using l by simp_all
  have "(0::nat) < 1 \<and> 1 < length ?ns" by simp
  with p obtain k where k: "2 * k + 1 < length ?ns * (length ?ns - 1)"
      and v: "x ! (2 * k) = f_i_exp (?ns ! 0) - f_i_exp (?ns ! 1)"
        "x ! (2 * k + 1) = - (f_i_exp (?ns ! 0) - f_i_exp (?ns ! 1))"
        "y ! (2 * k) = f_i_calc (?ns ! 0) - f_i_calc (?ns ! 1)"
        "y ! (2 * k + 1) = - (f_i_calc (?ns ! 0) - f_i_calc (?ns ! 1))"
        "xerr ! (2 * k) = sqrt ((df_i_exp (?ns ! 0))\<^sup>2 + (df_i_exp (?ns ! 1))\<^sup>2)"
        "xerr ! (2 * k + 1) = sqrt ((df_i_exp (?ns ! 0))\<^sup>2 + (df_i_exp (?ns ! 1))\<^sup>2)"
        "yerr ! (2 * k) = sqrt ((df_i_calc (?ns ! 0))\<^sup>2 + (df_i_calc (?ns ! 1))\<^sup>2)"
        "yerr ! (2 * k + 1) = sqrt ((df_i_calc (?ns ! 0))\<^sup>2 + (df_i_calc (?ns ! 1))\<^sup>2)"
    by blast
  from k have k0: "k = 0" by simp
  have vals: "x ! 0 = - 2" "x ! 1 = 2" "y ! 0 = - 4" "y ! 1 = 4"
      "xerr ! 0 = 5" "xerr ! 1 = 5" "yerr ! 0 = 13" "yerr ! 1 = 13"
    using v unfolding k0 by (simp_all add: s5 s13)
  from e have ex: "\<exists>ev \<in> set ?events.
             event_xy ev = Some (x, y) \<and> event_errors ev = Some (Some xerr, Some yerr)"
    by simp
  have "\<exists>x y xerr yerr.
           fst (plot_all_DDGs_data 0 ?h) = Inr (x, y, xerr, yerr)
         \<and> length x = 2 \<and> length y = 2 \<and> length xerr = 2 \<and> length yerr = 2
         \<and> x ! 0 = - 2 \<and> x ! 1 = 2 \<and> y ! 0 = - 4 \<and> y ! 1 = 4
         \<and> xerr ! 0 = 5 \<and> xerr ! 1 = 5 \<and> yerr ! 0 = 13 \<and> yerr ! 1 = 13
         \<and> (\<exists>ev \<in> set ?events.
               event_xy ev = Some (x, y) \<and> event_errors ev = Some (Some xerr, Some yerr))"
    using d len vals ex by blast
  with 1 2 show ?thesis unfolding Let_def by (intro conjI) assumption+
qed


end
